theory Spec2Isabelle
  imports Main
begin

section \<open>Exceptions, datasets and the outside world\<close>

text \<open>
  Python exceptions as values. \<open>CustomException\<close> is the repository's wrapper
  (\<^verbatim>\<open>raise CustomException(e, sys)\<close>): it carries the exception it wraps. A subclass of
  \<^verbatim>\<open>ValueError\<close> or \<^verbatim>\<open>TypeError\<close> raised by a library is represented by its base class,
  which is what the \<^verbatim>\<open>except\<close> clauses of the source look at. The payload is the
  exception's message.
\<close>

datatype exn =
    ValueError string
  | TypeError string
  | KeyError string
  | IndexError string
  | FileNotFoundError string
  | PermissionError string
  | IsADirectoryError string
  | ConnectionRefusedError string
  | RequestsConnectionError string
  | GraphRecursionError string
  | OtherError string string
  | CustomException exn

fun is_ValueError :: "exn \<Rightarrow> bool" where
  "is_ValueError (ValueError m) = True"
| "is_ValueError e = False"

fun is_TypeError :: "exn \<Rightarrow> bool" where
  "is_TypeError (TypeError m) = True"
| "is_TypeError e = False"

fun is_RequestsConnectionError :: "exn \<Rightarrow> bool" where
  "is_RequestsConnectionError (RequestsConnectionError m) = True"
| "is_RequestsConnectionError e = False"

text \<open>\<^verbatim>\<open>str(e)\<close>: the message of an exception.\<close>

fun str_exn :: "exn \<Rightarrow> string" where
  "str_exn (ValueError m) = m"
| "str_exn (TypeError m) = m"
| "str_exn (KeyError m) = m"
| "str_exn (IndexError m) = m"
| "str_exn (FileNotFoundError m) = m"
| "str_exn (PermissionError m) = m"
| "str_exn (IsADirectoryError m) = m"
| "str_exn (ConnectionRefusedError m) = m"
| "str_exn (RequestsConnectionError m) = m"
| "str_exn (GraphRecursionError m) = m"
| "str_exn (OtherError c m) = m"
| "str_exn (CustomException e) = str_exn e"

text \<open>
  A pandas data frame as far as the agent looks at it: the columns in order, each with its
  label, its storage type and its cells, and the number of rows. The storage types are
  those \<^verbatim>\<open>pd.read_csv\<close> infers (64-bit integers, floats, booleans, and \<^verbatim>\<open>object\<close> for
  text), and \<^verbatim>\<open>category\<close>, which the profiler's selection names.
\<close>

datatype dtype = Int64 | UInt64 | Float64 | Bool | Object | Category

record column =
  cname :: string
  cdtype :: dtype
  cells :: "string list"

record dataframe =
  df_columns :: "column list"
  nrows :: nat

text \<open>The selectors the source passes to \<^verbatim>\<open>select_dtypes(include=[...])\<close>.\<close>

datatype selector = SelNumber | SelObject | SelCategory

fun matches :: "selector \<Rightarrow> dtype \<Rightarrow> bool" where
  "matches SelNumber d = (d = Int64 \<or> d = UInt64 \<or> d = Float64)"
| "matches SelObject d = (d = Object)"
| "matches SelCategory d = (d = Category)"

definition select_dtypes :: "selector list \<Rightarrow> dataframe \<Rightarrow> column list" where
  "select_dtypes include df = filter (\<lambda>c. \<exists>s \<in> set include. matches s (cdtype c)) (df_columns df)"

text \<open>\<^verbatim>\<open>df[col]\<close>: the columns carrying the label (one, as \<^verbatim>\<open>read_csv\<close> makes labels unique).\<close>

definition df_getitem :: "dataframe \<Rightarrow> string \<Rightarrow> column list" where
  "df_getitem df col = filter (\<lambda>c. cname c = col) (df_columns df)"

text \<open>\<^verbatim>\<open>df.shape\<close>.\<close>

definition shape :: "dataframe \<Rightarrow> nat \<times> nat" where
  "shape df = (nrows df, length (df_columns df))"

text \<open>What a path refers to: nothing, a directory, or a regular file (readable or not) with its content.\<close>

datatype fentry = Missing | Directory | File bool string

fun isfile_entry :: "fentry \<Rightarrow> bool" where
  "isfile_entry (File r c) = True"
| "isfile_entry e = False"

text \<open>The plots handed to the rendering libraries (matplotlib and seaborn).\<close>

datatype plot =
    HistBox "column list"
  | CountPlot "column list"
  | Heatmap "column list"

text \<open>A language model: the number of calls made before this one and the prompt give the
  content of the response, or the exception the call raises.\<close>

type_synonym llm = "nat \<Rightarrow> string \<Rightarrow> exn + string"

text \<open>A retriever: the query gives the page contents of the documents found, or an exception.\<close>

type_synonym retriever = "string \<Rightarrow> exn + string list"

text \<open>Outcome of \<^verbatim>\<open>Chroma.from_documents\<close>: the index is built and persisted, or the call
  raises; the flag says whether the directory was left behind.\<close>

datatype build_outcome = Built | BuildRaises exn bool

text \<open>
  The collaborators outside the repository, as parameters: the file system as it is when the
  program starts, pandas' CSV parser and timestamp parser, the memory figure of the summary
  (already formatted), the drawing of a plot, the creation of the plot directory and the
  saving of the figure, the HTTP probe of the Ollama
  server, the knowledge-base loader and splitter, the vector store's build and open calls.
\<close>

record env =
  fs :: "string \<Rightarrow> fentry"
  read_csv :: "string \<Rightarrow> exn + dataframe"
  to_datetime :: "column list \<Rightarrow> exn option"
  memory_usage_kb :: "dataframe \<Rightarrow> string"
  draw :: "plot \<Rightarrow> exn option"
  makedirs :: "string \<Rightarrow> exn option"
  savefig :: "plot \<Rightarrow> string \<Rightarrow> exn option"
  http_get :: "string \<Rightarrow> exn option"
  csv_loader_load :: "string \<Rightarrow> exn + string list"
  split_documents :: "nat \<Rightarrow> nat \<Rightarrow> string list \<Rightarrow> string list"
  chroma_from_documents :: "string list \<Rightarrow> string \<Rightarrow> string \<Rightarrow> build_outcome"
  chroma_open :: "string \<Rightarrow> string \<Rightarrow> exn + retriever"

text \<open>
  The effects of the program on the world, in the order they happen: the lines printed, the
  prompts sent to the language model, the queries sent to the retriever, the plot files
  saved, the index builds started (by persist directory), and the directories the vector
  store has created. Plot files are written under \<^verbatim>\<open>static/plots\<close>; the model takes
  them not to overwrite the dataset or the index directory.
\<close>

record world =
  stdout :: "string list"
  llm_log :: "string list"
  retriever_log :: "string list"
  artifacts :: "string list"
  builds :: "string list"
  index_dirs :: "string list"

definition print :: "string \<Rightarrow> world \<Rightarrow> world" where
  "print s w = w\<lparr>stdout := stdout w @ [s]\<rparr>"

text \<open>\<^verbatim>\<open>os.path.isfile\<close> and \<^verbatim>\<open>os.path.exists\<close>.\<close>

definition isfile :: "env \<Rightarrow> string \<Rightarrow> bool" where
  "isfile E p = isfile_entry (fs E p)"

definition path_exists :: "env \<Rightarrow> world \<Rightarrow> string \<Rightarrow> bool" where
  "path_exists E w p = (fs E p \<noteq> Missing \<or> p \<in> set (index_dirs w))"

subsection \<open>utils.get\_dataset\<close>

text \<open>
  \<^verbatim>\<open>pd.read_csv\<close> on the content of a file. The parameter \<open>read_csv\<close> gives the columns
  and rows the parser finds; when it finds no column at all (an empty file, say) pandas
  returns no frame but raises \<open>EmptyDataError\<close>.
\<close>

definition pd_read_csv :: "env \<Rightarrow> string \<Rightarrow> exn + dataframe" where
  "pd_read_csv E content =
     (case read_csv E content of
        Inl e \<Rightarrow> Inl e
      | Inr df \<Rightarrow>
          if df_columns df = [] then Inl (OtherError ''EmptyDataError'' ''No columns to parse from file'')
          else Inr df)"

text \<open>
  \<^verbatim>\<open>get_dataset\<close>: \<^verbatim>\<open>pd.read_csv(file_path)\<close>, every exception wrapped into
  \<open>CustomException\<close>. Opening the path fails when nothing is there, when it is a directory
  and when the file cannot be read; the message of these errors is shortened to the path.
\<close>

definition get_dataset :: "env \<Rightarrow> string \<Rightarrow> exn + dataframe" where
  "get_dataset E file_path =
     (case fs E file_path of
        Missing \<Rightarrow> Inl (CustomException (FileNotFoundError file_path))
      | Directory \<Rightarrow> Inl (CustomException (IsADirectoryError file_path))
      | File readable content \<Rightarrow>
          if \<not> readable then Inl (CustomException (PermissionError file_path))
          else (case pd_read_csv E content of
                  Inl e \<Rightarrow> Inl (CustomException e)
                | Inr df \<Rightarrow> Inr df))"

subsection \<open>Strings\<close>

text \<open>
  Strings are byte strings: a Python string is represented by its UTF-8 encoding.
  \<^verbatim>\<open>str.strip()\<close> removes the white space of both ends, white space being the characters
  for which \<^verbatim>\<open>str.isspace\<close> holds: U+0009 to U+000D, U+001C to U+0020, U+0085, U+00A0,
  U+1680, U+2000 to U+200A, U+2028, U+2029, U+202F, U+205F and U+3000. In UTF-8 the first
  group is one byte each, U+0085 and U+00A0 are two bytes, the others three.
\<close>

definition is_space :: "char \<Rightarrow> bool" where
  "is_space c = ((9 \<le> (of_char c :: nat) \<and> (of_char c :: nat) \<le> 13)
                 \<or> (28 \<le> (of_char c :: nat) \<and> (of_char c :: nat) \<le> 32))"

definition is_space2 :: "char \<Rightarrow> char \<Rightarrow> bool" where
  "is_space2 a b = (a = CHR 0xC2 \<and> (b = CHR 0x85 \<or> b = CHR 0xA0))"

definition is_space3 :: "char \<Rightarrow> char \<Rightarrow> char \<Rightarrow> bool" where
  "is_space3 a b c =
     ((a = CHR 0xE1 \<and> b = CHR 0x9A \<and> c = CHR 0x80)
      \<or> (a = CHR 0xE2 \<and> b = CHR 0x80
          \<and> ((128 \<le> (of_char c :: nat) \<and> (of_char c :: nat) \<le> 138)
              \<or> c = CHR 0xA8 \<or> c = CHR 0xA9 \<or> c = CHR 0xAF))
      \<or> (a = CHR 0xE2 \<and> b = CHR 0x81 \<and> c = CHR 0x9F)
      \<or> (a = CHR 0xE3 \<and> b = CHR 0x80 \<and> c = CHR 0x80))"

text \<open>\<^verbatim>\<open>str.lstrip()\<close>.\<close>

fun lstrip :: "string \<Rightarrow> string" where
  "lstrip (a # b # c # cs) =
     (if is_space a then lstrip (b # c # cs)
      else if is_space2 a b then lstrip (c # cs)
      else if is_space3 a b c then lstrip cs
      else a # b # c # cs)"
| "lstrip [a, b] =
     (if is_space a then lstrip [b]
      else if is_space2 a b then []
      else [a, b])"
| "lstrip [a] = (if is_space a then [] else [a])"
| "lstrip [] = []"

text \<open>The same from the other end, on the reversed string: the bytes of the last character
  come first, in reverse order.\<close>

fun lstrip_reversed :: "string \<Rightarrow> string" where
  "lstrip_reversed (a # b # c # cs) =
     (if is_space a then lstrip_reversed (b # c # cs)
      else if is_space2 b a then lstrip_reversed (c # cs)
      else if is_space3 c b a then lstrip_reversed cs
      else a # b # c # cs)"
| "lstrip_reversed [a, b] =
     (if is_space a then lstrip_reversed [b]
      else if is_space2 b a then []
      else [a, b])"
| "lstrip_reversed [a] = (if is_space a then [] else [a])"
| "lstrip_reversed [] = []"

text \<open>\<^verbatim>\<open>str.rstrip()\<close> and \<^verbatim>\<open>str.strip()\<close>.\<close>

definition rstrip :: "string \<Rightarrow> string" where
  "rstrip s = rev (lstrip_reversed (rev s))"

definition strip :: "string \<Rightarrow> string" where
  "strip s = rstrip (lstrip s)"

fun starts_with :: "string \<Rightarrow> string \<Rightarrow> bool" where
  "starts_with s [] = True"
| "starts_with [] (p # ps) = False"
| "starts_with (c # cs) (p # ps) = (c = p \<and> starts_with cs ps)"

text \<open>\<^verbatim>\<open>sub in s\<close> on strings.\<close>

fun contains :: "string \<Rightarrow> string \<Rightarrow> bool" where
  "contains sub [] = (sub = [])"
| "contains sub (c # cs) = (starts_with (c # cs) sub \<or> contains sub cs)"

text \<open>\<^verbatim>\<open>sep.join(xs)\<close>.\<close>

fun join :: "string \<Rightarrow> string list \<Rightarrow> string" where
  "join sep [] = []"
| "join sep [x] = x"
| "join sep (x # y # ys) = x @ sep @ join sep (y # ys)"

definition nl :: string where "nl = [CHR 0x0A]"
definition sq :: string where "sq = [CHR 0x27]"
definition dq :: string where "dq = [CHR 0x22]"

text \<open>The pictographs the source prints, as their UTF-8 bytes.\<close>

definition glyph_magnifier :: string where "glyph_magnifier = [CHR 0xF0, CHR 0x9F, CHR 0x94, CHR 0x8E]"
definition glyph_check :: string where "glyph_check = [CHR 0xE2, CHR 0x9C, CHR 0x85]"
definition glyph_stop :: string where "glyph_stop = [CHR 0xF0, CHR 0x9F, CHR 0x9B, CHR 0x91]"
definition glyph_thinking :: string where "glyph_thinking = [CHR 0xF0, CHR 0x9F, CHR 0xA4, CHR 0x94]"
definition glyph_robot :: string where "glyph_robot = [CHR 0xF0, CHR 0x9F, CHR 0xA4, CHR 0x96]"
definition glyph_bulb :: string where "glyph_bulb = [CHR 0xF0, CHR 0x9F, CHR 0x92, CHR 0xA1]"

text \<open>
  \<^verbatim>\<open>repr\<close> of a string and of a list of strings, as an f-string formats a list: the
  quote is the double quote when the string holds a single quote and no double quote, the
  single quote otherwise; the backslash, the chosen quote, newline, carriage return and tab
  are escaped. Other unprintable characters are left as they are.
\<close>

fun escape_char :: "char \<Rightarrow> char \<Rightarrow> string" where
  "escape_char q c =
     (if c = CHR 0x5C then [CHR 0x5C, CHR 0x5C]
      else if c = q then [CHR 0x5C, q]
      else if c = CHR 0x0A then [CHR 0x5C, CHR ''n'']
      else if c = CHR 0x0D then [CHR 0x5C, CHR ''r'']
      else if c = CHR 0x09 then [CHR 0x5C, CHR ''t'']
      else [c])"

definition repr_str :: "string \<Rightarrow> string" where
  "repr_str s =
     (let q = (if CHR 0x27 \<in> set s \<and> CHR 0x22 \<notin> set s then CHR 0x22 else CHR 0x27)
      in [q] @ concat (map (escape_char q) s) @ [q])"

definition repr_list :: "string list \<Rightarrow> string" where
  "repr_list xs = ''['' @ join '', '' (map repr_str xs) @ '']''"

text \<open>A Python dictionary from strings to strings, in insertion order.\<close>

type_synonym dict = "(string \<times> string) list"

text \<open>\<^verbatim>\<open>d.get(k, default)\<close> and \<^verbatim>\<open>d[k]\<close>.\<close>

definition dict_get :: "dict \<Rightarrow> string \<Rightarrow> string \<Rightarrow> string" where
  "dict_get d k dflt = (case map_of d k of None \<Rightarrow> dflt | Some v \<Rightarrow> v)"

definition dict_item :: "dict \<Rightarrow> string \<Rightarrow> exn + string" where
  "dict_item d k = (case map_of d k of None \<Rightarrow> Inl (KeyError k) | Some v \<Rightarrow> Inr v)"

section \<open>The retrieval pipeline (rag\_pipeline.py)\<close>

record RAGPipeline =
  data_source :: string
  chroma_db_path :: string
  embedding_model :: string

text \<open>The constructor: an absent or empty \<^verbatim>\<open>data_source\<close> gives the default corpus.\<close>

definition RAGPipeline_init :: "string option \<Rightarrow> string \<Rightarrow> string \<Rightarrow> RAGPipeline" where
  "RAGPipeline_init ds db_path model =
     \<lparr>data_source = (case ds of None \<Rightarrow> ''src/pipeline/eda_knowledge_base.csv''
                      | Some d \<Rightarrow> if d = [] then ''src/pipeline/eda_knowledge_base.csv'' else d),
      chroma_db_path = db_path,
      embedding_model = model\<rparr>"

definition model_not_found_msg :: "string \<Rightarrow> string" where
  "model_not_found_msg model =
     ''The embedding model '' @ sq @ model @ sq @ '' was not found by the Ollama server.'' @ nl @
     ''Please pull the model by running the following command in your terminal:'' @ nl @ nl @
     ''ollama pull '' @ model @ nl"

text \<open>
  \<^verbatim>\<open>_build_vector_db\<close>. Loading and splitting are outside the \<^verbatim>\<open>try\<close>: what they raise
  is not wrapped. Every call is recorded in \<open>builds\<close>.
\<close>

definition build_vector_db :: "env \<Rightarrow> RAGPipeline \<Rightarrow> world \<Rightarrow> (exn + unit) \<times> world" where
  "build_vector_db E self w0 =
     (let w = w0\<lparr>builds := builds w0 @ [chroma_db_path self]\<rparr> in
      case csv_loader_load E (data_source self) of
        Inl e \<Rightarrow> (Inl e, w)
      | Inr documents \<Rightarrow>
          let chunks = split_documents E 500 50 documents in
          (case chroma_from_documents E chunks (embedding_model self) (chroma_db_path self) of
             Built \<Rightarrow> (Inr (), w\<lparr>index_dirs := index_dirs w @ [chroma_db_path self]\<rparr>)
           | BuildRaises e left \<Rightarrow>
               let w1 = (if left then w\<lparr>index_dirs := index_dirs w @ [chroma_db_path self]\<rparr> else w) in
               if is_ValueError e then
                 (if contains ''not found, try pulling it first'' (str_exn e) then
                    (Inl (CustomException e),
                     print (replicate 80 CHR ''='' @ nl)
                       (print (model_not_found_msg (embedding_model self))
                         (print (replicate 80 CHR ''-'')
                           (print (glyph_stop @ '' Ollama Model Not Found'')
                             (print (nl @ replicate 80 CHR ''='') w1)))))
                  else (Inl (CustomException e), w1))
               else (Inl (CustomException e), w1)))"

text \<open>\<^verbatim>\<open>get_retriever\<close>: build when nothing exists at the path, then open the store.\<close>

definition get_retriever :: "env \<Rightarrow> RAGPipeline \<Rightarrow> world \<Rightarrow> (exn + retriever) \<times> world" where
  "get_retriever E self w =
     (case (if \<not> path_exists E w (chroma_db_path self) then build_vector_db E self w
            else (Inr (), w)) of
        (Inl e, w1) \<Rightarrow> (Inl e, w1)
      | (Inr u, w1) \<Rightarrow>
          (case chroma_open E (chroma_db_path self) (embedding_model self) of
             Inl e \<Rightarrow> (Inl (CustomException e), w1)
           | Inr r \<Rightarrow> (Inr r, w1)))"

section \<open>The agent (data\_visualization\_agent.py)\<close>

text \<open>
  \<^verbatim>\<open>AgentState\<close> is a dictionary: a key can be absent, so every field is an option
  (\<open>None\<close> for an absent key; for \<open>retriever\<close> also for the value \<^verbatim>\<open>None\<close>). The same
  type serves for the dictionary a node returns.
\<close>

record AgentState =
  file_path :: "string option"
  target_column :: "string option option"
  numerical_cols :: "string list option"
  categorical_cols :: "string list option"
  datetime_cols :: "string list option"
  retriever :: "retriever option"
  insights :: "string list option"
  visualizations :: "dict list option"
  current_plot_context :: "dict option"

text \<open>The empty dictionary \<^verbatim>\<open>{}\<close>.\<close>

definition empty_state :: AgentState where
  "empty_state =
     \<lparr>file_path = None, target_column = None, numerical_cols = None, categorical_cols = None,
      datetime_cols = None, retriever = None, insights = None, visualizations = None,
      current_plot_context = None\<rparr>"

record EDAVisualizationAgent =
  llm :: llm

definition ollama_down_msg :: "string \<Rightarrow> string" where
  "ollama_down_msg base_url =
     ''Connection to Ollama server at '' @ sq @ base_url @ sq @ '' failed.'' @ nl @
     ''Please ensure the Ollama application is running on your machine.'' @ nl @
     ''You can start it by running the following command in your terminal:'' @ nl @ nl @
     ''ollama serve'' @ nl"

text \<open>\<^verbatim>\<open>_check_ollama_connection\<close>: only a connection error is caught.\<close>

definition check_ollama_connection :: "env \<Rightarrow> string \<Rightarrow> world \<Rightarrow> (exn + unit) \<times> world" where
  "check_ollama_connection E base_url w =
     (let w1 = print (glyph_magnifier @ '' Checking for Ollama server connection...'') w in
      case http_get E base_url of
        None \<Rightarrow> (Inr (), print (glyph_check @ '' Ollama server is running.'') w1)
      | Some e \<Rightarrow>
          if is_RequestsConnectionError e then
            (Inl (ConnectionRefusedError ''Ollama server not found.''),
             print (replicate 80 CHR ''='' @ nl)
               (print (ollama_down_msg base_url)
                 (print (replicate 80 CHR ''-'')
                   (print (glyph_stop @ '' Ollama Connection Error'')
                     (print (nl @ replicate 80 CHR ''='') w1)))))
          else (Inl e, w1))"

text \<open>The constructor \<^verbatim>\<open>__init__\<close>; the graph is built from the agent, see \<open>build_graph\<close>.\<close>

definition agent_init :: "env \<Rightarrow> llm option \<Rightarrow> world \<Rightarrow> (exn + EDAVisualizationAgent) \<times> world" where
  "agent_init E l w =
     (case l of
        None \<Rightarrow> (Inl (ValueError ''An LLM instance must be provided.''), w)
      | Some f \<Rightarrow>
          (case check_ollama_connection E ''http://localhost:11434'' w of
             (Inl e, w1) \<Rightarrow> (Inl e, w1)
           | (Inr u, w1) \<Rightarrow> (Inr \<lparr>llm = f\<rparr>, w1)))"

text \<open>
  A method of the agent takes the state and returns a dictionary; the plot steps also
  append to the list \<^verbatim>\<open>state["visualizations"]\<close> in place. So a method gives the state
  as it has left it (the same one when it mutates nothing) and the dictionary it returns, or
  the exception it raises, and the world after it.
\<close>

type_synonym step_result = "(exn + AgentState \<times> AgentState) \<times> world"

definition caption_prompt :: "string \<Rightarrow> string \<Rightarrow> string" where
  "caption_prompt plot_type details =
     nl @ replicate 8 CHR '' '' @ ''You are an expert data analyst providing insights for a presentation.'' @
     nl @ replicate 8 CHR '' '' @ ''A '' @ plot_type @ '' has been generated for '' @ details @ ''.'' @
     nl @ replicate 8 CHR '' '' @ ''Your task is to write a single, concise, and insightful caption for this plot.'' @
     nl @ replicate 8 CHR '' '' @ ''The caption should explain the key takeaway or what the visualization reveals about the data.'' @
     nl @ replicate 8 CHR '' '' @ ''Start your caption directly, without any preamble like '' @ dq @ ''This plot shows...'' @ dq @ ''.'' @
     nl @
     nl @ replicate 8 CHR '' '' @ ''Example for a histogram of '' @ sq @ ''age'' @ sq @ '':'' @
     nl @ replicate 8 CHR '' '' @ dq @ ''The age distribution is skewed towards a younger demographic, with a significant peak in the 20-30 year old range.'' @ dq @
     nl @
     nl @ replicate 8 CHR '' '' @ ''Example for a correlation heatmap:'' @
     nl @ replicate 8 CHR '' '' @ dq @ ''Price shows a strong positive correlation with sqft_living and grade, indicating these are key drivers of value, while yr_built has a weaker relationship.'' @ dq @
     nl @ replicate 8 CHR '' ''"

text \<open>\<^verbatim>\<open>_generate_caption\<close>.\<close>

definition generate_caption :: "env \<Rightarrow> EDAVisualizationAgent \<Rightarrow> AgentState \<Rightarrow> world \<Rightarrow> step_result" where
  "generate_caption E self state w =
     (let context = (case current_plot_context state of None \<Rightarrow> [] | Some c \<Rightarrow> c) in
      if context = [] then (Inr (state, empty_state), w)
      else
        let plot_type = dict_get context ''plot_type'' ''chart'';
            details = dict_get context ''details'' ''the dataset'';
            prompt = caption_prompt plot_type details;
            w1 = print (glyph_robot @ '' Generating caption for: '' @ plot_type @ '' of '' @ details @ ''...'') w;
            w2 = w1\<lparr>llm_log := llm_log w1 @ [prompt]\<rparr>
        in (case llm self (length (llm_log w1)) prompt of
              Inl e \<Rightarrow> (Inl e, w2)
            | Inr content \<Rightarrow>
                let caption = strip content;
                    visualization_entry =
                      [(''plot_type'', plot_type), (''details'', details), (''caption'', caption)]
                in (Inr (state, empty_state\<lparr>visualizations := Some [visualization_entry],
                                            current_plot_context := Some []\<rparr>),
                    print (nl @ glyph_bulb @ '' AI Caption: '' @ caption @ nl @ replicate 80 CHR ''-'') w2)))"

text \<open>\<^verbatim>\<open>caption_state["visualizations"][0]["caption"]\<close>.\<close>

definition caption_of :: "AgentState \<Rightarrow> exn + string" where
  "caption_of caption_state =
     (case visualizations caption_state of
        None \<Rightarrow> Inl (KeyError ''visualizations'')
      | Some [] \<Rightarrow> Inl (IndexError ''list index out of range'')
      | Some (entry # rest) \<Rightarrow> dict_item entry ''caption'')"

text \<open>The loop of \<^verbatim>\<open>_profile_data_for_plotting\<close> over the text columns.\<close>

fun datetime_loop :: "env \<Rightarrow> dataframe \<Rightarrow> string list \<Rightarrow> string list \<Rightarrow> exn + string list" where
  "datetime_loop E df [] acc = Inr acc"
| "datetime_loop E df (col # cols) acc =
     (case to_datetime E (df_getitem df col) of
        None \<Rightarrow> datetime_loop E df cols (acc @ [col])
      | Some e \<Rightarrow>
          if is_ValueError e \<or> is_TypeError e then datetime_loop E df cols acc
          else Inl e)"

definition profile_data_for_plotting :: "env \<Rightarrow> EDAVisualizationAgent \<Rightarrow> AgentState \<Rightarrow> world \<Rightarrow> step_result" where
  "profile_data_for_plotting E self state w =
     (case file_path state of
        None \<Rightarrow> (Inl (KeyError ''file_path''), w)
      | Some p \<Rightarrow>
          (case get_dataset E p of
             Inl e \<Rightarrow> (Inl e, w)
           | Inr df \<Rightarrow>
               (case datetime_loop E df (map cname (select_dtypes [SelObject] df)) [] of
                  Inl e \<Rightarrow> (Inl e, w)
                | Inr dt_cols \<Rightarrow>
                    (Inr (state,
                          empty_state\<lparr>numerical_cols := Some (map cname (select_dtypes [SelNumber] df)),
                                      categorical_cols :=
                                        Some (filter (\<lambda>col. col \<notin> set dt_cols)
                                               (map cname (select_dtypes [SelObject, SelCategory] df))),
                                      datetime_cols := Some dt_cols\<rparr>), w))))"

definition insights_query :: "string list \<Rightarrow> string list \<Rightarrow> string" where
  "insights_query num_cols cat_cols =
     ''What are some common data analysis and visualization techniques '' @
     ''for a dataset with numerical columns like '' @ repr_list num_cols @ '' and '' @
     ''categorical columns like '' @ repr_list cat_cols @ ''?''"

definition synthesis_prompt :: "string \<Rightarrow> string" where
  "synthesis_prompt context =
     nl @ replicate 12 CHR '' '' @ ''Based on the following data analysis techniques, provide a concise summary of 2-3 key suggestions for an analyst.'' @
     nl @ replicate 12 CHR '' '' @ ''Focus on actionable advice.'' @
     nl @
     nl @ replicate 12 CHR '' '' @ ''Retrieved Techniques:'' @
     nl @ replicate 12 CHR '' '' @ context @
     nl @
     nl @ replicate 12 CHR '' '' @ ''Summary:'' @
     nl @ replicate 12 CHR '' ''"

text \<open>\<^verbatim>\<open>_get_contextual_insights\<close>: what the retriever or the model raises is wrapped.\<close>

definition get_contextual_insights :: "env \<Rightarrow> EDAVisualizationAgent \<Rightarrow> AgentState \<Rightarrow> world \<Rightarrow> step_result" where
  "get_contextual_insights E self state w =
     (let w1 = print (nl @ glyph_thinking @ '' Querying RAG pipeline for contextual insights...'') w in
      case retriever state of
        None \<Rightarrow> (Inr (state, empty_state\<lparr>insights := Some [''Retriever not available.'']\<rparr>), w1)
      | Some r \<Rightarrow>
          let num_cols = (case numerical_cols state of None \<Rightarrow> [] | Some c \<Rightarrow> c);
              cat_cols = (case categorical_cols state of None \<Rightarrow> [] | Some c \<Rightarrow> c);
              query = insights_query num_cols cat_cols;
              w2 = w1\<lparr>retriever_log := retriever_log w1 @ [query]\<rparr>
          in (case r query of
                Inl e \<Rightarrow> (Inl (CustomException e), w2)
              | Inr retrieved_docs \<Rightarrow>
                  let context = join nl retrieved_docs;
                      prompt = synthesis_prompt context;
                      w3 = w2\<lparr>llm_log := llm_log w2 @ [prompt]\<rparr>
                  in (case llm self (length (llm_log w2)) prompt of
                        Inl e \<Rightarrow> (Inl (CustomException e), w3)
                      | Inr content \<Rightarrow>
                          (Inr (state, empty_state\<lparr>insights := Some [strip content]\<rparr>),
                           print (glyph_check @ '' RAG Insights Generated.'') w3))))"

text \<open>
  The plot steps. \<^verbatim>\<open>df[col]\<close> raises \<open>KeyError\<close> for a label the frame does not have.
  The file name is joined to \<^verbatim>\<open>static/plots\<close> with the separator of POSIX.
\<close>

definition plots_dir :: string where
  "plots_dir = ''static/plots''"

definition path_join :: "string \<Rightarrow> string \<Rightarrow> string" where
  "path_join d f = d @ ''/'' @ f"

text \<open>\<^verbatim>\<open>state["visualizations"].append(entry)\<close>.\<close>

definition append_visualization :: "AgentState \<Rightarrow> dict \<Rightarrow> exn + AgentState" where
  "append_visualization state entry =
     (case visualizations state of
        None \<Rightarrow> Inl (KeyError ''visualizations'')
      | Some vs \<Rightarrow> Inr (state\<lparr>visualizations := Some (vs @ [entry])\<rparr>))"

text \<open>The body of the loop of \<^verbatim>\<open>_plot_univariate_numerical\<close>, and the loop.\<close>

definition numerical_body :: "env \<Rightarrow> EDAVisualizationAgent \<Rightarrow> dataframe \<Rightarrow> string \<Rightarrow> AgentState \<Rightarrow> world
    \<Rightarrow> (exn + AgentState) \<times> world" where
  "numerical_body E self df col state w =
     (if df_getitem df col = [] then (Inl (KeyError col), w)
      else case draw E (HistBox (df_getitem df col)) of
        Some e \<Rightarrow> (Inl e, w)
      | None \<Rightarrow>
         (case makedirs E plots_dir of
            Some e \<Rightarrow> (Inl e, w)
          | None \<Rightarrow>
             let filename = ''hist_box_'' @ col @ ''.png'';
                 filepath = path_join plots_dir filename
             in (case savefig E (HistBox (df_getitem df col)) filepath of
                   Some e \<Rightarrow> (Inl e, w)
                 | None \<Rightarrow>
                    let w1 = w\<lparr>artifacts := artifacts w @ [filepath]\<rparr> in
                    (case generate_caption E self
                            (empty_state\<lparr>current_plot_context :=
                               Some [(''plot_type'', ''Histogram and Box Plot''),
                                     (''details'', ''the numerical column '' @ sq @ col @ sq)]\<rparr>) w1 of
                       (Inl e, w2) \<Rightarrow> (Inl e, w2)
                     | (Inr (s, caption_state), w2) \<Rightarrow>
                        (case caption_of caption_state of
                           Inl e \<Rightarrow> (Inl e, w2)
                         | Inr caption \<Rightarrow>
                            (append_visualization state
                               [(''title'', ''Distribution of '' @ col),
                                (''path'', filename),
                                (''description'', caption)], w2))))))"

fun numerical_loop :: "env \<Rightarrow> EDAVisualizationAgent \<Rightarrow> dataframe \<Rightarrow> string list \<Rightarrow> AgentState \<Rightarrow> world
    \<Rightarrow> (exn + AgentState) \<times> world" where
  "numerical_loop E self df [] state w = (Inr state, w)"
| "numerical_loop E self df (col # cols) state w =
     (case numerical_body E self df col state w of
        (Inl e, w1) \<Rightarrow> (Inl e, w1)
      | (Inr state1, w1) \<Rightarrow> numerical_loop E self df cols state1 w1)"

definition plot_univariate_numerical :: "env \<Rightarrow> EDAVisualizationAgent \<Rightarrow> AgentState \<Rightarrow> world \<Rightarrow> step_result" where
  "plot_univariate_numerical E self state w =
     (case file_path state of
        None \<Rightarrow> (Inl (KeyError ''file_path''), w)
      | Some p \<Rightarrow>
         (case get_dataset E p of
            Inl e \<Rightarrow> (Inl e, w)
          | Inr df \<Rightarrow>
             (case numerical_cols state of
                None \<Rightarrow> (Inl (KeyError ''numerical_cols''), w)
              | Some cols \<Rightarrow>
                 if cols = [] then (Inr (state, empty_state\<lparr>current_plot_context := Some []\<rparr>), w)
                 else (case numerical_loop E self df cols state w of
                         (Inl e, w1) \<Rightarrow> (Inl e, w1)
                       | (Inr state1, w1) \<Rightarrow> (Inr (state1, empty_state), w1)))))"

text \<open>\<^verbatim>\<open>_plot_univariate_categorical\<close>: the directory is made once, before the loop.\<close>

definition categorical_body :: "env \<Rightarrow> EDAVisualizationAgent \<Rightarrow> dataframe \<Rightarrow> string \<Rightarrow> AgentState \<Rightarrow> world
    \<Rightarrow> (exn + AgentState) \<times> world" where
  "categorical_body E self df col state w =
     (if df_getitem df col = [] then (Inl (KeyError col), w)
      else case draw E (CountPlot (df_getitem df col)) of
        Some e \<Rightarrow> (Inl e, w)
      | None \<Rightarrow>
         let filename = ''countplot_'' @ col @ ''.png'';
             filepath = path_join plots_dir filename
         in (case savefig E (CountPlot (df_getitem df col)) filepath of
               Some e \<Rightarrow> (Inl e, w)
             | None \<Rightarrow>
                let w1 = w\<lparr>artifacts := artifacts w @ [filepath]\<rparr> in
                (case generate_caption E self
                        (empty_state\<lparr>current_plot_context :=
                           Some [(''plot_type'', ''Bar Chart''),
                                 (''details'', ''the categorical column '' @ sq @ col @ sq)]\<rparr>) w1 of
                   (Inl e, w2) \<Rightarrow> (Inl e, w2)
                 | (Inr (s, caption_state), w2) \<Rightarrow>
                    (case caption_of caption_state of
                       Inl e \<Rightarrow> (Inl e, w2)
                     | Inr caption \<Rightarrow>
                        (append_visualization state
                           [(''title'', ''Frequency of '' @ col),
                            (''path'', filename),
                            (''description'', caption)], w2)))))"

fun categorical_loop :: "env \<Rightarrow> EDAVisualizationAgent \<Rightarrow> dataframe \<Rightarrow> string list \<Rightarrow> AgentState \<Rightarrow> world
    \<Rightarrow> (exn + AgentState) \<times> world" where
  "categorical_loop E self df [] state w = (Inr state, w)"
| "categorical_loop E self df (col # cols) state w =
     (case categorical_body E self df col state w of
        (Inl e, w1) \<Rightarrow> (Inl e, w1)
      | (Inr state1, w1) \<Rightarrow> categorical_loop E self df cols state1 w1)"

definition plot_univariate_categorical :: "env \<Rightarrow> EDAVisualizationAgent \<Rightarrow> AgentState \<Rightarrow> world \<Rightarrow> step_result" where
  "plot_univariate_categorical E self state w =
     (case file_path state of
        None \<Rightarrow> (Inl (KeyError ''file_path''), w)
      | Some p \<Rightarrow>
         (case get_dataset E p of
            Inl e \<Rightarrow> (Inl e, w)
          | Inr df \<Rightarrow>
             (case categorical_cols state of
                None \<Rightarrow> (Inl (KeyError ''categorical_cols''), w)
              | Some cols \<Rightarrow>
                 if cols = [] then (Inr (state, empty_state), w)
                 else (case makedirs E plots_dir of
                         Some e \<Rightarrow> (Inl e, w)
                       | None \<Rightarrow>
                          (case categorical_loop E self df cols state w of
                             (Inl e, w1) \<Rightarrow> (Inl e, w1)
                           | (Inr state1, w1) \<Rightarrow> (Inr (state1, empty_state), w1))))))"

text \<open>\<^verbatim>\<open>_plot_correlation_heatmap\<close>: nothing to do with fewer than two numerical columns.\<close>

definition plot_correlation_heatmap :: "env \<Rightarrow> EDAVisualizationAgent \<Rightarrow> AgentState \<Rightarrow> world \<Rightarrow> step_result" where
  "plot_correlation_heatmap E self state w =
     (case file_path state of
        None \<Rightarrow> (Inl (KeyError ''file_path''), w)
      | Some p \<Rightarrow>
         (case get_dataset E p of
            Inl e \<Rightarrow> (Inl e, w)
          | Inr df \<Rightarrow>
             (case numerical_cols state of
                None \<Rightarrow> (Inl (KeyError ''numerical_cols''), w)
              | Some cols \<Rightarrow>
                 if length cols < 2 then (Inr (state, empty_state), w)
                 else if \<exists>col \<in> set cols. df_getitem df col = []
                 then (Inl (KeyError (repr_list (filter (\<lambda>col. df_getitem df col = []) cols))), w)
                 else (case draw E (Heatmap (concat (map (df_getitem df) cols))) of
                   Some e \<Rightarrow> (Inl e, w)
                 | None \<Rightarrow>
                    (case makedirs E plots_dir of
                       Some e \<Rightarrow> (Inl e, w)
                     | None \<Rightarrow>
                        let filename = ''correlation_heatmap.png'';
                            filepath = path_join plots_dir filename
                        in (case savefig E (Heatmap (concat (map (df_getitem df) cols))) filepath of
                              Some e \<Rightarrow> (Inl e, w)
                            | None \<Rightarrow>
                               let w1 = w\<lparr>artifacts := artifacts w @ [filepath]\<rparr> in
                               (case generate_caption E self
                                       (empty_state\<lparr>current_plot_context :=
                                          Some [(''plot_type'', ''Correlation Heatmap''),
                                                (''details'', ''all numerical features'')]\<rparr>) w1 of
                                  (Inl e, w2) \<Rightarrow> (Inl e, w2)
                                | (Inr (s, caption_state), w2) \<Rightarrow>
                                   (case caption_of caption_state of
                                      Inl e \<Rightarrow> (Inl e, w2)
                                    | Inr caption \<Rightarrow>
                                       (case append_visualization state
                                               [(''title'', ''Correlation Heatmap''),
                                                (''path'', filename),
                                                (''description'', caption)] of
                                          Inl e \<Rightarrow> (Inl e, w2)
                                        | Inr state1 \<Rightarrow> (Inr (state1, empty_state), w2))))))))))"

section \<open>The workflow graph\<close>

text \<open>
  The graph library (LangGraph) keeps one value per key of the state. A node's dictionary
  is merged into it key by key: \<open>insights\<close> and \<open>visualizations\<close> are declared with
  \<^verbatim>\<open>operator.add\<close>, so what a node returns for them is appended; every other key is
  overwritten. A key the dictionary does not have is left alone.
\<close>

definition add_lists :: "'a list option \<Rightarrow> 'a list option \<Rightarrow> 'a list option" where
  "add_lists old new =
     (case new of
        None \<Rightarrow> old
      | Some ys \<Rightarrow> Some ((case old of None \<Rightarrow> [] | Some xs \<Rightarrow> xs) @ ys))"

definition overwrite :: "'a option \<Rightarrow> 'a option \<Rightarrow> 'a option" where
  "overwrite old new = (case new of None \<Rightarrow> old | Some v \<Rightarrow> Some v)"

definition apply_update :: "AgentState \<Rightarrow> AgentState \<Rightarrow> AgentState" where
  "apply_update state u =
     \<lparr>file_path = overwrite (file_path state) (file_path u),
      target_column = overwrite (target_column state) (target_column u),
      numerical_cols = overwrite (numerical_cols state) (numerical_cols u),
      categorical_cols = overwrite (categorical_cols state) (categorical_cols u),
      datetime_cols = overwrite (datetime_cols state) (datetime_cols u),
      retriever = overwrite (retriever state) (retriever u),
      insights = add_lists (insights state) (insights u),
      visualizations = add_lists (visualizations state) (visualizations u),
      current_plot_context = overwrite (current_plot_context state) (current_plot_context u)\<rparr>"

type_synonym node_fn = "AgentState \<Rightarrow> world \<Rightarrow> step_result"

record graph =
  nodes :: "(string \<times> node_fn) list"
  edges :: "(string \<times> string) list"
  entry_point :: string

definition END :: string where
  "END = ''__end__''"

text \<open>\<^verbatim>\<open>_build_graph\<close>: the nodes and edges in the order the source adds them.\<close>

definition build_graph :: "env \<Rightarrow> EDAVisualizationAgent \<Rightarrow> graph" where
  "build_graph E self =
     \<lparr>nodes =
        [(''profile_data'', profile_data_for_plotting E self),
         (''get_contextual_insights'', get_contextual_insights E self),
         (''plot_univariate_numerical'', plot_univariate_numerical E self),
         (''plot_univariate_categorical'', plot_univariate_categorical E self),
         (''plot_correlation_heatmap'', plot_correlation_heatmap E self),
         (''generate_caption_for_heatmap'', generate_caption E self)],
      edges =
        [(''profile_data'', ''get_contextual_insights''),
         (''get_contextual_insights'', ''plot_univariate_numerical''),
         (''plot_univariate_numerical'', ''plot_univariate_categorical''),
         (''plot_univariate_categorical'', ''plot_correlation_heatmap''),
         (''plot_correlation_heatmap'', ''generate_caption_for_heatmap''),
         (''generate_caption_for_heatmap'', END)],
      entry_point = ''profile_data''\<rparr>"

text \<open>
  Running the compiled graph from a node: the node's function is applied to the state, its
  dictionary is merged, and the run goes on with the node its edge leads to, until \<open>END\<close>.
  An exception ends the run. The first argument counts the steps left before the library
  gives up (\<open>GraphRecursionError\<close>). Beside the outcome, the nodes started are listed in
  order, each with the state it was given.
\<close>

fun run_from :: "graph \<Rightarrow> nat \<Rightarrow> string \<Rightarrow> AgentState \<Rightarrow> world
    \<Rightarrow> ((exn + AgentState) \<times> world) \<times> (string \<times> AgentState) list" where
  "run_from g 0 n state w =
     (if n = END then ((Inr state, w), [])
      else ((Inl (GraphRecursionError ''Recursion limit reached''), w), []))"
| "run_from g (Suc k) n state w =
     (if n = END then ((Inr state, w), [])
      else case map_of (nodes g) n of
        None \<Rightarrow> ((Inl (KeyError n), w), [])
      | Some f \<Rightarrow>
         (case f state w of
            (Inl e, w1) \<Rightarrow> ((Inl e, w1), [(n, state)])
          | (Inr (state1, u), w1) \<Rightarrow>
             (case map_of (edges g) n of
                None \<Rightarrow> ((Inr (apply_update state1 u), w1), [(n, state)])
              | Some n' \<Rightarrow>
                 (case run_from g k n' (apply_update state1 u) w1 of
                    (r, tr) \<Rightarrow> (r, (n, state) # tr)))))"

definition recursion_limit :: nat where
  "recursion_limit = 25"

text \<open>\<^verbatim>\<open>graph.invoke(initial_state)\<close>: the input is merged into the empty state first.\<close>

definition invoke :: "graph \<Rightarrow> AgentState \<Rightarrow> world
    \<Rightarrow> ((exn + AgentState) \<times> world) \<times> (string \<times> AgentState) list" where
  "invoke g input w = run_from g recursion_limit (entry_point g) (apply_update empty_state input) w"

section \<open>run\<close>

record basic_info =
  rows :: nat
  columns :: nat
  memory_usage :: string

record results =
  info :: basic_info
  result_visualizations :: "dict list"

definition invalid_path_msg :: "string \<Rightarrow> string" where
  "invalid_path_msg p =
     ''The provided path is not a valid file: '' @ sq @ p @ sq @ nl @
     ''Please provide the correct path to your CSV dataset.'' @ nl @ nl @
     ''Example usage:'' @ nl @
     ''agent.run('' @ sq @ ''path/to/your/data.csv'' @ sq @ '')''"

definition initial_state :: "string \<Rightarrow> string option \<Rightarrow> retriever \<Rightarrow> AgentState" where
  "initial_state p target r =
     empty_state\<lparr>file_path := Some p, target_column := Some target, visualizations := Some [],
                 current_plot_context := Some [], insights := Some [], retriever := Some r\<rparr>"

definition run :: "env \<Rightarrow> EDAVisualizationAgent \<Rightarrow> string \<Rightarrow> string option \<Rightarrow> world
    \<Rightarrow> (exn + results) \<times> world" where
  "run E self p target w =
     (if \<not> isfile E p then (Inl (FileNotFoundError (invalid_path_msg p)), w)
      else case get_dataset E p of
        Inl e \<Rightarrow> (Inl e, w)
      | Inr df \<Rightarrow>
         (case get_retriever E (RAGPipeline_init None ''chroma_db'' ''nomic-embed-text'') w of
            (Inl e, w1) \<Rightarrow> (Inl e, w1)
          | (Inr r, w1) \<Rightarrow>
             (case fst (invoke (build_graph E self) (initial_state p target r) w1) of
                (Inl e, w2) \<Rightarrow> (Inl e, w2)
              | (Inr final_state, w2) \<Rightarrow>
                 (Inr \<lparr>info = \<lparr>rows = fst (shape df), columns = snd (shape df),
                               memory_usage = memory_usage_kb E df\<rparr>,
                       result_visualizations =
                         (case visualizations final_state of None \<Rightarrow> [] | Some vs \<Rightarrow> vs)\<rparr>, w2))))"

section \<open>Notions used in the statements\<close>

text \<open>
  The nodes of a list applied one after the other, each dictionary merged before the next
  node starts: what \<open>run_from\<close> does on a graph whose edges form a single chain (lemma
  \<open>invoke_build_graph\<close>).
\<close>

fun run_chain :: "(string \<times> node_fn) list \<Rightarrow> AgentState \<Rightarrow> world
    \<Rightarrow> ((exn + AgentState) \<times> world) \<times> (string \<times> AgentState) list" where
  "run_chain [] state w = ((Inr state, w), [])"
| "run_chain ((n, f) # rest) state w =
     (case f state w of
        (Inl e, w1) \<Rightarrow> ((Inl e, w1), [(n, state)])
      | (Inr (state1, u), w1) \<Rightarrow>
         (case run_chain rest (apply_update state1 u) w1 of
            (r, tr) \<Rightarrow> (r, (n, state) # tr)))"

text \<open>The order of the nodes along the edges of the graph.\<close>

definition node_order :: "string list" where
  "node_order =
     [''profile_data'', ''get_contextual_insights'', ''plot_univariate_numerical'',
      ''plot_univariate_categorical'', ''plot_correlation_heatmap'',
      ''generate_caption_for_heatmap'']"

text \<open>The caption of a record of the dashboard (its \<open>description\<close>), when it has one.\<close>

definition description :: "dict \<Rightarrow> string option" where
  "description e = map_of e ''description''"

text \<open>A record whose caption is the stripped content of a response of the agent's model.\<close>

definition captioned_by :: "EDAVisualizationAgent \<Rightarrow> dict \<Rightarrow> bool" where
  "captioned_by self e =
     (\<exists>k prompt content. llm self k prompt = Inr content \<and> description e = Some (strip content))"

text \<open>The second world has the index builds and index directories of the first.\<close>

definition same_index :: "world \<Rightarrow> world \<Rightarrow> bool" where
  "same_index w w' = (builds w' = builds w \<and> index_dirs w' = index_dirs w)"

text \<open>The pending plot context of a state is the empty dictionary.\<close>

definition context_empty :: "AgentState \<Rightarrow> bool" where
  "context_empty s = (current_plot_context s = Some [])"

subsection \<open>An example: the dataset \<open>age, city, signup_date\<close>\<close>

definition example_df :: dataframe where
  "example_df =
     \<lparr>df_columns =
        [\<lparr>cname = ''age'', cdtype = Int64, cells = [''31'', ''45'']\<rparr>,
         \<lparr>cname = ''city'', cdtype = Object, cells = [''Oslo'', ''Lima'']\<rparr>,
         \<lparr>cname = ''signup_date'', cdtype = Object, cells = [''2021-01-05'', ''2022-03-09'']\<rparr>],
      nrows = 2\<rparr>"

definition example_retriever :: retriever where
  "example_retriever = (\<lambda>q. Inr [''Plot a histogram for every numerical column.''])"

definition example_env :: env where
  "example_env =
     \<lparr>fs = (\<lambda>p. if p = ''data/people.csv'' then File True ''age,city,signup_date''
                else if p = ''chroma_db'' then Directory else Missing),
      read_csv = (\<lambda>c. Inr example_df),
      to_datetime = (\<lambda>cs. if map cname cs = [''signup_date''] then None
                          else Some (ValueError ''Unknown datetime string format'')),
      memory_usage_kb = (\<lambda>df. ''0.48 KB''),
      draw = (\<lambda>p. None),
      makedirs = (\<lambda>d. None),
      savefig = (\<lambda>p f. None),
      http_get = (\<lambda>u. None),
      csv_loader_load = (\<lambda>p. Inr [''technique: histogram'']),
      split_documents = (\<lambda>size overlap docs. docs),
      chroma_from_documents = (\<lambda>chunks model dir. Built),
      chroma_open = (\<lambda>dir model. Inr example_retriever)\<rparr>"

definition example_agent :: EDAVisualizationAgent where
  "example_agent = \<lparr>llm = (\<lambda>k prompt. Inr '' Ages cluster around forty. '')\<rparr>"

definition world0 :: world where
  "world0 = \<lparr>stdout = [], llm_log = [], retriever_log = [], artifacts = [], builds = [],
             index_dirs = []\<rparr>"

text \<open>The second state is the first with the records \<open>es\<close> appended to its visualizations.\<close>

definition appended :: "AgentState \<Rightarrow> dict list \<Rightarrow> AgentState \<Rightarrow> bool" where
  "appended s es s' =
     ((es = [] \<and> s' = s)
      \<or> (\<exists>vs. visualizations s = Some vs \<and> s' = s\<lparr>visualizations := Some (vs @ es)\<rparr>))"

text \<open>
  What every node of the graph guarantees about the state it leaves and the dictionary it
  returns: the dictionary sets the plot context to the empty dictionary or not at all; the
  state is the one it was given with records appended whose captions come from the model; and
  started on an empty plot context, the dictionary holds no visualizations.
\<close>

definition step_contract :: "EDAVisualizationAgent \<Rightarrow> AgentState \<Rightarrow> AgentState \<Rightarrow> AgentState \<Rightarrow> bool" where
  "step_contract self s s1 u =
     ((current_plot_context u = None \<or> current_plot_context u = Some [])
      \<and> (\<exists>es. appended s es s1 \<and> list_all (captioned_by self) es)
      \<and> (context_empty s \<longrightarrow> visualizations u = None))"

text \<open>Variations of the example: a dataset that cannot be read, an Ollama server that is
  down, and an embedding model that is not installed (with no index on disk).\<close>

definition locked_env :: env where
  "locked_env = example_env\<lparr>fs := (\<lambda>p. if p = ''data/locked.csv'' then File False ''a,b'' else Missing)\<rparr>"

definition default_rag :: RAGPipeline where
  "default_rag = RAGPipeline_init None ''chroma_db'' ''nomic-embed-text''"

definition down_env :: env where
  "down_env = example_env\<lparr>fs := (\<lambda>p. Missing),
      chroma_from_documents := (\<lambda>chunks model dir. BuildRaises (RequestsConnectionError ''Connection refused'') False),
      http_get := (\<lambda>u. Some (RequestsConnectionError ''Connection refused''))\<rparr>"

definition absent_env :: env where
  "absent_env = example_env\<lparr>fs := (\<lambda>p. Missing),
      chroma_from_documents := (\<lambda>chunks model dir.
         BuildRaises (ValueError ''model not found, try pulling it first'') False)\<rparr>"

text \<open>An agent whose model answers every prompt with the same text.\<close>

definition answering :: "string \<Rightarrow> EDAVisualizationAgent" where
  "answering c = \<lparr>llm = (\<lambda>k prompt. Inr c)\<rparr>"

text \<open>The example with no index on disk yet.\<close>

definition fresh_env :: env where
  "fresh_env = example_env\<lparr>fs := (\<lambda>p. if p = ''data/people.csv'' then File True ''age,city,signup_date''
                                       else Missing)\<rparr>"

text \<open>The example with an empty file, in which the parser finds no column, and with a file
  that holds the header line only: three columns, read as text, with no rows (the timestamp
  parser accepts a column with no values).\<close>

definition empty_df :: dataframe where
  "empty_df = \<lparr>df_columns = [], nrows = 0\<rparr>"

definition empty_env :: env where
  "empty_env =
     example_env\<lparr>fs := (\<lambda>p. if p = ''data/people.csv'' then File True []
                          else if p = ''chroma_db'' then Directory else Missing),
                 read_csv := (\<lambda>c. Inr empty_df)\<rparr>"

definition header_df :: dataframe where
  "header_df =
     \<lparr>df_columns =
        [\<lparr>cname = ''age'', cdtype = Object, cells = []\<rparr>,
         \<lparr>cname = ''city'', cdtype = Object, cells = []\<rparr>,
         \<lparr>cname = ''signup_date'', cdtype = Object, cells = []\<rparr>],
      nrows = 0\<rparr>"

definition header_env :: env where
  "header_env = example_env\<lparr>read_csv := (\<lambda>c. Inr header_df), to_datetime := (\<lambda>cs. None)\<rparr>"

text \<open>Two states of the example: no column to plot, and the one numerical column.\<close>

definition state_no_columns :: AgentState where
  "state_no_columns =
     (initial_state ''data/people.csv'' None example_retriever)
       \<lparr>numerical_cols := Some [], categorical_cols := Some []\<rparr>"

definition state_one_numerical :: AgentState where
  "state_one_numerical =
     (initial_state ''data/people.csv'' None example_retriever)
       \<lparr>numerical_cols := Some [''age''], categorical_cols := Some []\<rparr>"

text \<open>The example with a dataset of one boolean column.\<close>

definition flag_df :: dataframe where
  "flag_df = \<lparr>df_columns = [\<lparr>cname = ''active'', cdtype = Bool, cells = [''True'', ''False'']\<rparr>],
              nrows = 2\<rparr>"

definition flag_env :: env where
  "flag_env = example_env\<lparr>read_csv := (\<lambda>c. Inr flag_df)\<rparr>"

text \<open>An input of the graph with a plot context that is pending.\<close>

definition pending_input :: AgentState where
  "pending_input =
     (initial_state ''data/people.csv'' None example_retriever)
       \<lparr>current_plot_context := Some [(''plot_type'', ''Scatter Plot'')]\<rparr>"

text \<open>
  The charts of the dashboard, the prompt that the caption generator sends to the model for
  each of them (the plot steps hand it the plot type and the details), and the record that a
  plot step appends for a chart once it has the caption.
\<close>

datatype chart = Hist string | Count string | Corr

fun chart_prompt :: "chart \<Rightarrow> string" where
  "chart_prompt (Hist col) =
     caption_prompt ''Histogram and Box Plot'' (''the numerical column '' @ sq @ col @ sq)"
| "chart_prompt (Count col) =
     caption_prompt ''Bar Chart'' (''the categorical column '' @ sq @ col @ sq)"
| "chart_prompt Corr = caption_prompt ''Correlation Heatmap'' ''all numerical features''"

fun chart_record :: "chart \<Rightarrow> string \<Rightarrow> dict" where
  "chart_record (Hist col) caption =
     [(''title'', ''Distribution of '' @ col), (''path'', ''hist_box_'' @ col @ ''.png''),
      (''description'', caption)]"
| "chart_record (Count col) caption =
     [(''title'', ''Frequency of '' @ col), (''path'', ''countplot_'' @ col @ ''.png''),
      (''description'', caption)]"
| "chart_record Corr caption =
     [(''title'', ''Correlation Heatmap''), (''path'', ''correlation_heatmap.png''),
      (''description'', caption)]"

text \<open>
  A call of the model for a chart: its number among the calls made so far, the chart, and
  the content of the model's response. The record of a call is the chart's record with the
  stripped content as caption.
\<close>

fun call_index :: "nat \<times> chart \<times> string \<Rightarrow> nat" where
  "call_index (k, c, content) = k"

fun call_chart :: "nat \<times> chart \<times> string \<Rightarrow> chart" where
  "call_chart (k, c, content) = c"

fun call_content :: "nat \<times> chart \<times> string \<Rightarrow> string" where
  "call_content (k, c, content) = content"

definition call_record :: "nat \<times> chart \<times> string \<Rightarrow> dict" where
  "call_record x = chart_record (call_chart x) (strip (call_content x))"

text \<open>
  The calls of a list have been made, one after the other and none before call \<open>n0\<close>: each
  stands in the log of prompts at its number, with the prompt of its chart, and the content
  is what the model answered to that very call.
\<close>

definition calls_logged :: "EDAVisualizationAgent \<Rightarrow> nat \<Rightarrow> world \<Rightarrow> (nat \<times> chart \<times> string) list \<Rightarrow> bool" where
  "calls_logged self n0 w calls =
     (sorted_wrt (<) (map call_index calls)
      \<and> (\<forall>x \<in> set calls.
            n0 \<le> call_index x \<and> call_index x < length (llm_log w)
            \<and> llm_log w ! call_index x = chart_prompt (call_chart x)
            \<and> llm self (call_index x) (chart_prompt (call_chart x)) = Inr (call_content x)))"

text \<open>
  From state \<open>s\<close> and world \<open>w\<close>, the call \<open>x\<close> is made and its record appended: the call is
  the next one of the log, the model answers it with the content, the log gains the prompt
  of the chart and nothing else, and the state gains the record of the call.
\<close>

definition appends_call :: "EDAVisualizationAgent \<Rightarrow> AgentState \<Rightarrow> world \<Rightarrow> nat \<times> chart \<times> string
    \<Rightarrow> AgentState \<Rightarrow> world \<Rightarrow> bool" where
  "appends_call self s w x s1 w1 =
     (call_index x = length (llm_log w)
      \<and> llm self (call_index x) (chart_prompt (call_chart x)) = Inr (call_content x)
      \<and> llm_log w1 = llm_log w @ [chart_prompt (call_chart x)]
      \<and> append_visualization s (call_record x) = Inr s1)"

text \<open>The log of prompts of the second world starts with the log of the first.\<close>

definition log_grows :: "world \<Rightarrow> world \<Rightarrow> bool" where
  "log_grows w w1 = (take (length (llm_log w)) (llm_log w1) = llm_log w)"

text \<open>
  From \<open>(s, w)\<close> to \<open>(s1, w1)\<close> the log has grown and the records of calls made in between
  have been appended; and a state all of whose records are records of calls made since call
  \<open>n0\<close>, with an empty plot context.
\<close>

definition extended :: "EDAVisualizationAgent \<Rightarrow> AgentState \<Rightarrow> world \<Rightarrow> AgentState \<Rightarrow> world \<Rightarrow> bool" where
  "extended self s w s1 w1 =
     (log_grows w w1
      \<and> (\<exists>calls. calls_logged self (length (llm_log w)) w1 calls
                  \<and> appended s (map call_record calls) s1))"

definition recorded :: "EDAVisualizationAgent \<Rightarrow> nat \<Rightarrow> AgentState \<Rightarrow> world \<Rightarrow> bool" where
  "recorded self n0 s w =
     (context_empty s \<and> n0 \<le> length (llm_log w)
      \<and> (\<exists>calls. calls_logged self n0 w calls
                  \<and> visualizations s = Some (map call_record calls)))"

text \<open>
  A string of white space only: a sequence of characters for which \<^verbatim>\<open>str.isspace\<close> holds,
  each in its UTF-8 encoding of one, two or three bytes.
\<close>

inductive blank :: "string \<Rightarrow> bool" where
  blank_Nil: "blank []"
| blank_1: "is_space a \<Longrightarrow> blank s \<Longrightarrow> blank (a # s)"
| blank_2: "is_space2 a b \<Longrightarrow> blank s \<Longrightarrow> blank (a # b # s)"
| blank_3: "is_space3 a b c \<Longrightarrow> blank s \<Longrightarrow> blank (a # b # c # s)"

code_pred blank .

section \<open>Basic facts\<close>

lemma apply_update_empty: "apply_update s empty_state = s"
  by (simp add: apply_update_def empty_state_def overwrite_def add_lists_def)

subsection \<open>Strings and the retrieval pipeline\<close>

lemma starts_with_append: "starts_with (sub @ b) sub"
  by (induction sub) auto

lemma contains_append: "contains sub (a @ sub @ b)"
proof (induction a)
  case Nil
  show ?case
  proof (cases "sub @ b")
    case Nil
    then show ?thesis by simp
  next
    case (Cons c cs)
    have "starts_with (sub @ b) sub" by (rule starts_with_append)
    with Cons show ?thesis by simp
  qed
next
  case (Cons c a)
  then show ?case by simp
qed

lemma get_retriever_existing:
  "path_exists E w (chroma_db_path rag) \<Longrightarrow>
   get_retriever E rag w =
     (case chroma_open E (chroma_db_path rag) (embedding_model rag) of
        Inl e \<Rightarrow> Inl (CustomException e) | Inr r \<Rightarrow> Inr r, w)"
  by (simp add: get_retriever_def split: sum.splits)

lemma build_vector_db_same_or_built:
  "build_vector_db E rag w = (Inr u, w1) \<Longrightarrow> path_exists E w1 (chroma_db_path rag)"
  by (auto simp: build_vector_db_def Let_def path_exists_def print_def split: sum.splits build_outcome.splits if_splits)

lemma get_retriever_success_exists:
  "get_retriever E rag w = (Inr r, w1) \<Longrightarrow> path_exists E w1 (chroma_db_path rag)"
  by (auto simp: get_retriever_def build_vector_db_same_or_built split: sum.splits if_splits prod.splits)

lemma get_retriever_twice:
  assumes "get_retriever E rag w = (Inr r, w1)"
  shows "get_retriever E rag w1 = (Inr r, w1)"
proof -
  have ex: "path_exists E w1 (chroma_db_path rag)"
    using assms by (rule get_retriever_success_exists)
  from assms have "chroma_open E (chroma_db_path rag) (embedding_model rag) = Inr r"
    by (auto simp: get_retriever_def split: sum.splits if_splits prod.splits)
  with ex show ?thesis by (simp add: get_retriever_existing)
qed

lemma build_vector_db_failure:
  assumes "csv_loader_load E (data_source rag) = Inr docs"
    and "chroma_from_documents E (split_documents E 500 50 docs) (embedding_model rag) (chroma_db_path rag) = BuildRaises e left"
  shows "fst (build_vector_db E rag w) = Inl (CustomException e)"
    and "stdout (snd (build_vector_db E rag w)) = stdout w @
          (if is_ValueError e \<and> contains ''not found, try pulling it first'' (str_exn e)
           then [nl @ replicate 80 CHR ''='', glyph_stop @ '' Ollama Model Not Found'',
                 replicate 80 CHR ''-'', model_not_found_msg (embedding_model rag),
                 replicate 80 CHR ''='' @ nl]
           else [])"
  using assms by (auto simp: build_vector_db_def Let_def print_def)

lemma check_ollama_connection_down:
  assumes "http_get E url = Some e" and "is_RequestsConnectionError e"
  shows "fst (check_ollama_connection E url w) = Inl (ConnectionRefusedError ''Ollama server not found.'')"
    and "stdout (snd (check_ollama_connection E url w)) = stdout w @
           [glyph_magnifier @ '' Checking for Ollama server connection...'',
            nl @ replicate 80 CHR ''='', glyph_stop @ '' Ollama Connection Error'',
            replicate 80 CHR ''-'', ollama_down_msg url, replicate 80 CHR ''='' @ nl]"
  using assms by (auto simp: check_ollama_connection_def Let_def print_def)

lemma messages_differ: "ollama_down_msg url \<noteq> model_not_found_msg model"
  by (simp add: ollama_down_msg_def model_not_found_msg_def)

lemma down_msg_actionable: "contains ''ollama serve'' (ollama_down_msg url)"
proof -
  have "ollama_down_msg url = (''Connection to Ollama server at '' @ sq @ url @ sq @ '' failed.'' @ nl @
     ''Please ensure the Ollama application is running on your machine.'' @ nl @
     ''You can start it by running the following command in your terminal:'' @ nl @ nl) @
     ''ollama serve'' @ nl"
    by (simp add: ollama_down_msg_def)
  then show ?thesis by (simp only: contains_append)
qed

lemma pull_msg_actionable: "contains (''ollama pull '' @ model) (model_not_found_msg model)"
proof -
  have "model_not_found_msg model = (''The embedding model '' @ sq @ model @ sq @ '' was not found by the Ollama server.'' @ nl @
     ''Please pull the model by running the following command in your terminal:'' @ nl @ nl) @
     (''ollama pull '' @ model) @ nl"
    by (simp add: model_not_found_msg_def)
  then show ?thesis by (simp only: contains_append)
qed

subsection \<open>The steps of the agent\<close>

lemma same_index_refl: "same_index w w"
  by (simp add: same_index_def)

lemma same_index_trans: "same_index w w1 \<Longrightarrow> same_index w1 w2 \<Longrightarrow> same_index w w2"
  by (simp add: same_index_def)

lemma appended_nil: "appended s [] s"
  by (simp add: appended_def)

lemma appended_trans: "appended s es s1 \<Longrightarrow> appended s1 es2 s2 \<Longrightarrow> appended s (es @ es2) s2"
  by (auto simp: appended_def)

lemma appended_context: "appended s es s1 \<Longrightarrow> current_plot_context s1 = current_plot_context s"
  by (auto simp: appended_def)

lemma generate_caption_same_index:
  "generate_caption E self st w = (r, w') \<Longrightarrow> same_index w w'"
  by (auto simp: generate_caption_def Let_def print_def same_index_def split: sum.splits if_splits)

lemma generate_caption_artifacts:
  "generate_caption E self st w = (r, w') \<Longrightarrow> artifacts w' = artifacts w"
  by (auto simp: generate_caption_def Let_def print_def split: sum.splits if_splits)

lemma generate_caption_Inr:
  assumes "generate_caption E self st w = (Inr (s, cs), w')"
    and "current_plot_context st = Some c" and "c \<noteq> []"
  shows "\<exists>content. llm self (length (llm_log w))
              (caption_prompt (dict_get c ''plot_type'' ''chart'') (dict_get c ''details'' ''the dataset''))
            = Inr content \<and> caption_of cs = Inr (strip content)"
  using assms
  by (auto simp: generate_caption_def Let_def caption_of_def dict_item_def empty_state_def print_def
      split: sum.splits if_splits)

lemma generate_caption_contract:
  assumes "generate_caption E self s w = (Inr (s1, u), w1)"
  shows "step_contract self s s1 u"
  using assms
  by (auto simp: generate_caption_def Let_def step_contract_def appended_def context_empty_def
        empty_state_def split: sum.splits if_splits option.splits)

lemma append_visualization_appended:
  "append_visualization s e = Inr s1 \<Longrightarrow> appended s [e] s1"
  by (auto simp: append_visualization_def appended_def split: option.splits)

lemma numerical_body_same_index:
  "numerical_body E self df col st w = (r, w1) \<Longrightarrow> same_index w w1"
  by (auto simp: numerical_body_def Let_def same_index_def
      split: option.splits sum.splits if_splits prod.splits
      dest!: generate_caption_same_index)

lemma numerical_body_Inr:
  assumes "numerical_body E self df col st w = (Inr st1, w1)"
  shows "\<exists>e. appended st [e] st1 \<and> captioned_by self e"
proof -
  let ?ctx = "[(''plot_type'', ''Histogram and Box Plot''), (''details'', ''the numerical column '' @ sq @ col @ sq)]"
  from assms obtain s cs w2 wa caption where
      gc: "generate_caption E self (empty_state\<lparr>current_plot_context := Some ?ctx\<rparr>) wa = (Inr (s, cs), w2)"
    and cap: "caption_of cs = Inr caption"
    and app: "append_visualization st [(''title'', ''Distribution of '' @ col),
                                (''path'', ''hist_box_'' @ col @ ''.png''),
                                (''description'', caption)] = Inr st1"
    by (auto simp: numerical_body_def Let_def split: option.splits sum.splits if_splits prod.splits)
  from generate_caption_Inr[OF gc, of ?ctx] cap obtain content k p where
      "llm self k p = Inr content" "caption = strip content"
    by auto
  then have "captioned_by self [(''title'', ''Distribution of '' @ col),
                                (''path'', ''hist_box_'' @ col @ ''.png''),
                                (''description'', caption)]"
    by (auto simp: captioned_by_def description_def)
  with append_visualization_appended[OF app] show ?thesis by blast
qed

lemma numerical_loop_same_index:
  "numerical_loop E self df cols st w = (r, w1) \<Longrightarrow> same_index w w1"
proof (induction cols arbitrary: st w)
  case Nil
  then show ?case by (simp add: same_index_refl)
next
  case (Cons col cols)
  then show ?case
    by (auto split: prod.splits sum.splits
        dest: numerical_body_same_index intro: same_index_trans)
qed

lemma numerical_loop_Inr:
  "numerical_loop E self df cols st w = (Inr st1, w1) \<Longrightarrow>
   \<exists>es. length es = length cols \<and> appended st es st1 \<and> list_all (captioned_by self) es"
proof (induction cols arbitrary: st w)
  case Nil
  then show ?case by (simp add: appended_nil)
next
  case (Cons col cols)
  from Cons.prems obtain st2 w2 where
      b: "numerical_body E self df col st w = (Inr st2, w2)"
    and l: "numerical_loop E self df cols st2 w2 = (Inr st1, w1)"
    by (auto split: prod.splits sum.splits)
  from numerical_body_Inr[OF b] obtain e where e: "appended st [e] st2" "captioned_by self e"
    by blast
  from Cons.IH[OF l] obtain es where
      es: "length es = length cols" "appended st2 es st1" "list_all (captioned_by self) es"
    by blast
  from appended_trans[OF e(1) es(2)] e(2) es(1,3)
  have "length (e # es) = length (col # cols) \<and> appended st (e # es) st1
        \<and> list_all (captioned_by self) (e # es)"
    by simp
  then show ?case by blast
qed

lemma plot_univariate_numerical_same_index:
  "plot_univariate_numerical E self s w = (r, w1) \<Longrightarrow> same_index w w1"
  by (auto simp: plot_univariate_numerical_def same_index_refl
      split: option.splits sum.splits if_splits prod.splits dest: numerical_loop_same_index)

lemma plot_univariate_numerical_Inr:
  assumes "plot_univariate_numerical E self s w = (Inr (s1, u), w1)"
  shows "\<exists>cols es. numerical_cols s = Some cols \<and> length es = length cols \<and> appended s es s1
          \<and> list_all (captioned_by self) es
          \<and> (u = empty_state \<or> u = empty_state\<lparr>current_plot_context := Some []\<rparr>)"
  using assms
  by (auto simp: plot_univariate_numerical_def appended_nil
      split: option.splits sum.splits if_splits prod.splits dest!: numerical_loop_Inr)

lemma plot_univariate_numerical_contract:
  assumes "plot_univariate_numerical E self s w = (Inr (s1, u), w1)"
  shows "step_contract self s s1 u"
  using plot_univariate_numerical_Inr[OF assms]
  by (auto simp: step_contract_def empty_state_def)

lemma categorical_body_same_index:
  "categorical_body E self df col st w = (r, w1) \<Longrightarrow> same_index w w1"
  by (auto simp: categorical_body_def Let_def same_index_def
      split: option.splits sum.splits if_splits prod.splits
      dest!: generate_caption_same_index)

lemma categorical_body_Inr:
  assumes "categorical_body E self df col st w = (Inr st1, w1)"
  shows "\<exists>e. appended st [e] st1 \<and> captioned_by self e"
proof -
  let ?ctx = "[(''plot_type'', ''Bar Chart''), (''details'', ''the categorical column '' @ sq @ col @ sq)]"
  from assms obtain s cs w2 wa caption where
      gc: "generate_caption E self (empty_state\<lparr>current_plot_context := Some ?ctx\<rparr>) wa = (Inr (s, cs), w2)"
    and cap: "caption_of cs = Inr caption"
    and app: "append_visualization st [(''title'', ''Frequency of '' @ col),
                                (''path'', ''countplot_'' @ col @ ''.png''),
                                (''description'', caption)] = Inr st1"
    by (auto simp: categorical_body_def Let_def split: option.splits sum.splits if_splits prod.splits)
  from generate_caption_Inr[OF gc, of ?ctx] cap obtain content k p where
      "llm self k p = Inr content" "caption = strip content"
    by auto
  then have "captioned_by self [(''title'', ''Frequency of '' @ col),
                                (''path'', ''countplot_'' @ col @ ''.png''),
                                (''description'', caption)]"
    by (auto simp: captioned_by_def description_def)
  with append_visualization_appended[OF app] show ?thesis by blast
qed

lemma categorical_loop_same_index:
  "categorical_loop E self df cols st w = (r, w1) \<Longrightarrow> same_index w w1"
proof (induction cols arbitrary: st w)
  case Nil
  then show ?case by (simp add: same_index_refl)
next
  case (Cons col cols)
  then show ?case
    by (auto split: prod.splits sum.splits
        dest: categorical_body_same_index intro: same_index_trans)
qed

lemma categorical_loop_Inr:
  "categorical_loop E self df cols st w = (Inr st1, w1) \<Longrightarrow>
   \<exists>es. length es = length cols \<and> appended st es st1 \<and> list_all (captioned_by self) es"
proof (induction cols arbitrary: st w)
  case Nil
  then show ?case by (simp add: appended_nil)
next
  case (Cons col cols)
  from Cons.prems obtain st2 w2 where
      b: "categorical_body E self df col st w = (Inr st2, w2)"
    and l: "categorical_loop E self df cols st2 w2 = (Inr st1, w1)"
    by (auto split: prod.splits sum.splits)
  from categorical_body_Inr[OF b] obtain e where e: "appended st [e] st2" "captioned_by self e"
    by blast
  from Cons.IH[OF l] obtain es where
      es: "length es = length cols" "appended st2 es st1" "list_all (captioned_by self) es"
    by blast
  from appended_trans[OF e(1) es(2)] e(2) es(1,3)
  have "length (e # es) = length (col # cols) \<and> appended st (e # es) st1
        \<and> list_all (captioned_by self) (e # es)"
    by simp
  then show ?case by blast
qed

lemma plot_univariate_categorical_same_index:
  "plot_univariate_categorical E self s w = (r, w1) \<Longrightarrow> same_index w w1"
  by (auto simp: plot_univariate_categorical_def same_index_refl
      split: option.splits sum.splits if_splits prod.splits dest: categorical_loop_same_index)

lemma plot_univariate_categorical_Inr:
  assumes "plot_univariate_categorical E self s w = (Inr (s1, u), w1)"
  shows "\<exists>cols es. categorical_cols s = Some cols \<and> length es = length cols \<and> appended s es s1
          \<and> list_all (captioned_by self) es \<and> u = empty_state"
  using assms
  by (auto simp: plot_univariate_categorical_def appended_nil
      split: option.splits sum.splits if_splits prod.splits dest!: categorical_loop_Inr)

lemma plot_univariate_categorical_contract:
  assumes "plot_univariate_categorical E self s w = (Inr (s1, u), w1)"
  shows "step_contract self s s1 u"
  using plot_univariate_categorical_Inr[OF assms]
  by (auto simp: step_contract_def empty_state_def)

lemma plot_correlation_heatmap_same_index:
  "plot_correlation_heatmap E self s w = (r, w1) \<Longrightarrow> same_index w w1"
  by (auto simp: plot_correlation_heatmap_def Let_def same_index_def
      split: option.splits sum.splits if_splits prod.splits
      dest!: generate_caption_same_index)

lemma plot_correlation_heatmap_Inr:
  assumes "plot_correlation_heatmap E self st w = (Inr (st1, u), w1)"
  shows "\<exists>cols es. numerical_cols st = Some cols \<and> length es = (if length cols < 2 then 0 else 1)
          \<and> appended st es st1 \<and> list_all (captioned_by self) es \<and> u = empty_state"
proof -
  from assms obtain cols where cols: "numerical_cols st = Some cols"
    by (auto simp: plot_correlation_heatmap_def split: option.splits sum.splits)
  show ?thesis
  proof (cases "length cols < 2")
    case True
    with assms cols have "st1 = st" "u = empty_state"
      by (auto simp: plot_correlation_heatmap_def split: option.splits sum.splits)
    with cols True show ?thesis by (auto simp: appended_nil)
  next
    case False
    let ?ctx = "[(''plot_type'', ''Correlation Heatmap''), (''details'', ''all numerical features'')]"
    from assms cols False obtain s cs w2 wa caption where
        gc: "generate_caption E self (empty_state\<lparr>current_plot_context := Some ?ctx\<rparr>) wa = (Inr (s, cs), w2)"
      and cap: "caption_of cs = Inr caption"
      and app: "append_visualization st [(''title'', ''Correlation Heatmap''),
                                  (''path'', ''correlation_heatmap.png''),
                                  (''description'', caption)] = Inr st1"
      and u: "u = empty_state"
      by (auto simp: plot_correlation_heatmap_def Let_def
          split: option.splits sum.splits if_splits prod.splits)
    from generate_caption_Inr[OF gc, of ?ctx] cap obtain content k p where
        "llm self k p = Inr content" "caption = strip content"
      by auto
    then have "captioned_by self [(''title'', ''Correlation Heatmap''),
                                  (''path'', ''correlation_heatmap.png''),
                                  (''description'', caption)]"
      by (auto simp: captioned_by_def description_def)
    with append_visualization_appended[OF app] cols False u show ?thesis
      by (intro exI[of _ cols] exI[of _ "[[(''title'', ''Correlation Heatmap''),
                                  (''path'', ''correlation_heatmap.png''),
                                  (''description'', caption)]]"]) simp
  qed
qed

lemma plot_correlation_heatmap_contract:
  assumes "plot_correlation_heatmap E self s w = (Inr (s1, u), w1)"
  shows "step_contract self s s1 u"
  using plot_correlation_heatmap_Inr[OF assms]
  by (auto simp: step_contract_def empty_state_def)

lemma profile_data_for_plotting_same_world:
  "profile_data_for_plotting E self s w = (r, w1) \<Longrightarrow> w1 = w"
  by (auto simp: profile_data_for_plotting_def split: option.splits sum.splits)

lemma profile_data_for_plotting_contract:
  assumes "profile_data_for_plotting E self s w = (Inr (s1, u), w1)"
  shows "step_contract self s s1 u"
  using assms
  by (auto simp: profile_data_for_plotting_def step_contract_def appended_nil empty_state_def
      split: option.splits sum.splits intro!: exI[of _ "[]"])

lemma get_contextual_insights_same_index:
  "get_contextual_insights E self s w = (r, w1) \<Longrightarrow> same_index w w1"
  by (auto simp: get_contextual_insights_def Let_def same_index_def print_def
      split: option.splits sum.splits)

lemma get_contextual_insights_artifacts:
  "get_contextual_insights E self s w = (r, w1) \<Longrightarrow> artifacts w1 = artifacts w"
  by (auto simp: get_contextual_insights_def Let_def print_def
      split: option.splits sum.splits)

lemma get_contextual_insights_contract:
  assumes "get_contextual_insights E self s w = (Inr (s1, u), w1)"
  shows "step_contract self s s1 u"
  using assms
  by (auto simp: get_contextual_insights_def Let_def step_contract_def appended_nil empty_state_def
      split: option.splits sum.splits intro!: exI[of _ "[]"])

subsection \<open>The graph\<close>

lemma invoke_build_graph:
  "invoke (build_graph E self) input w
   = run_chain (nodes (build_graph E self)) (apply_update empty_state input) w"
  by (simp add: invoke_def build_graph_def END_def recursion_limit_def eval_nat_numeral
      split: prod.splits sum.splits option.splits)

lemma run_chain_Cons:
  "run_chain ((n, f) # ns) s w =
     (case f s w of
        (Inl e, w1) \<Rightarrow> ((Inl e, w1), [(n, s)])
      | (Inr (s1, u), w1) \<Rightarrow>
          (fst (run_chain ns (apply_update s1 u) w1),
           (n, s) # snd (run_chain ns (apply_update s1 u) w1)))"
  by (simp split: prod.splits sum.splits)

lemma run_chain_trace_take:
  "map fst (snd (run_chain ns s w)) = take (length (snd (run_chain ns s w))) (map fst ns)"
proof (induction ns arbitrary: s w)
  case Nil
  then show ?case by simp
next
  case (Cons nf ns)
  obtain n f where nf: "nf = (n, f)" by (cases nf)
  show ?case
    unfolding nf run_chain_Cons
    by (simp split: prod.splits sum.splits add: Cons.IH)
qed

lemma run_chain_trace_complete:
  "fst (fst (run_chain ns s w)) = Inr sf \<Longrightarrow> map fst (snd (run_chain ns s w)) = map fst ns"
proof (induction ns arbitrary: s w)
  case Nil
  then show ?case by simp
next
  case (Cons nf ns)
  obtain n f where nf: "nf = (n, f)" by (cases nf)
  from Cons.prems show ?case
    unfolding nf run_chain_Cons
    by (auto split: prod.splits sum.splits dest: Cons.IH)
qed

lemma run_chain_trace_failed:
  "fst (fst (run_chain ns s w)) = Inl e \<Longrightarrow>
   0 < length (snd (run_chain ns s w)) \<and> length (snd (run_chain ns s w)) \<le> length ns"
proof (induction ns arbitrary: s w)
  case Nil
  then show ?case by simp
next
  case (Cons nf ns)
  obtain n f where nf: "nf = (n, f)" by (cases nf)
  from Cons.prems show ?case
    unfolding nf run_chain_Cons
    by (auto split: prod.splits sum.splits dest: Cons.IH)
qed

lemma run_chain_invariant:
  assumes step: "\<And>n f s w s1 u w1. (n, f) \<in> set ns \<Longrightarrow> P s \<Longrightarrow> f s w = (Inr (s1, u), w1)
                   \<Longrightarrow> P (apply_update s1 u)"
    and init: "P s"
  shows "(\<forall>(n, st) \<in> set (snd (run_chain ns s w)). P st)
         \<and> (\<forall>sf. fst (fst (run_chain ns s w)) = Inr sf \<longrightarrow> P sf)"
  using assms
proof (induction ns arbitrary: s w)
  case Nil
  then show ?case by simp
next
  case (Cons nf ns)
  obtain n f where nf: "nf = (n, f)" by (cases nf)
  obtain r w1 where f: "f s w = (r, w1)" by (cases "f s w")
  show ?case
  proof (cases r)
    case (Inl e)
    with nf f Cons.prems(2) show ?thesis by simp
  next
    case (Inr su)
    obtain s1 u where su: "su = (s1, u)" by (cases su)
    have P1: "P (apply_update s1 u)"
      using Cons.prems(1)[of n f s w s1 u w1] Cons.prems(2) nf f Inr su by simp
    have step': "\<And>n f s w s1 u w1. (n, f) \<in> set ns \<Longrightarrow> P s \<Longrightarrow> f s w = (Inr (s1, u), w1)
                   \<Longrightarrow> P (apply_update s1 u)"
      using Cons.prems(1) by (meson list.set_intros(2))
    have IH: "(\<forall>(n, st) \<in> set (snd (run_chain ns (apply_update s1 u) w1)). P st)
         \<and> (\<forall>sf. fst (fst (run_chain ns (apply_update s1 u) w1)) = Inr sf \<longrightarrow> P sf)"
      using step' P1 by (rule Cons.IH)
    with f Inr su Cons.prems(2) show ?thesis
      unfolding nf run_chain_Cons by simp
  qed
qed

lemma run_chain_same_index:
  assumes "\<And>n f s w r w1. (n, f) \<in> set ns \<Longrightarrow> f s w = (r, w1) \<Longrightarrow> same_index w w1"
  shows "same_index w (snd (fst (run_chain ns s w)))"
  using assms
proof (induction ns arbitrary: s w)
  case Nil
  then show ?case by (simp add: same_index_refl)
next
  case (Cons nf ns)
  obtain n f where nf: "nf = (n, f)" by (cases nf)
  obtain r w1 where f: "f s w = (r, w1)" by (cases "f s w")
  have w1: "same_index w w1"
    using Cons.prems[of n f s w r w1] nf f by simp
  show ?case
  proof (cases r)
    case (Inl e)
    with f w1 show ?thesis unfolding nf run_chain_Cons by simp
  next
    case (Inr su)
    obtain s1 u where su: "su = (s1, u)" by (cases su)
    have step': "\<And>n f s w r w1. (n, f) \<in> set ns \<Longrightarrow> f s w = (r, w1) \<Longrightarrow> same_index w w1"
      using Cons.prems by (meson list.set_intros(2))
    have "same_index w1 (snd (fst (run_chain ns (apply_update s1 u) w1)))"
      using step' by (rule Cons.IH)
    with w1 have "same_index w (snd (fst (run_chain ns (apply_update s1 u) w1)))"
      by (rule same_index_trans)
    with f Inr su show ?thesis
      unfolding nf run_chain_Cons by simp
  qed
qed

lemma build_graph_node_cases:
  assumes "(n, f) \<in> set (nodes (build_graph E self))"
  shows "f = profile_data_for_plotting E self \<or> f = get_contextual_insights E self
       \<or> f = plot_univariate_numerical E self \<or> f = plot_univariate_categorical E self
       \<or> f = plot_correlation_heatmap E self \<or> f = generate_caption E self"
  using assms by (auto simp: build_graph_def)

lemma node_contract:
  assumes "(n, f) \<in> set (nodes (build_graph E self))" and "f s w = (Inr (s1, u), w1)"
  shows "step_contract self s s1 u"
  using build_graph_node_cases[OF assms(1)] assms(2)
  by (auto dest: profile_data_for_plotting_contract get_contextual_insights_contract
      plot_univariate_numerical_contract plot_univariate_categorical_contract
      plot_correlation_heatmap_contract generate_caption_contract)

lemma node_same_index:
  assumes "(n, f) \<in> set (nodes (build_graph E self))" and "f s w = (r, w1)"
  shows "same_index w w1"
  using build_graph_node_cases[OF assms(1)] assms(2)
  by (auto dest: profile_data_for_plotting_same_world get_contextual_insights_same_index
      plot_univariate_numerical_same_index plot_univariate_categorical_same_index
      plot_correlation_heatmap_same_index generate_caption_same_index simp: same_index_refl)

lemma contract_context_empty:
  assumes "step_contract self s s1 u" and "context_empty s"
  shows "context_empty (apply_update s1 u)"
  using assms
  by (auto simp: step_contract_def context_empty_def apply_update_def overwrite_def
      dest!: appended_context)

subsection \<open>The example run\<close>

lemmas model_defs = run_def isfile_def get_dataset_def pd_read_csv_def get_retriever_def RAGPipeline_init_def path_exists_def
  build_vector_db_def invoke_def build_graph_def recursion_limit_def END_def initial_state_def
  apply_update_def overwrite_def add_lists_def empty_state_def
  profile_data_for_plotting_def select_dtypes_def df_getitem_def get_contextual_insights_def
  plot_univariate_numerical_def numerical_body_def plot_univariate_categorical_def categorical_body_def
  plot_correlation_heatmap_def generate_caption_def caption_of_def dict_item_def dict_get_def
  append_visualization_def print_def shape_def Let_def plots_dir_def path_join_def

lemma example_run:
  "fst (run example_env (answering c) ''data/people.csv'' None world0) =
   Inr \<lparr>info = \<lparr>rows = 2, columns = 3, memory_usage = ''0.48 KB''\<rparr>,
        result_visualizations =
          [[(''title'', ''Distribution of age''), (''path'', ''hist_box_age.png''),
            (''description'', strip c)],
           [(''title'', ''Frequency of city''), (''path'', ''countplot_city.png''),
            (''description'', strip c)]]\<rparr>"
  by (simp add: model_defs example_env_def answering_def example_df_def example_retriever_def
       world0_def eval_nat_numeral)

lemma example_get_retriever:
  "get_retriever example_env (RAGPipeline_init None ''chroma_db'' ''nomic-embed-text'') world0
   = (Inr example_retriever, world0)"
  by (simp add: get_retriever_def RAGPipeline_init_def path_exists_def example_env_def)

lemma run_success_invoke:
  assumes "fst (run E self p target w) = Inr res"
  shows "\<exists>r w1 sf. get_retriever E (RAGPipeline_init None ''chroma_db'' ''nomic-embed-text'') w = (Inr r, w1)
          \<and> fst (fst (invoke (build_graph E self) (initial_state p target r) w1)) = Inr sf
          \<and> result_visualizations res = (case visualizations sf of None \<Rightarrow> [] | Some vs \<Rightarrow> vs)"
  using assms
  by (auto simp: run_def split: if_splits sum.splits prod.splits)

lemma example_invoke:
  "\<exists>sf. fst (fst (invoke (build_graph example_env (answering c))
                    (initial_state ''data/people.csv'' None example_retriever) world0)) = Inr sf"
  using run_success_invoke[OF example_run, of c] by (auto simp: example_get_retriever)

subsection \<open>The run of the graph from the initial state\<close>

lemma initial_state_merged:
  "apply_update empty_state (initial_state p target r) = initial_state p target r"
  by (simp add: apply_update_def initial_state_def empty_state_def overwrite_def add_lists_def)

lemma initial_state_context_empty: "context_empty (initial_state p target r)"
  by (simp add: context_empty_def initial_state_def)

lemma invoke_context_empty:
  "(\<forall>(n, s) \<in> set (snd (invoke (build_graph E self) (initial_state p target r) w)). context_empty s)
   \<and> (\<forall>sf. fst (fst (invoke (build_graph E self) (initial_state p target r) w)) = Inr sf
          \<longrightarrow> context_empty sf)"
  unfolding invoke_build_graph initial_state_merged
proof (rule run_chain_invariant)
  show "context_empty (initial_state p target r)" by (rule initial_state_context_empty)
next
  fix n f s w s1 u w1
  assume "(n, f) \<in> set (nodes (build_graph E self))" "context_empty s" "f s w = (Inr (s1, u), w1)"
  then show "context_empty (apply_update s1 u)"
    by (blast intro: contract_context_empty node_contract)
qed

lemma example_trace_names:
  "map fst (snd (invoke (build_graph example_env (answering c))
                   (initial_state ''data/people.csv'' None example_retriever) world0)) = node_order"
proof -
  obtain sf where "fst (fst (invoke (build_graph example_env (answering c))
                    (initial_state ''data/people.csv'' None example_retriever) world0)) = Inr sf"
    using example_invoke by blast
  then have "map fst (snd (run_chain (nodes (build_graph example_env (answering c)))
               (apply_update empty_state (initial_state ''data/people.csv'' None example_retriever))
               world0))
             = map fst (nodes (build_graph example_env (answering c)))"
    unfolding invoke_build_graph by (rule run_chain_trace_complete)
  moreover have "map fst (nodes (build_graph example_env (answering c))) = node_order"
    by (simp add: build_graph_def node_order_def)
  ultimately show ?thesis
    unfolding invoke_build_graph by (rule trans)
qed


lemma strip_example: "strip '' Ages cluster around forty. '' = ''Ages cluster around forty.''"
  by (simp add: strip_def rstrip_def is_space_def is_space2_def is_space3_def)

lemma strip_blank: "strip ''  '' = ''''"
  by (simp add: strip_def rstrip_def is_space_def is_space2_def is_space3_def)

lemma example_pending_run:
  "(case fst (fst (invoke (build_graph example_env example_agent) pending_input world0)) of
      Inl e \<Rightarrow> None
    | Inr sf \<Rightarrow> visualizations sf)
   = Some [[(''title'', ''Distribution of age''), (''path'', ''hist_box_age.png''),
            (''description'', ''Ages cluster around forty.'')],
           [(''title'', ''Frequency of city''), (''path'', ''countplot_city.png''),
            (''description'', ''Ages cluster around forty.'')],
           [(''plot_type'', ''Scatter Plot''), (''details'', ''the dataset''),
            (''caption'', ''Ages cluster around forty.'')]]"
  by (simp add: model_defs pending_input_def example_env_def example_agent_def example_df_def
        example_retriever_def world0_def eval_nat_numeral strip_example)

subsection \<open>The index across runs\<close>

lemma same_index_path_exists:
  "same_index w w1 \<Longrightarrow> path_exists E w1 p = path_exists E w p"
  by (simp add: same_index_def path_exists_def)

lemma invoke_same_index:
  "same_index w (snd (fst (invoke (build_graph E self) input w)))"
  unfolding invoke_build_graph
  by (rule run_chain_same_index) (rule node_same_index)

lemma run_cases:
  "(\<exists>e. run E self p target w = (Inl e, w))
   \<or> (\<exists>e w1. get_retriever E (RAGPipeline_init None ''chroma_db'' ''nomic-embed-text'') w = (Inl e, w1)
         \<and> run E self p target w = (Inl e, w1))
   \<or> (\<exists>r w1. get_retriever E (RAGPipeline_init None ''chroma_db'' ''nomic-embed-text'') w = (Inr r, w1)
         \<and> snd (run E self p target w)
             = snd (fst (invoke (build_graph E self) (initial_state p target r) w1)))"
  by (auto simp: run_def split: sum.splits prod.splits)

lemma run_same_index:
  assumes "path_exists E w ''chroma_db''"
  shows "same_index w (snd (run E self p target w))"
proof -
  let ?rag = "RAGPipeline_init None ''chroma_db'' ''nomic-embed-text''"
  have path: "chroma_db_path ?rag = ''chroma_db''"
    by (simp add: RAGPipeline_init_def)
  from assms have gr: "snd (get_retriever E ?rag w) = w"
    by (simp add: get_retriever_existing path split: sum.splits)
  from run_cases[of E self p target w] show ?thesis
  proof (elim disjE exE conjE)
    fix e assume "run E self p target w = (Inl e, w)"
    then show ?thesis by (simp add: same_index_refl)
  next
    fix e w1
    assume "get_retriever E ?rag w = (Inl e, w1)" "run E self p target w = (Inl e, w1)"
    with gr show ?thesis by (simp add: same_index_refl)
  next
    fix r w1
    assume "get_retriever E ?rag w = (Inr r, w1)"
      and "snd (run E self p target w)
             = snd (fst (invoke (build_graph E self) (initial_state p target r) w1))"
    with gr invoke_same_index[of w E self "initial_state p target r"] show ?thesis by simp
  qed
qed

lemma run_success_exists:
  assumes "fst (run E self p target w) = Inr res"
  shows "path_exists E (snd (run E self p target w)) ''chroma_db''"
proof -
  let ?rag = "RAGPipeline_init None ''chroma_db'' ''nomic-embed-text''"
  have path: "chroma_db_path ?rag = ''chroma_db''"
    by (simp add: RAGPipeline_init_def)
  from run_cases[of E self p target w] assms obtain r w1 where
      gr: "get_retriever E ?rag w = (Inr r, w1)"
    and w2: "snd (run E self p target w)
             = snd (fst (invoke (build_graph E self) (initial_state p target r) w1))"
    by auto
  from get_retriever_success_exists[OF gr] have "path_exists E w1 ''chroma_db''"
    by (simp add: path)
  with same_index_path_exists[OF invoke_same_index[of w1 E self "initial_state p target r"], of E "''chroma_db''"]
  show ?thesis by (simp add: w2)
qed

subsection \<open>Steps with nothing to plot\<close>

lemma get_retriever_artifacts:
  "get_retriever E rag w = (r, w1) \<Longrightarrow> artifacts w1 = artifacts w"
  by (auto simp: get_retriever_def build_vector_db_def Let_def print_def
      split: sum.splits if_splits prod.splits build_outcome.splits)

lemma plot_univariate_numerical_empty:
  "file_path s = Some p \<Longrightarrow> get_dataset E p = Inr df \<Longrightarrow> numerical_cols s = Some [] \<Longrightarrow>
   plot_univariate_numerical E self s w = (Inr (s, empty_state\<lparr>current_plot_context := Some []\<rparr>), w)"
  by (simp add: plot_univariate_numerical_def)

lemma plot_correlation_heatmap_few:
  "file_path s = Some p \<Longrightarrow> get_dataset E p = Inr df \<Longrightarrow> numerical_cols s = Some cols \<Longrightarrow>
   length cols < 2 \<Longrightarrow> plot_correlation_heatmap E self s w = (Inr (s, empty_state), w)"
  by (simp add: plot_correlation_heatmap_def)

lemma plot_univariate_categorical_empty:
  "file_path s = Some p \<Longrightarrow> get_dataset E p = Inr df \<Longrightarrow> categorical_cols s = Some [] \<Longrightarrow>
   plot_univariate_categorical E self s w = (Inr (s, empty_state), w)"
  by (simp add: plot_univariate_categorical_def)

lemma not_isl_Inr: "\<not> isl x \<Longrightarrow> \<exists>y. x = Inr y"
  by (cases x) auto

lemma get_contextual_insights_ok:
  assumes "retriever s = Some r" and "\<not> isl (r (insights_query
              (case numerical_cols s of None \<Rightarrow> [] | Some c \<Rightarrow> c)
              (case categorical_cols s of None \<Rightarrow> [] | Some c \<Rightarrow> c)))"
    and "\<forall>k q. \<not> isl (llm self k q)"
  shows "\<exists>summary w1. get_contextual_insights E self s w
           = (Inr (s, empty_state\<lparr>insights := Some [summary]\<rparr>), w1) \<and> artifacts w1 = artifacts w"
proof -
  let ?q = "insights_query (case numerical_cols s of None \<Rightarrow> [] | Some c \<Rightarrow> c)
              (case categorical_cols s of None \<Rightarrow> [] | Some c \<Rightarrow> c)"
  from not_isl_Inr[OF assms(2)] obtain docs where docs: "r ?q = Inr docs" by blast
  let ?w1 = "print (nl @ glyph_thinking @ '' Querying RAG pipeline for contextual insights...'') w"
  let ?w2 = "?w1\<lparr>retriever_log := retriever_log ?w1 @ [?q]\<rparr>"
  from assms(3) have "\<not> isl (llm self (length (llm_log ?w2)) (synthesis_prompt (join nl docs)))"
    by blast
  from not_isl_Inr[OF this] obtain content where
    content: "llm self (length (llm_log ?w2)) (synthesis_prompt (join nl docs)) = Inr content"
    by blast
  show ?thesis
    using assms(1) docs content
    by (auto simp: get_contextual_insights_def Let_def print_def)
qed

subsection \<open>The numerical step on one column\<close>

lemma numerical_body_artifacts:
  "numerical_body E self df col st w = (Inr st1, w1) \<Longrightarrow>
   artifacts w1 = artifacts w @ [path_join plots_dir (''hist_box_'' @ col @ ''.png'')]"
  by (auto simp: numerical_body_def Let_def
      split: option.splits sum.splits if_splits prod.splits
      dest!: generate_caption_artifacts)

lemma generate_caption_ok:
  assumes "current_plot_context st = Some c" and "c \<noteq> []" and "\<forall>k q. \<not> isl (llm self k q)"
  shows "\<exists>content w1. generate_caption E self st w =
           (Inr (st, empty_state\<lparr>visualizations :=
                        Some [[(''plot_type'', dict_get c ''plot_type'' ''chart''),
                               (''details'', dict_get c ''details'' ''the dataset''),
                               (''caption'', strip content)]],
                      current_plot_context := Some []\<rparr>), w1)"
proof -
  let ?w1 = "print (glyph_robot @ '' Generating caption for: '' @ dict_get c ''plot_type'' ''chart''
                     @ '' of '' @ dict_get c ''details'' ''the dataset'' @ ''...'') w"
  let ?p = "caption_prompt (dict_get c ''plot_type'' ''chart'') (dict_get c ''details'' ''the dataset'')"
  from assms(3) have "\<not> isl (llm self (length (llm_log ?w1)) ?p)" by blast
  from not_isl_Inr[OF this] obtain content where "llm self (length (llm_log ?w1)) ?p = Inr content"
    by blast
  with assms(1,2) show ?thesis
    by (auto simp: generate_caption_def Let_def)
qed

lemma numerical_body_ok:
  assumes "df_getitem df col \<noteq> []" and "draw E (HistBox (df_getitem df col)) = None"
    and "makedirs E plots_dir = None"
    and "savefig E (HistBox (df_getitem df col)) (path_join plots_dir (''hist_box_'' @ col @ ''.png'')) = None"
    and "\<forall>k q. \<not> isl (llm self k q)" and "visualizations st = Some vs"
  shows "\<exists>st1 w1. numerical_body E self df col st w = (Inr st1, w1)"
proof -
  let ?st = "empty_state\<lparr>current_plot_context :=
               Some [(''plot_type'', ''Histogram and Box Plot''),
                     (''details'', ''the numerical column '' @ sq @ col @ sq)]\<rparr>"
  let ?w = "w\<lparr>artifacts := artifacts w @ [path_join plots_dir (''hist_box_'' @ col @ ''.png'')]\<rparr>"
  have "\<exists>content w1. generate_caption E self ?st ?w =
           (Inr (?st, empty_state\<lparr>visualizations :=
                        Some [[(''plot_type'', dict_get [(''plot_type'', ''Histogram and Box Plot''),
                     (''details'', ''the numerical column '' @ sq @ col @ sq)] ''plot_type'' ''chart''),
                               (''details'', dict_get [(''plot_type'', ''Histogram and Box Plot''),
                     (''details'', ''the numerical column '' @ sq @ col @ sq)] ''details'' ''the dataset''),
                               (''caption'', strip content)]],
                      current_plot_context := Some []\<rparr>), w1)"
    by (rule generate_caption_ok) (use assms(5) in simp_all)
  then obtain content w1 cs where
      gc: "generate_caption E self ?st ?w = (Inr (?st, cs), w1)"
    and cap: "caption_of cs = Inr (strip content)"
    by (auto simp: caption_of_def dict_item_def)
  with assms(1,2,3,4,6) show ?thesis
    by (simp add: numerical_body_def Let_def append_visualization_def)
qed

subsection \<open>The profiler\<close>

lemma datetime_loop_result:
  "datetime_loop E df cols acc = Inr r \<Longrightarrow>
   r = acc @ filter (\<lambda>col. to_datetime E (df_getitem df col) = None) cols"
proof (induction cols arbitrary: acc)
  case Nil
  then show ?case by simp
next
  case (Cons col cols)
  show ?case
  proof (cases "to_datetime E (df_getitem df col)")
    case None
    with Cons.prems have "datetime_loop E df cols (acc @ [col]) = Inr r" by simp
    from Cons.IH[OF this] None show ?thesis by simp
  next
    case (Some e)
    with Cons.prems have "datetime_loop E df cols acc = Inr r"
      by (simp split: if_splits)
    from Cons.IH[OF this] Some show ?thesis by simp
  qed
qed

lemma datetime_loop_total:
  "(\<forall>cs e. to_datetime E cs = Some e \<longrightarrow> is_ValueError e \<or> is_TypeError e) \<Longrightarrow>
   \<exists>r. datetime_loop E df cols acc = Inr r"
  by (induction cols arbitrary: acc) (auto split: option.splits)

lemma dtype_not_bool:
  "(d \<noteq> Bool) = (matches SelNumber d \<or> matches SelObject d \<or> matches SelCategory d)"
  by (cases d) auto

lemma profile_lists:
  assumes "file_path s = Some p" and "get_dataset E p = Inr df"
    and "profile_data_for_plotting E self s w = (Inr (s1, u), w1)"
  shows "numerical_cols u = Some (map cname (filter (\<lambda>c. matches SelNumber (cdtype c)) (df_columns df)))"
    and "datetime_cols u = Some (filter (\<lambda>col. to_datetime E (df_getitem df col) = None)
            (map cname (filter (\<lambda>c. matches SelObject (cdtype c)) (df_columns df))))"
    and "categorical_cols u = Some (filter (\<lambda>col. col \<notin> set (filter (\<lambda>col. to_datetime E (df_getitem df col) = None)
            (map cname (filter (\<lambda>c. matches SelObject (cdtype c)) (df_columns df)))))
          (map cname (filter (\<lambda>c. matches SelObject (cdtype c) \<or> matches SelCategory (cdtype c)) (df_columns df))))"
  using assms
  by (auto simp: profile_data_for_plotting_def select_dtypes_def empty_state_def
      split: sum.splits dest!: datetime_loop_result)

lemma partition_sets:
  fixes cols :: "column list" and parses :: "string \<Rightarrow> bool"
  assumes d: "distinct (map cname cols)"
  defines "num \<equiv> map cname (filter (\<lambda>c. matches SelNumber (cdtype c)) cols)"
    and "dt \<equiv> filter parses (map cname (filter (\<lambda>c. matches SelObject (cdtype c)) cols))"
  defines "cat \<equiv> filter (\<lambda>col. col \<notin> set dt)
                   (map cname (filter (\<lambda>c. matches SelObject (cdtype c) \<or> matches SelCategory (cdtype c)) cols))"
  shows "distinct (num @ cat @ dt)"
    and "set num \<union> set cat \<union> set dt = cname ` {c \<in> set cols. cdtype c \<noteq> Bool}"
    and "\<forall>c \<in> set cols. cdtype c = Object \<and> parses (cname c) \<longrightarrow> cname c \<in> set dt \<and> cname c \<notin> set cat"
proof -
  have inj: "inj_on cname (set cols)"
    using d by (simp add: distinct_map)
  have dn: "distinct num" and dd: "distinct dt" and dc: "distinct cat"
    using d by (simp_all add: num_def dt_def cat_def distinct_map_filter)
  have nc: "set num \<inter> set cat = {}"
  proof (rule ccontr)
    assume "set num \<inter> set cat \<noteq> {}"
    then obtain n where "n \<in> set num" "n \<in> set cat" by blast
    then obtain c1 c2 where c: "c1 \<in> set cols" "matches SelNumber (cdtype c1)" "cname c1 = n"
        "c2 \<in> set cols" "matches SelObject (cdtype c2) \<or> matches SelCategory (cdtype c2)" "cname c2 = n"
      by (auto simp: num_def cat_def)
    with inj have "c1 = c2" by (auto dest: inj_onD)
    with c show False by (cases "cdtype c1") auto
  qed
  have nd: "set num \<inter> set dt = {}"
  proof (rule ccontr)
    assume "set num \<inter> set dt \<noteq> {}"
    then obtain n where "n \<in> set num" "n \<in> set dt" by blast
    then obtain c1 c2 where c: "c1 \<in> set cols" "matches SelNumber (cdtype c1)" "cname c1 = n"
        "c2 \<in> set cols" "matches SelObject (cdtype c2)" "cname c2 = n"
      by (auto simp: num_def dt_def)
    with inj have "c1 = c2" by (auto dest: inj_onD)
    with c show False by (cases "cdtype c1") auto
  qed
  have cd: "set cat \<inter> set dt = {}"
    by (auto simp: cat_def)
  from dn dd dc nc nd cd show "distinct (num @ cat @ dt)"
    by auto
  have sub: "set dt \<subseteq> cname ` {c \<in> set cols. matches SelObject (cdtype c) \<or> matches SelCategory (cdtype c)}"
    by (auto simp: dt_def)
  have "set cat \<union> set dt = cname ` {c \<in> set cols. matches SelObject (cdtype c) \<or> matches SelCategory (cdtype c)}"
    using sub by (auto simp: cat_def)
  moreover have "set num = cname ` {c \<in> set cols. matches SelNumber (cdtype c)}"
    by (auto simp: num_def)
  ultimately have "set num \<union> set cat \<union> set dt
      = cname ` {c \<in> set cols. matches SelNumber (cdtype c) \<or> matches SelObject (cdtype c)
                              \<or> matches SelCategory (cdtype c)}"
    by blast
  then show "set num \<union> set cat \<union> set dt = cname ` {c \<in> set cols. cdtype c \<noteq> Bool}"
    by (simp only: dtype_not_bool)
  show "\<forall>c \<in> set cols. cdtype c = Object \<and> parses (cname c) \<longrightarrow> cname c \<in> set dt \<and> cname c \<notin> set cat"
    by (auto simp: dt_def cat_def)
qed

subsection \<open>A dataset without rows\<close>

lemma datetime_loop_all_parse:
  "(\<forall>col \<in> set cols. to_datetime E (df_getitem df col) = None) \<Longrightarrow>
   datetime_loop E df cols acc = Inr (acc @ cols)"
  by (induction cols arbitrary: acc) auto

lemma profile_all_timestamps:
  assumes "file_path s = Some p" and "get_dataset E p = Inr df"
    and "\<forall>c \<in> set (df_columns df). cdtype c = Object \<and> to_datetime E (df_getitem df (cname c)) = None"
  shows "profile_data_for_plotting E self s w =
     (Inr (s, empty_state\<lparr>numerical_cols := Some [], categorical_cols := Some [],
                          datetime_cols := Some (map cname (df_columns df))\<rparr>), w)"
proof -
  have obj: "select_dtypes [SelObject] df = df_columns df"
    using assms(3) by (simp add: select_dtypes_def)
  have objcat: "select_dtypes [SelObject, SelCategory] df = df_columns df"
    using assms(3) by (simp add: select_dtypes_def)
  have num: "select_dtypes [SelNumber] df = []"
    using assms(3) by (simp add: select_dtypes_def)
  have "datetime_loop E df (map cname (df_columns df)) [] = Inr ([] @ map cname (df_columns df))"
    by (rule datetime_loop_all_parse) (use assms(3) in auto)
  then show ?thesis
    using assms(1,2) by (simp add: profile_data_for_plotting_def obj objcat num)
qed

subsection \<open>The calls of the model behind the records\<close>

lemma log_grows_iff: "log_grows w w1 = (\<exists>ext. llm_log w1 = llm_log w @ ext)"
proof
  assume "log_grows w w1"
  then have "llm_log w1 = llm_log w @ drop (length (llm_log w)) (llm_log w1)"
    unfolding log_grows_def by (metis append_take_drop_id)
  then show "\<exists>ext. llm_log w1 = llm_log w @ ext" ..
next
  assume "\<exists>ext. llm_log w1 = llm_log w @ ext"
  then show "log_grows w w1" by (auto simp: log_grows_def)
qed

lemma log_grows_refl: "log_grows w w"
  by (simp add: log_grows_def)

lemma log_grows_same: "llm_log w1 = llm_log w \<Longrightarrow> log_grows w w1"
  by (simp add: log_grows_def)

lemma log_grows_trans: "log_grows w w1 \<Longrightarrow> log_grows w1 w2 \<Longrightarrow> log_grows w w2"
  by (auto simp: log_grows_iff)

lemma log_grows_length: "log_grows w w1 \<Longrightarrow> length (llm_log w) \<le> length (llm_log w1)"
  by (auto simp: log_grows_iff)

lemma calls_logged_nil: "calls_logged self n w []"
  by (simp add: calls_logged_def)

lemma calls_logged_world:
  assumes "calls_logged self n w calls" and "log_grows w w1"
  shows "calls_logged self n w1 calls"
  using assms by (auto simp: calls_logged_def log_grows_iff nth_append)

lemma calls_logged_append:
  assumes a: "calls_logged self n w a" and n: "n \<le> length (llm_log w)"
    and ext: "log_grows w w1"
    and b: "calls_logged self (length (llm_log w)) w1 b"
  shows "calls_logged self n w1 (a @ b)"
proof -
  have a1: "calls_logged self n w1 a"
    using a ext by (rule calls_logged_world)
  have lt: "\<forall>x \<in> set (map call_index a). \<forall>y \<in> set (map call_index b). x < y"
    using a b by (fastforce simp: calls_logged_def)
  have "sorted_wrt (<) (map call_index (a @ b))"
    using a b lt by (simp add: calls_logged_def sorted_wrt_append)
  moreover have "\<forall>x \<in> set (a @ b).
            n \<le> call_index x \<and> call_index x < length (llm_log w1)
            \<and> llm_log w1 ! call_index x = chart_prompt (call_chart x)
            \<and> llm self (call_index x) (chart_prompt (call_chart x)) = Inr (call_content x)"
    using a1 b n by (fastforce simp: calls_logged_def)
  ultimately show ?thesis by (simp add: calls_logged_def)
qed

lemma extended_same:
  assumes "log_grows w w1"
  shows "extended self s w s w1"
proof -
  have "calls_logged self (length (llm_log w)) w1 []"
    by (rule calls_logged_nil)
  moreover have "appended s (map call_record []) s"
    by (simp add: appended_nil)
  ultimately show ?thesis
    unfolding extended_def using assms by blast
qed

lemma extended_refl: "extended self s w s w"
  by (rule extended_same) (rule log_grows_refl)

lemma extended_trans:
  assumes "extended self s w s1 w1" and "extended self s1 w1 s2 w2"
  shows "extended self s w s2 w2"
proof -
  from assms(1) obtain a where
      e1: "log_grows w w1"
    and a: "calls_logged self (length (llm_log w)) w1 a" "appended s (map call_record a) s1"
    by (auto simp: extended_def)
  from assms(2) obtain b where
      e2: "log_grows w1 w2"
    and b: "calls_logged self (length (llm_log w1)) w2 b" "appended s1 (map call_record b) s2"
    by (auto simp: extended_def)
  from calls_logged_append[OF a(1) log_grows_length[OF e1] e2 b(1)]
  have "calls_logged self (length (llm_log w)) w2 (a @ b)" .
  moreover from appended_trans[OF a(2) b(2)]
  have "appended s (map call_record (a @ b)) s2" by simp
  moreover have "log_grows w w2"
    using e1 e2 by (rule log_grows_trans)
  ultimately show ?thesis
    unfolding extended_def by blast
qed

lemma recorded_world:
  assumes "recorded self n0 s w" and "log_grows w w1"
  shows "recorded self n0 s w1"
proof -
  from assms(1) obtain a where ce: "context_empty s" and n: "n0 \<le> length (llm_log w)"
    and a: "calls_logged self n0 w a" "visualizations s = Some (map call_record a)"
    by (auto simp: recorded_def)
  from calls_logged_world[OF a(1) assms(2)] have "calls_logged self n0 w1 a" .
  moreover from n log_grows_length[OF assms(2)] have "n0 \<le> length (llm_log w1)" by simp
  ultimately show ?thesis
    unfolding recorded_def using ce a(2) by blast
qed

lemma recorded_step:
  assumes r: "recorded self n0 s w" and e: "extended self s w s1 w1"
    and c: "current_plot_context u = None \<or> current_plot_context u = Some []"
    and v: "visualizations u = None"
  shows "recorded self n0 (apply_update s1 u) w1"
proof -
  from r obtain a where ce: "context_empty s" and n: "n0 \<le> length (llm_log w)"
    and a: "calls_logged self n0 w a" "visualizations s = Some (map call_record a)"
    by (auto simp: recorded_def)
  from e obtain b where
      e1: "log_grows w w1"
    and b: "calls_logged self (length (llm_log w)) w1 b" "appended s (map call_record b) s1"
    by (auto simp: extended_def)
  from b(2) a(2) have vis: "visualizations s1 = Some (map call_record (a @ b))"
    by (auto simp: appended_def)
  from appended_context[OF b(2)] ce have "context_empty s1"
    by (simp add: context_empty_def)
  with c have 1: "context_empty (apply_update s1 u)"
    by (auto simp: context_empty_def apply_update_def overwrite_def)
  from vis v have 2: "visualizations (apply_update s1 u) = Some (map call_record (a @ b))"
    by (simp add: apply_update_def add_lists_def)
  from calls_logged_append[OF a(1) n e1 b(1)]
  have 3: "calls_logged self n0 w1 (a @ b)" .
  from n log_grows_length[OF e1] have 4: "n0 \<le> length (llm_log w1)" by simp
  from 1 2 3 4 show ?thesis
    unfolding recorded_def by blast
qed

lemma appends_call_extended:
  assumes "appends_call self s w x s1 w1"
  shows "extended self s w s1 w1"
proof -
  from assms have idx: "call_index x = length (llm_log w)"
    and l: "llm self (call_index x) (chart_prompt (call_chart x)) = Inr (call_content x)"
    and log: "llm_log w1 = llm_log w @ [chart_prompt (call_chart x)]"
    and app: "append_visualization s (call_record x) = Inr s1"
    unfolding appends_call_def by blast+
  have "calls_logged self (length (llm_log w)) w1 [x]"
    using idx l log by (simp add: calls_logged_def)
  moreover from append_visualization_appended[OF app]
  have "appended s (map call_record [x]) s1" by simp
  moreover have "log_grows w w1"
    using log by (simp add: log_grows_def)
  ultimately show ?thesis
    unfolding extended_def by blast
qed

lemma generate_caption_log_grows:
  "generate_caption E self st w = (r, w') \<Longrightarrow> log_grows w w'"
  by (auto simp: generate_caption_def Let_def print_def log_grows_def split: sum.splits if_splits)

lemma generate_caption_logged:
  assumes "generate_caption E self st w = (Inr (s, cs), w')"
    and "current_plot_context st = Some c" and "c \<noteq> []"
  shows "\<exists>content. llm self (length (llm_log w))
              (caption_prompt (dict_get c ''plot_type'' ''chart'') (dict_get c ''details'' ''the dataset''))
            = Inr content
          \<and> caption_of cs = Inr (strip content)
          \<and> llm_log w' = llm_log w
              @ [caption_prompt (dict_get c ''plot_type'' ''chart'') (dict_get c ''details'' ''the dataset'')]"
  using assms
  by (auto simp: generate_caption_def Let_def caption_of_def dict_item_def empty_state_def print_def
      split: sum.splits if_splits)

lemma numerical_body_appends:
  assumes "numerical_body E self df col st w = (Inr st1, w1)"
  shows "\<exists>content. appends_call self st w (length (llm_log w), Hist col, content) st1 w1"
proof -
  let ?ctx = "[(''plot_type'', ''Histogram and Box Plot''), (''details'', ''the numerical column '' @ sq @ col @ sq)]"
  let ?wa = "w\<lparr>artifacts := artifacts w @ [path_join plots_dir (''hist_box_'' @ col @ ''.png'')]\<rparr>"
  from assms obtain s cs caption where
      gc: "generate_caption E self (empty_state\<lparr>current_plot_context := Some ?ctx\<rparr>) ?wa = (Inr (s, cs), w1)"
    and cap: "caption_of cs = Inr caption"
    and app: "append_visualization st [(''title'', ''Distribution of '' @ col),
                                (''path'', ''hist_box_'' @ col @ ''.png''),
                                (''description'', caption)] = Inr st1"
    by (auto simp: numerical_body_def Let_def split: option.splits sum.splits if_splits prod.splits)
  from generate_caption_logged[OF gc, of ?ctx] cap obtain content where
      l: "llm self (length (llm_log w)) (chart_prompt (Hist col)) = Inr content"
    and c: "caption = strip content"
    and log: "llm_log w1 = llm_log w @ [chart_prompt (Hist col)]"
    by (auto simp: dict_get_def)
  from app c l log have "appends_call self st w (length (llm_log w), Hist col, content) st1 w1"
    by (simp add: appends_call_def call_record_def)
  then show ?thesis ..
qed

lemma numerical_body_log_grows:
  "numerical_body E self df col st w = (r, w1) \<Longrightarrow> log_grows w w1"
  by (auto simp: numerical_body_def Let_def log_grows_refl
      split: option.splits sum.splits if_splits prod.splits
      dest!: generate_caption_log_grows simp: log_grows_def)

lemma numerical_loop_log_grows:
  "numerical_loop E self df cols st w = (r, w1) \<Longrightarrow> log_grows w w1"
proof (induction cols arbitrary: st w)
  case Nil
  then show ?case by (simp add: log_grows_refl)
next
  case (Cons col cols)
  then show ?case
    by (auto split: prod.splits sum.splits
        dest: numerical_body_log_grows intro: log_grows_trans)
qed

lemma numerical_loop_extended:
  "numerical_loop E self df cols st w = (Inr st1, w1) \<Longrightarrow> extended self st w st1 w1"
proof (induction cols arbitrary: st w)
  case Nil
  then show ?case by (simp add: extended_refl)
next
  case (Cons col cols)
  from Cons.prems obtain st2 w2 where
      b: "numerical_body E self df col st w = (Inr st2, w2)"
    and l: "numerical_loop E self df cols st2 w2 = (Inr st1, w1)"
    by (auto split: prod.splits sum.splits)
  from numerical_body_appends[OF b] have "extended self st w st2 w2"
    by (auto dest: appends_call_extended)
  from this Cons.IH[OF l] show ?case
    by (rule extended_trans)
qed

lemma plot_univariate_numerical_log_grows:
  "plot_univariate_numerical E self s w = (r, w1) \<Longrightarrow> log_grows w w1"
  by (auto simp: plot_univariate_numerical_def log_grows_refl
      split: option.splits sum.splits if_splits prod.splits dest: numerical_loop_log_grows)

lemma plot_univariate_numerical_extended:
  "plot_univariate_numerical E self s w = (Inr (s1, u), w1) \<Longrightarrow> extended self s w s1 w1"
  by (auto simp: plot_univariate_numerical_def extended_refl
      split: option.splits sum.splits if_splits prod.splits dest: numerical_loop_extended)

lemma categorical_body_appends:
  assumes "categorical_body E self df col st w = (Inr st1, w1)"
  shows "\<exists>content. appends_call self st w (length (llm_log w), Count col, content) st1 w1"
proof -
  let ?ctx = "[(''plot_type'', ''Bar Chart''), (''details'', ''the categorical column '' @ sq @ col @ sq)]"
  let ?wa = "w\<lparr>artifacts := artifacts w @ [path_join plots_dir (''countplot_'' @ col @ ''.png'')]\<rparr>"
  from assms obtain s cs caption where
      gc: "generate_caption E self (empty_state\<lparr>current_plot_context := Some ?ctx\<rparr>) ?wa = (Inr (s, cs), w1)"
    and cap: "caption_of cs = Inr caption"
    and app: "append_visualization st [(''title'', ''Frequency of '' @ col),
                                (''path'', ''countplot_'' @ col @ ''.png''),
                                (''description'', caption)] = Inr st1"
    by (auto simp: categorical_body_def Let_def split: option.splits sum.splits if_splits prod.splits)
  from generate_caption_logged[OF gc, of ?ctx] cap obtain content where
      l: "llm self (length (llm_log w)) (chart_prompt (Count col)) = Inr content"
    and c: "caption = strip content"
    and log: "llm_log w1 = llm_log w @ [chart_prompt (Count col)]"
    by (auto simp: dict_get_def)
  from app c l log have "appends_call self st w (length (llm_log w), Count col, content) st1 w1"
    by (simp add: appends_call_def call_record_def)
  then show ?thesis ..
qed

lemma categorical_body_log_grows:
  "categorical_body E self df col st w = (r, w1) \<Longrightarrow> log_grows w w1"
  by (auto simp: categorical_body_def Let_def log_grows_refl
      split: option.splits sum.splits if_splits prod.splits
      dest!: generate_caption_log_grows simp: log_grows_def)

lemma categorical_loop_log_grows:
  "categorical_loop E self df cols st w = (r, w1) \<Longrightarrow> log_grows w w1"
proof (induction cols arbitrary: st w)
  case Nil
  then show ?case by (simp add: log_grows_refl)
next
  case (Cons col cols)
  then show ?case
    by (auto split: prod.splits sum.splits
        dest: categorical_body_log_grows intro: log_grows_trans)
qed

lemma categorical_loop_extended:
  "categorical_loop E self df cols st w = (Inr st1, w1) \<Longrightarrow> extended self st w st1 w1"
proof (induction cols arbitrary: st w)
  case Nil
  then show ?case by (simp add: extended_refl)
next
  case (Cons col cols)
  from Cons.prems obtain st2 w2 where
      b: "categorical_body E self df col st w = (Inr st2, w2)"
    and l: "categorical_loop E self df cols st2 w2 = (Inr st1, w1)"
    by (auto split: prod.splits sum.splits)
  from categorical_body_appends[OF b] have "extended self st w st2 w2"
    by (auto dest: appends_call_extended)
  from this Cons.IH[OF l] show ?case
    by (rule extended_trans)
qed

lemma plot_univariate_categorical_log_grows:
  "plot_univariate_categorical E self s w = (r, w1) \<Longrightarrow> log_grows w w1"
  by (auto simp: plot_univariate_categorical_def log_grows_refl
      split: option.splits sum.splits if_splits prod.splits dest: categorical_loop_log_grows)

lemma plot_univariate_categorical_extended:
  "plot_univariate_categorical E self s w = (Inr (s1, u), w1) \<Longrightarrow> extended self s w s1 w1"
  by (auto simp: plot_univariate_categorical_def extended_refl
      split: option.splits sum.splits if_splits prod.splits dest: categorical_loop_extended)

lemma plot_correlation_heatmap_log_grows:
  "plot_correlation_heatmap E self s w = (r, w1) \<Longrightarrow> log_grows w w1"
  by (auto simp: plot_correlation_heatmap_def Let_def log_grows_refl
      split: option.splits sum.splits if_splits prod.splits
      dest!: generate_caption_log_grows simp: log_grows_def)

lemma plot_correlation_heatmap_appends:
  assumes "plot_correlation_heatmap E self st w = (Inr (st1, u), w1)"
  shows "\<exists>cols. numerical_cols st = Some cols
          \<and> (if length cols < 2 then st1 = st \<and> w1 = w
             else \<exists>content. appends_call self st w (length (llm_log w), Corr, content) st1 w1)"
proof -
  from assms obtain cols where cols: "numerical_cols st = Some cols"
    by (auto simp: plot_correlation_heatmap_def split: option.splits sum.splits)
  show ?thesis
  proof (cases "length cols < 2")
    case True
    with assms cols have "st1 = st" "w1 = w"
      by (auto simp: plot_correlation_heatmap_def split: option.splits sum.splits)
    with cols True show ?thesis by simp
  next
    case False
    let ?ctx = "[(''plot_type'', ''Correlation Heatmap''), (''details'', ''all numerical features'')]"
    let ?wa = "w\<lparr>artifacts := artifacts w @ [path_join plots_dir ''correlation_heatmap.png'']\<rparr>"
    from assms cols False obtain s cs caption where
        gc: "generate_caption E self (empty_state\<lparr>current_plot_context := Some ?ctx\<rparr>) ?wa = (Inr (s, cs), w1)"
      and cap: "caption_of cs = Inr caption"
      and app: "append_visualization st [(''title'', ''Correlation Heatmap''),
                                  (''path'', ''correlation_heatmap.png''),
                                  (''description'', caption)] = Inr st1"
      by (auto simp: plot_correlation_heatmap_def Let_def
          split: option.splits sum.splits if_splits prod.splits)
    from generate_caption_logged[OF gc, of ?ctx] cap obtain content where
        l: "llm self (length (llm_log w)) (chart_prompt Corr) = Inr content"
      and c: "caption = strip content"
      and log: "llm_log w1 = llm_log w @ [chart_prompt Corr]"
      by (auto simp: dict_get_def)
    from app c l log have "appends_call self st w (length (llm_log w), Corr, content) st1 w1"
      by (simp add: appends_call_def call_record_def)
    with cols False show ?thesis by auto
  qed
qed

lemma plot_correlation_heatmap_extended:
  assumes "plot_correlation_heatmap E self s w = (Inr (s1, u), w1)"
  shows "extended self s w s1 w1"
  using plot_correlation_heatmap_appends[OF assms]
  by (auto simp: extended_refl dest: appends_call_extended split: if_splits)

lemma get_contextual_insights_log_grows:
  "get_contextual_insights E self s w = (r, w1) \<Longrightarrow> log_grows w w1"
  by (auto simp: get_contextual_insights_def Let_def log_grows_def print_def
      split: option.splits sum.splits)

lemma get_contextual_insights_state:
  "get_contextual_insights E self s w = (Inr (s1, u), w1) \<Longrightarrow> s1 = s"
  by (auto simp: get_contextual_insights_def Let_def split: option.splits sum.splits)

lemma profile_data_for_plotting_state:
  "profile_data_for_plotting E self s w = (Inr (s1, u), w1) \<Longrightarrow> s1 = s"
  by (auto simp: profile_data_for_plotting_def split: option.splits sum.splits)

lemma node_log_grows:
  assumes "(n, f) \<in> set (nodes (build_graph E self))" and "f s w = (r, w1)"
  shows "log_grows w w1"
  using build_graph_node_cases[OF assms(1)] assms(2)
  by (auto dest: profile_data_for_plotting_same_world get_contextual_insights_log_grows
      plot_univariate_numerical_log_grows plot_univariate_categorical_log_grows
      plot_correlation_heatmap_log_grows generate_caption_log_grows simp: log_grows_refl)

lemma node_extended:
  assumes nf: "(n, f) \<in> set (nodes (build_graph E self))" and ce: "context_empty s"
    and f: "f s w = (Inr (s1, u), w1)"
  shows "extended self s w s1 w1"
proof -
  from build_graph_node_cases[OF nf]
  consider "f = profile_data_for_plotting E self" | "f = get_contextual_insights E self"
    | "f = plot_univariate_numerical E self" | "f = plot_univariate_categorical E self"
    | "f = plot_correlation_heatmap E self" | "f = generate_caption E self"
    by blast
  then show ?thesis
  proof cases
    case 1
    with f profile_data_for_plotting_state[of E self s w s1 u w1]
      profile_data_for_plotting_same_world[of E self s w "Inr (s1, u)" w1]
    show ?thesis by (simp add: extended_refl)
  next
    case 2
    with f get_contextual_insights_state[of E self s w s1 u w1]
      get_contextual_insights_log_grows[of E self s w "Inr (s1, u)" w1]
    show ?thesis by (simp add: extended_same)
  next
    case 3
    with f show ?thesis by (simp add: plot_univariate_numerical_extended)
  next
    case 4
    with f show ?thesis by (simp add: plot_univariate_categorical_extended)
  next
    case 5
    with f show ?thesis by (simp add: plot_correlation_heatmap_extended)
  next
    case 6
    with f ce have "s1 = s \<and> w1 = w"
      by (simp add: generate_caption_def context_empty_def)
    then show ?thesis by (simp add: extended_refl)
  qed
qed

lemma run_chain_log_grows:
  assumes "\<And>n f s w r w1. (n, f) \<in> set ns \<Longrightarrow> f s w = (r, w1) \<Longrightarrow> log_grows w w1"
  shows "log_grows w (snd (fst (run_chain ns s w)))"
  using assms
proof (induction ns arbitrary: s w)
  case Nil
  then show ?case by (simp add: log_grows_refl)
next
  case (Cons nf ns)
  obtain n f where nf: "nf = (n, f)" by (cases nf)
  obtain r w1 where f: "f s w = (r, w1)" by (cases "f s w")
  have w1: "log_grows w w1"
    using Cons.prems[of n f s w r w1] nf f by simp
  show ?case
  proof (cases r)
    case (Inl e)
    with f w1 show ?thesis unfolding nf run_chain_Cons by simp
  next
    case (Inr su)
    obtain s1 u where su: "su = (s1, u)" by (cases su)
    have step': "\<And>n f s w r w1. (n, f) \<in> set ns \<Longrightarrow> f s w = (r, w1) \<Longrightarrow> log_grows w w1"
      using Cons.prems by (meson list.set_intros(2))
    have "log_grows w1 (snd (fst (run_chain ns (apply_update s1 u) w1)))"
      using step' by (rule Cons.IH)
    with w1 have "log_grows w (snd (fst (run_chain ns (apply_update s1 u) w1)))"
      by (rule log_grows_trans)
    with f Inr su show ?thesis
      unfolding nf run_chain_Cons by simp
  qed
qed

lemma run_chain_recorded:
  assumes step: "\<And>n f s w s1 u w1. (n, f) \<in> set ns \<Longrightarrow> recorded self n0 s w
                   \<Longrightarrow> f s w = (Inr (s1, u), w1) \<Longrightarrow> recorded self n0 (apply_update s1 u) w1"
    and grows: "\<And>n f s w r w1. (n, f) \<in> set ns \<Longrightarrow> f s w = (r, w1) \<Longrightarrow> log_grows w w1"
    and init: "recorded self n0 s w"
  shows "(\<forall>(n, st) \<in> set (snd (run_chain ns s w)).
            recorded self n0 st (snd (fst (run_chain ns s w))))
         \<and> (\<forall>sf. fst (fst (run_chain ns s w)) = Inr sf
               \<longrightarrow> recorded self n0 sf (snd (fst (run_chain ns s w))))"
  using assms
proof (induction ns arbitrary: s w)
  case Nil
  then show ?case by simp
next
  case (Cons nf ns)
  obtain n f where nf: "nf = (n, f)" by (cases nf)
  obtain r w1 where f: "f s w = (r, w1)" by (cases "f s w")
  have w1: "log_grows w w1"
    using Cons.prems(2)[of n f s w r w1] nf f by simp
  show ?case
  proof (cases r)
    case (Inl e)
    from recorded_world[OF Cons.prems(3) w1] have "recorded self n0 s w1" .
    with nf f Inl show ?thesis by simp
  next
    case (Inr su)
    obtain s1 u where su: "su = (s1, u)" by (cases su)
    let ?wf = "snd (fst (run_chain ns (apply_update s1 u) w1))"
    have P1: "recorded self n0 (apply_update s1 u) w1"
      using Cons.prems(1)[of n f s w s1 u w1] Cons.prems(3) nf f Inr su by simp
    have step': "\<And>n f s w s1 u w1. (n, f) \<in> set ns \<Longrightarrow> recorded self n0 s w
                   \<Longrightarrow> f s w = (Inr (s1, u), w1) \<Longrightarrow> recorded self n0 (apply_update s1 u) w1"
      using Cons.prems(1) by (meson list.set_intros(2))
    have grows': "\<And>n f s w r w1. (n, f) \<in> set ns \<Longrightarrow> f s w = (r, w1) \<Longrightarrow> log_grows w w1"
      using Cons.prems(2) by (meson list.set_intros(2))
    have IH: "(\<forall>(n, st) \<in> set (snd (run_chain ns (apply_update s1 u) w1)). recorded self n0 st ?wf)
         \<and> (\<forall>sf. fst (fst (run_chain ns (apply_update s1 u) w1)) = Inr sf
               \<longrightarrow> recorded self n0 sf ?wf)"
      using step' grows' P1 by (rule Cons.IH)
    have "log_grows w1 ?wf"
      using grows' by (rule run_chain_log_grows)
    with w1 have "log_grows w ?wf" by (rule log_grows_trans)
    with Cons.prems(3) have "recorded self n0 s ?wf" by (rule recorded_world)
    with IH f Inr su show ?thesis
      unfolding nf run_chain_Cons by (simp split: prod.splits)
  qed
qed

lemma initial_state_recorded:
  "recorded self (length (llm_log w)) (initial_state p target r) w"
proof -
  have "calls_logged self (length (llm_log w)) w []"
    by (rule calls_logged_nil)
  moreover have "visualizations (initial_state p target r) = Some (map call_record [])"
    by (simp add: initial_state_def)
  ultimately show ?thesis
    unfolding recorded_def using initial_state_context_empty[of p target r] by blast
qed

lemma invoke_recorded:
  "(\<forall>(n, s) \<in> set (snd (invoke (build_graph E self) (initial_state p target r) w)).
       recorded self (length (llm_log w)) s
         (snd (fst (invoke (build_graph E self) (initial_state p target r) w))))
   \<and> (\<forall>sf. fst (fst (invoke (build_graph E self) (initial_state p target r) w)) = Inr sf
         \<longrightarrow> recorded self (length (llm_log w)) sf
               (snd (fst (invoke (build_graph E self) (initial_state p target r) w))))"
  unfolding invoke_build_graph initial_state_merged
proof (rule run_chain_recorded)
  show "recorded self (length (llm_log w)) (initial_state p target r) w"
    by (rule initial_state_recorded)
next
  fix n f s w0 r0 w1
  assume "(n, f) \<in> set (nodes (build_graph E self))" "f s w0 = (r0, w1)"
  then show "log_grows w0 w1" by (rule node_log_grows)
next
  fix n f s w0 s1 u w1
  assume nf: "(n, f) \<in> set (nodes (build_graph E self))"
    and rec: "recorded self (length (llm_log w)) s w0"
    and f: "f s w0 = (Inr (s1, u), w1)"
  from rec have ce: "context_empty s" by (simp add: recorded_def)
  from node_contract[OF nf f] ce
  have u: "current_plot_context u = None \<or> current_plot_context u = Some []"
    and v: "visualizations u = None"
    by (simp_all add: step_contract_def)
  from rec node_extended[OF nf ce f] u v
  show "recorded self (length (llm_log w)) (apply_update s1 u) w1"
    by (rule recorded_step)
qed

lemma get_retriever_llm_log:
  "get_retriever E rag w = (r, w1) \<Longrightarrow> llm_log w1 = llm_log w"
  by (auto simp: get_retriever_def build_vector_db_def Let_def print_def
      split: sum.splits if_splits prod.splits build_outcome.splits)

lemma run_success_world:
  assumes "fst (run E self p target w) = Inr res"
  shows "\<exists>r w1 sf. get_retriever E (RAGPipeline_init None ''chroma_db'' ''nomic-embed-text'') w = (Inr r, w1)
          \<and> fst (fst (invoke (build_graph E self) (initial_state p target r) w1)) = Inr sf
          \<and> snd (run E self p target w)
              = snd (fst (invoke (build_graph E self) (initial_state p target r) w1))
          \<and> result_visualizations res = (case visualizations sf of None \<Rightarrow> [] | Some vs \<Rightarrow> vs)"
  using assms
  by (auto simp: run_def split: if_splits sum.splits prod.splits)

lemma run_recorded:
  assumes "fst (run E self p target w) = Inr res"
  shows "\<exists>calls. result_visualizations res = map call_record calls
           \<and> calls_logged self (length (llm_log w)) (snd (run E self p target w)) calls"
proof -
  from run_success_world[OF assms] obtain r w1 sf where
      gr: "get_retriever E (RAGPipeline_init None ''chroma_db'' ''nomic-embed-text'') w = (Inr r, w1)"
    and inv: "fst (fst (invoke (build_graph E self) (initial_state p target r) w1)) = Inr sf"
    and wf: "snd (run E self p target w)
              = snd (fst (invoke (build_graph E self) (initial_state p target r) w1))"
    and res: "result_visualizations res = (case visualizations sf of None \<Rightarrow> [] | Some vs \<Rightarrow> vs)"
    by blast
  from get_retriever_llm_log[OF gr] have len: "length (llm_log w1) = length (llm_log w)"
    by simp
  from invoke_recorded[of E self p target r w1, THEN conjunct2, rule_format, OF inv]
  have "recorded self (length (llm_log w)) sf (snd (run E self p target w))"
    by (simp only: wf len)
  with res show ?thesis
    by (auto simp: recorded_def)
qed

subsection \<open>White space\<close>

lemma is_space2_first: "is_space2 a b \<Longrightarrow> \<not> is_space a"
  by (auto simp: is_space2_def is_space_def)

lemma is_space3_first: "is_space3 a b c \<Longrightarrow> \<not> is_space a \<and> \<not> is_space2 a b"
  by (auto simp: is_space3_def is_space2_def is_space_def)

lemma lstrip_1: "is_space a \<Longrightarrow> lstrip (a # s) = lstrip s"
proof (cases s)
  case Nil
  assume "is_space a"
  with Nil show ?thesis by simp
next
  case (Cons b t)
  assume "is_space a"
  with Cons show ?thesis by (cases t) simp_all
qed

lemma lstrip_2: "is_space2 a b \<Longrightarrow> lstrip (a # b # s) = lstrip s"
  using is_space2_first[of a b] by (cases s) simp_all

lemma lstrip_3: "is_space3 a b c \<Longrightarrow> lstrip (a # b # c # s) = lstrip s"
  using is_space3_first[of a b c] by simp

lemma blank_lstrip: "blank s \<Longrightarrow> lstrip s = []"
proof (induction rule: blank.induct)
  case blank_Nil
  show ?case by simp
next
  case (blank_1 a s)
  then show ?case by (simp only: lstrip_1)
next
  case (blank_2 a b s)
  then show ?case by (simp only: lstrip_2)
next
  case (blank_3 a b c s)
  then show ?case by (simp only: lstrip_3)
qed

lemma blank_append: "blank s \<Longrightarrow> blank t \<Longrightarrow> blank (s @ t)"
  by (induction rule: blank.induct) (auto intro: blank.intros)

lemma lstrip_split: "\<exists>ws. blank ws \<and> s = ws @ lstrip s"
proof (induction s rule: lstrip.induct)
  case (1 a b c cs)
  show ?case
  proof (cases "is_space a")
    case True
    with 1(1) obtain ws where "blank ws" "b # c # cs = ws @ lstrip (b # c # cs)" by blast
    with True have "blank (a # ws) \<and> a # b # c # cs = (a # ws) @ lstrip (a # b # c # cs)"
      by (simp add: blank_1)
    then show ?thesis by blast
  next
    case na: False
    show ?thesis
    proof (cases "is_space2 a b")
      case True
      with na 1(2) obtain ws where "blank ws" "c # cs = ws @ lstrip (c # cs)" by blast
      with na True have "blank (a # b # ws) \<and> a # b # c # cs = (a # b # ws) @ lstrip (a # b # c # cs)"
        by (simp add: blank_2)
      then show ?thesis by blast
    next
      case nb: False
      show ?thesis
      proof (cases "is_space3 a b c")
        case True
        with na nb 1(3) obtain ws where "blank ws" "cs = ws @ lstrip cs" by blast
        with na nb True
        have "blank (a # b # c # ws) \<and> a # b # c # cs = (a # b # c # ws) @ lstrip (a # b # c # cs)"
          by (simp add: blank_3)
        then show ?thesis by blast
      next
        case False
        with na nb have "blank [] \<and> a # b # c # cs = [] @ lstrip (a # b # c # cs)"
          by (simp add: blank_Nil)
        then show ?thesis by blast
      qed
    qed
  qed
next
  case (2 a b)
  show ?case
  proof (cases "is_space a")
    case True
    with 2 obtain ws where "blank ws" "[b] = ws @ lstrip [b]" by blast
    with True have "blank (a # ws) \<and> [a, b] = (a # ws) @ lstrip [a, b]"
      by (simp add: blank_1)
    then show ?thesis by blast
  next
    case na: False
    show ?thesis
    proof (cases "is_space2 a b")
      case True
      with na have "blank [a, b] \<and> [a, b] = [a, b] @ lstrip [a, b]"
        by (simp add: blank_2 blank_Nil)
      then show ?thesis by blast
    next
      case False
      with na have "blank [] \<and> [a, b] = [] @ lstrip [a, b]"
        by (simp add: blank_Nil)
      then show ?thesis by blast
    qed
  qed
next
  case (3 a)
  show ?case
  proof (cases "is_space a")
    case True
    then have "blank [a] \<and> [a] = [a] @ lstrip [a]"
      by (simp add: blank_1 blank_Nil)
    then show ?thesis by blast
  next
    case False
    then have "blank [] \<and> [a] = [] @ lstrip [a]"
      by (simp add: blank_Nil)
    then show ?thesis by blast
  qed
next
  case 4
  have "blank [] \<and> [] = [] @ lstrip []" by (simp add: blank_Nil)
  then show ?case by blast
qed

lemma lstrip_reversed_blank: "lstrip_reversed r = [] \<Longrightarrow> blank (rev r)"
proof (induction r rule: lstrip_reversed.induct)
  case (1 a b c cs)
  show ?case
  proof (cases "is_space a")
    case True
    with 1 have "blank (rev (b # c # cs))" by simp
    moreover from True have "blank [a]" by (simp add: blank_1 blank_Nil)
    ultimately have "blank (rev (b # c # cs) @ [a])" by (rule blank_append)
    then show ?thesis by simp
  next
    case na: False
    show ?thesis
    proof (cases "is_space2 b a")
      case True
      with na 1 have "blank (rev (c # cs))" by simp
      moreover from True have "blank [b, a]" by (simp add: blank_2 blank_Nil)
      ultimately have "blank (rev (c # cs) @ [b, a])" by (rule blank_append)
      then show ?thesis by simp
    next
      case nb: False
      show ?thesis
      proof (cases "is_space3 c b a")
        case True
        with na nb 1 have "blank (rev cs)" by simp
        moreover from True have "blank [c, b, a]" by (simp add: blank_3 blank_Nil)
        ultimately have "blank (rev cs @ [c, b, a])" by (rule blank_append)
        then show ?thesis by simp
      next
        case False
        with na nb 1(4) show ?thesis by simp
      qed
    qed
  qed
next
  case (2 a b)
  show ?case
  proof (cases "is_space a")
    case True
    with 2 have "blank (rev [b])" by simp
    moreover from True have "blank [a]" by (simp add: blank_1 blank_Nil)
    ultimately have "blank (rev [b] @ [a])" by (rule blank_append)
    then show ?thesis by simp
  next
    case na: False
    show ?thesis
    proof (cases "is_space2 b a")
      case True
      then have "blank [b, a]" by (simp add: blank_2 blank_Nil)
      then show ?thesis by simp
    next
      case False
      with na 2(2) show ?thesis by simp
    qed
  qed
next
  case (3 a)
  then show ?case by (auto simp: blank_1 blank_Nil split: if_splits)
next
  case 4
  show ?case by (simp add: blank_Nil)
qed

lemma strip_empty_iff: "(strip s = []) = blank s"
proof
  assume "strip s = []"
  then have "lstrip_reversed (rev (lstrip s)) = []"
    by (simp add: strip_def rstrip_def)
  then have "blank (rev (rev (lstrip s)))" by (rule lstrip_reversed_blank)
  then have t: "blank (lstrip s)" by simp
  from lstrip_split[of s] obtain ws where ws: "blank ws" "s = ws @ lstrip s" by blast
  from blank_append[OF ws(1) t] ws(2) show "blank s" by simp
next
  assume "blank s"
  then have "lstrip s = []" by (rule blank_lstrip)
  then show "strip s = []" by (simp add: strip_def rstrip_def)
qed

lemma description_call_record: "description (call_record x) = Some (strip (call_content x))"
proof -
  obtain k c content where x: "x = (k, c, content)" by (cases x)
  show ?thesis unfolding x by (cases c) (simp_all add: call_record_def description_def)
qed

section \<open>The caption generator on an empty context\<close>

text \<open>
  C6. Called on a state whose pending plot context is absent or the empty dictionary, the
  caption generator returns the empty dictionary and the state as it was, and leaves the
  world as it was: nothing is printed and no prompt is sent to the language model. Merging
  the empty dictionary changes no key of the state.
\<close>

theorem generate_caption_empty_context_noop:
  "current_plot_context state = None \<or> current_plot_context state = Some [] \<Longrightarrow>
   generate_caption E self state w = (Inr (state, empty_state), w)
   \<and> llm_log (snd (generate_caption E self state w)) = llm_log w
   \<and> apply_update state empty_state = state"
  by (auto simp: generate_caption_def apply_update_empty)

theorem generate_caption_empty_context_noop_witness:
  "generate_caption example_env example_agent (empty_state\<lparr>current_plot_context := Some []\<rparr>) world0
     = (Inr (empty_state\<lparr>current_plot_context := Some []\<rparr>, empty_state), world0)
   \<and> llm_log (snd (generate_caption example_env example_agent
                      (empty_state\<lparr>current_plot_context := Some []\<rparr>) world0)) = llm_log world0
   \<and> apply_update (empty_state\<lparr>current_plot_context := Some []\<rparr>) empty_state
     = empty_state\<lparr>current_plot_context := Some []\<rparr>"
  using generate_caption_empty_context_noop
          [of "empty_state\<lparr>current_plot_context := Some []\<rparr>" example_env example_agent world0]
  by simp

section \<open>An invalid dataset path\<close>

text \<open>
  C4, as the code has it. When the path is not an existing regular file (nothing is there,
  or a directory), \<open>run\<close> raises \<open>FileNotFoundError\<close> with the message about the path,
  and the world is untouched: no plot file is written, nothing is built, no model is called.
  The check is \<^verbatim>\<open>os.path.isfile\<close>, which does not look at permissions: for an existing
  file that cannot be read, \<open>run\<close> fails in the loader with \<open>CustomException\<close> wrapping
  the \<open>PermissionError\<close>, the world untouched as well.
\<close>

theorem run_invalid_path:
  "(\<not> isfile E p \<longrightarrow> run E self p target w = (Inl (FileNotFoundError (invalid_path_msg p)), w))
   \<and> (\<forall>content. fs E p = File False content \<longrightarrow>
         run E self p target w = (Inl (CustomException (PermissionError p)), w))"
  by (simp add: run_def isfile_def get_dataset_def)

theorem run_invalid_path_witness:
  "\<not> isfile example_env ''data/nothing.csv''
   \<and> run example_env example_agent ''data/nothing.csv'' None world0
       = (Inl (FileNotFoundError (invalid_path_msg ''data/nothing.csv'')), world0)
   \<and> fs locked_env ''data/locked.csv'' = File False ''a,b''
   \<and> run locked_env example_agent ''data/locked.csv'' None world0
       = (Inl (CustomException (PermissionError ''data/locked.csv'')), world0)"
  using run_invalid_path [of example_env "''data/nothing.csv''" example_agent None world0]
        run_invalid_path [of locked_env "''data/locked.csv''" example_agent None world0]
  by (simp add: isfile_def example_env_def locked_env_def)

text \<open>
  C4 as stated fails: the path \<open>data/locked.csv\<close> refers to an existing file that is not
  readable, and \<open>run\<close> does not raise the invalid-path error but the loader's
  \<open>CustomException\<close>.
\<close>

theorem run_unreadable_file_counterexample:
  "fs locked_env ''data/locked.csv'' = File False ''a,b''
   \<and> run locked_env example_agent ''data/locked.csv'' None world0
       = (Inl (CustomException (PermissionError ''data/locked.csv'')), world0)
   \<and> fst (run locked_env example_agent ''data/locked.csv'' None world0)
       \<noteq> Inl (FileNotFoundError (invalid_path_msg ''data/locked.csv''))"
  by (simp add: run_def isfile_def get_dataset_def example_env_def locked_env_def)

section \<open>Failures of the embedding backend\<close>

text \<open>
  C9, as the code has it. A failure of the index build always raises \<open>CustomException\<close>
  wrapping the exception of the vector store; the build prints the advice to pull the model
  (\<open>model_not_found_msg\<close>) exactly when that exception is a \<open>ValueError\<close> whose message
  holds \<^verbatim>\<open>not found, try pulling it first\<close>, and prints nothing otherwise. The advice to start
  the service (\<open>ollama_down_msg\<close>) is printed by the connection check of the agent's
  constructor, which raises \<open>ConnectionRefusedError\<close> with a fixed message. The two printed
  texts differ, one holds \<^verbatim>\<open>ollama serve\<close>, the other \<^verbatim>\<open>ollama pull\<close> and the model.
\<close>

theorem backend_failures_diagnosed:
  "(\<forall>docs e left.
      csv_loader_load E (data_source rag) = Inr docs
      \<and> chroma_from_documents E (split_documents E 500 50 docs) (embedding_model rag)
            (chroma_db_path rag) = BuildRaises e left
      \<longrightarrow> fst (build_vector_db E rag w) = Inl (CustomException e)
          \<and> stdout (snd (build_vector_db E rag w)) = stdout w @
              (if is_ValueError e \<and> contains ''not found, try pulling it first'' (str_exn e)
               then [nl @ replicate 80 CHR ''='', glyph_stop @ '' Ollama Model Not Found'',
                     replicate 80 CHR ''-'', model_not_found_msg (embedding_model rag),
                     replicate 80 CHR ''='' @ nl]
               else []))
   \<and> (\<forall>e. http_get E url = Some e \<and> is_RequestsConnectionError e
      \<longrightarrow> fst (check_ollama_connection E url w)
            = Inl (ConnectionRefusedError ''Ollama server not found.'')
          \<and> stdout (snd (check_ollama_connection E url w)) = stdout w @
              [glyph_magnifier @ '' Checking for Ollama server connection...'',
               nl @ replicate 80 CHR ''='', glyph_stop @ '' Ollama Connection Error'',
               replicate 80 CHR ''-'', ollama_down_msg url, replicate 80 CHR ''='' @ nl])
   \<and> ollama_down_msg url \<noteq> model_not_found_msg (embedding_model rag)
   \<and> contains ''ollama serve'' (ollama_down_msg url)
   \<and> contains (''ollama pull '' @ embedding_model rag) (model_not_found_msg (embedding_model rag))"
proof -
  have a: "\<forall>docs e left.
      csv_loader_load E (data_source rag) = Inr docs
      \<and> chroma_from_documents E (split_documents E 500 50 docs) (embedding_model rag)
            (chroma_db_path rag) = BuildRaises e left
      \<longrightarrow> fst (build_vector_db E rag w) = Inl (CustomException e)
          \<and> stdout (snd (build_vector_db E rag w)) = stdout w @
              (if is_ValueError e \<and> contains ''not found, try pulling it first'' (str_exn e)
               then [nl @ replicate 80 CHR ''='', glyph_stop @ '' Ollama Model Not Found'',
                     replicate 80 CHR ''-'', model_not_found_msg (embedding_model rag),
                     replicate 80 CHR ''='' @ nl]
               else [])"
    using build_vector_db_failure by blast
  have b: "\<forall>e. http_get E url = Some e \<and> is_RequestsConnectionError e
      \<longrightarrow> fst (check_ollama_connection E url w)
            = Inl (ConnectionRefusedError ''Ollama server not found.'')
          \<and> stdout (snd (check_ollama_connection E url w)) = stdout w @
              [glyph_magnifier @ '' Checking for Ollama server connection...'',
               nl @ replicate 80 CHR ''='', glyph_stop @ '' Ollama Connection Error'',
               replicate 80 CHR ''-'', ollama_down_msg url, replicate 80 CHR ''='' @ nl]"
    using check_ollama_connection_down by blast
  show ?thesis
    by (intro conjI a b messages_differ down_msg_actionable pull_msg_actionable)
qed

theorem backend_failures_diagnosed_witness:
  "fst (build_vector_db absent_env default_rag world0)
     = Inl (CustomException (ValueError ''model not found, try pulling it first''))
   \<and> stdout (snd (build_vector_db absent_env default_rag world0))
     = [nl @ replicate 80 CHR ''='', glyph_stop @ '' Ollama Model Not Found'',
        replicate 80 CHR ''-'', model_not_found_msg ''nomic-embed-text'',
        replicate 80 CHR ''='' @ nl]
   \<and> fst (check_ollama_connection down_env ''http://localhost:11434'' world0)
     = Inl (ConnectionRefusedError ''Ollama server not found.'')
   \<and> stdout (snd (check_ollama_connection down_env ''http://localhost:11434'' world0))
     = [glyph_magnifier @ '' Checking for Ollama server connection...'',
        nl @ replicate 80 CHR ''='', glyph_stop @ '' Ollama Connection Error'',
        replicate 80 CHR ''-'', ollama_down_msg ''http://localhost:11434'',
        replicate 80 CHR ''='' @ nl]"
proof -
  have load: "csv_loader_load absent_env (data_source default_rag) = Inr [''technique: histogram'']"
    by (simp add: absent_env_def example_env_def)
  have build: "chroma_from_documents absent_env
                 (split_documents absent_env 500 50 [''technique: histogram''])
                 (embedding_model default_rag) (chroma_db_path default_rag)
               = BuildRaises (ValueError ''model not found, try pulling it first'') False"
    by (simp add: absent_env_def example_env_def)
  have probe: "http_get down_env ''http://localhost:11434''
               = Some (RequestsConnectionError ''Connection refused'')"
    by (simp add: down_env_def example_env_def)
  have marker: "contains ''not found, try pulling it first'' ''model not found, try pulling it first''"
    by simp
  have model: "embedding_model default_rag = ''nomic-embed-text''"
    by (simp add: default_rag_def RAGPipeline_init_def)
  have conn: "is_RequestsConnectionError (RequestsConnectionError ''Connection refused'')"
    by simp
  note absent = backend_failures_diagnosed
      [where E = absent_env and rag = default_rag and w = world0 and url = "''http://localhost:11434''",
       THEN conjunct1, rule_format, OF conjI [OF load build]]
  note down = backend_failures_diagnosed
      [where E = down_env and rag = default_rag and w = world0 and url = "''http://localhost:11434''",
       THEN conjunct2, THEN conjunct1, rule_format, OF conjI [OF probe conn]]
  from absent down marker model show ?thesis
    by (simp add: world0_def)
qed

text \<open>
  C9 as stated fails. When the backend is unreachable during the index build, the error is
  the same \<open>CustomException\<close> as for an absent model, it carries only the message of the
  connection error, and nothing is printed that tells the user to start the service. For the
  absent model the error carries the message of the vector store, not the printed advice.
\<close>

theorem build_failures_counterexample:
  "fst (build_vector_db down_env default_rag world0)
     = Inl (CustomException (RequestsConnectionError ''Connection refused''))
   \<and> stdout (snd (build_vector_db down_env default_rag world0)) = []
   \<and> fst (build_vector_db absent_env default_rag world0)
     = Inl (CustomException (ValueError ''model not found, try pulling it first''))
   \<and> str_exn (CustomException (ValueError ''model not found, try pulling it first''))
     = ''model not found, try pulling it first''"
  by (simp add: build_vector_db_def down_env_def absent_env_def example_env_def default_rag_def
        RAGPipeline_init_def world0_def Let_def print_def)

section \<open>The graph-level plot context\<close>

text \<open>
  C10. In the run of the graph from the initial state that \<open>run\<close> builds, every node is
  started on a state whose \<open>current_plot_context\<close> is the empty dictionary, and so is the
  final state: no node returns a non-empty context (the plot steps hand a context of their
  own to the caption generator). Hence the node \<open>generate_caption_for_heatmap\<close>, which is
  the caption generator, returns the empty dictionary whenever it is reached, whatever the
  world: it prints nothing, sends no prompt to the model and appends no visualization.
\<close>

theorem graph_context_stays_empty:
  "(\<forall>(n, s) \<in> set (snd (invoke (build_graph E self) (initial_state p target r) w)).
       current_plot_context s = Some [])
   \<and> (\<forall>sf. fst (fst (invoke (build_graph E self) (initial_state p target r) w)) = Inr sf
         \<longrightarrow> current_plot_context sf = Some [])
   \<and> (\<forall>s w'. (''generate_caption_for_heatmap'', s)
                 \<in> set (snd (invoke (build_graph E self) (initial_state p target r) w))
         \<longrightarrow> generate_caption E self s w' = (Inr (s, empty_state), w')
             \<and> llm_log (snd (generate_caption E self s w')) = llm_log w'
             \<and> apply_update s empty_state = s)
   \<and> map_of (nodes (build_graph E self)) ''generate_caption_for_heatmap''
       = Some (generate_caption E self)"
proof -
  note inv = invoke_context_empty [of E self p target r w]
  have 1: "\<forall>(n, s) \<in> set (snd (invoke (build_graph E self) (initial_state p target r) w)).
       current_plot_context s = Some []"
    using inv by (auto simp: context_empty_def)
  have 2: "\<forall>sf. fst (fst (invoke (build_graph E self) (initial_state p target r) w)) = Inr sf
         \<longrightarrow> current_plot_context sf = Some []"
    using inv by (auto simp: context_empty_def)
  have 3: "\<forall>s w'. (''generate_caption_for_heatmap'', s)
                 \<in> set (snd (invoke (build_graph E self) (initial_state p target r) w))
         \<longrightarrow> generate_caption E self s w' = (Inr (s, empty_state), w')
             \<and> llm_log (snd (generate_caption E self s w')) = llm_log w'
             \<and> apply_update s empty_state = s"
  proof (intro allI impI)
    fix s w'
    assume "(''generate_caption_for_heatmap'', s)
                 \<in> set (snd (invoke (build_graph E self) (initial_state p target r) w))"
    with 1 have "current_plot_context s = Some []" by blast
    then show "generate_caption E self s w' = (Inr (s, empty_state), w')
             \<and> llm_log (snd (generate_caption E self s w')) = llm_log w'
             \<and> apply_update s empty_state = s"
      by (simp add: generate_caption_def apply_update_empty)
  qed
  have 4: "map_of (nodes (build_graph E self)) ''generate_caption_for_heatmap''
       = Some (generate_caption E self)"
    by (simp add: build_graph_def)
  show ?thesis by (intro conjI 1 2 3 4)
qed

theorem graph_context_stays_empty_witness:
  "(''generate_caption_for_heatmap'',
      snd (last (snd (invoke (build_graph example_env example_agent)
                        (initial_state ''data/people.csv'' None example_retriever) world0))))
     \<in> set (snd (invoke (build_graph example_env example_agent)
                   (initial_state ''data/people.csv'' None example_retriever) world0))
   \<and> generate_caption example_env example_agent
        (snd (last (snd (invoke (build_graph example_env example_agent)
                           (initial_state ''data/people.csv'' None example_retriever) world0))))
        world0
      = (Inr (snd (last (snd (invoke (build_graph example_env example_agent)
                           (initial_state ''data/people.csv'' None example_retriever) world0))),
              empty_state), world0)"
proof -
  let ?tr = "snd (invoke (build_graph example_env example_agent)
                   (initial_state ''data/people.csv'' None example_retriever) world0)"
  have agent: "example_agent = answering '' Ages cluster around forty. ''"
    by (simp add: example_agent_def answering_def)
  have names: "map fst ?tr = node_order"
    unfolding agent by (rule example_trace_names)
  then have ne: "?tr \<noteq> []"
    by (auto simp: node_order_def)
  then have "fst (last ?tr) = last (map fst ?tr)"
    by (simp add: last_map)
  with names have "fst (last ?tr) = ''generate_caption_for_heatmap''"
    by (simp add: node_order_def)
  moreover have "last ?tr \<in> set ?tr"
    using ne by simp
  ultimately have mem: "(''generate_caption_for_heatmap'', snd (last ?tr)) \<in> set ?tr"
    by (metis prod.collapse)
  from graph_context_stays_empty [of example_env example_agent "''data/people.csv''" None
          example_retriever world0, THEN conjunct2, THEN conjunct2, THEN conjunct1,
          rule_format, OF mem, of world0]
  have "generate_caption example_env example_agent (snd (last ?tr)) world0
          = (Inr (snd (last ?tr), empty_state), world0)"
    by (rule conjunct1)
  with mem show ?thesis by (rule conjI)
qed



section \<open>The index is built once\<close>

text \<open>
  C7. When something exists at the configured path, \<open>get_retriever\<close> opens the store and
  does nothing else: the world is unchanged, so no build is started. A call that succeeds
  leaves the index in place, so the same call made again returns the same retriever and
  changes nothing. The same holds for \<open>run\<close>, which uses the path \<open>chroma_db\<close>: with an
  index at that path a run starts no build, and after a run that succeeds any further run
  starts no build.
\<close>

theorem ensure_ready_idempotent:
  "(path_exists E w (chroma_db_path rag) \<longrightarrow>
       get_retriever E rag w =
         (case chroma_open E (chroma_db_path rag) (embedding_model rag) of
            Inl e \<Rightarrow> Inl (CustomException e) | Inr r \<Rightarrow> Inr r, w))
   \<and> (\<forall>r w1. get_retriever E rag w = (Inr r, w1) \<longrightarrow> get_retriever E rag w1 = (Inr r, w1))
   \<and> (path_exists E w ''chroma_db'' \<longrightarrow> builds (snd (run E self p target w)) = builds w)
   \<and> (\<forall>res. fst (run E self p target w) = Inr res \<longrightarrow>
         builds (snd (run E self p2 target2 (snd (run E self p target w))))
           = builds (snd (run E self p target w)))"
proof -
  have 1: "path_exists E w (chroma_db_path rag) \<longrightarrow>
       get_retriever E rag w =
         (case chroma_open E (chroma_db_path rag) (embedding_model rag) of
            Inl e \<Rightarrow> Inl (CustomException e) | Inr r \<Rightarrow> Inr r, w)"
    by (simp add: get_retriever_existing)
  have 2: "\<forall>r w1. get_retriever E rag w = (Inr r, w1) \<longrightarrow> get_retriever E rag w1 = (Inr r, w1)"
    by (blast intro: get_retriever_twice)
  have 3: "path_exists E w ''chroma_db'' \<longrightarrow> builds (snd (run E self p target w)) = builds w"
    using run_same_index[of E w self p target] by (simp add: same_index_def)
  have 4: "\<forall>res. fst (run E self p target w) = Inr res \<longrightarrow>
         builds (snd (run E self p2 target2 (snd (run E self p target w))))
           = builds (snd (run E self p target w))"
    using run_same_index[OF run_success_exists, of E self p target w _ self p2 target2]
    by (simp add: same_index_def)
  show ?thesis by (intro conjI 1 2 3 4)
qed

theorem ensure_ready_idempotent_witness:
  "get_retriever fresh_env default_rag world0
     = (Inr example_retriever, world0\<lparr>builds := [''chroma_db''], index_dirs := [''chroma_db'']\<rparr>)
   \<and> get_retriever fresh_env default_rag
        (world0\<lparr>builds := [''chroma_db''], index_dirs := [''chroma_db'']\<rparr>)
     = (Inr example_retriever, world0\<lparr>builds := [''chroma_db''], index_dirs := [''chroma_db'']\<rparr>)
   \<and> get_retriever example_env default_rag world0 = (Inr example_retriever, world0)
   \<and> builds (snd (run example_env example_agent ''data/people.csv'' None world0)) = []
   \<and> builds (snd (run example_env example_agent ''data/people.csv'' None
                     (snd (run example_env example_agent ''data/people.csv'' None world0))))
       = builds (snd (run example_env example_agent ''data/people.csv'' None world0))"
proof -
  have first: "get_retriever fresh_env default_rag world0
     = (Inr example_retriever, world0\<lparr>builds := [''chroma_db''], index_dirs := [''chroma_db'']\<rparr>)"
    by (simp add: get_retriever_def build_vector_db_def default_rag_def RAGPipeline_init_def
          path_exists_def fresh_env_def example_env_def world0_def Let_def)
  have ex: "path_exists example_env world0 (chroma_db_path default_rag)"
    by (simp add: path_exists_def example_env_def default_rag_def RAGPipeline_init_def)
  have ex': "path_exists example_env world0 ''chroma_db''"
    by (simp add: path_exists_def example_env_def)
  have agent: "example_agent = answering '' Ages cluster around forty. ''"
    by (simp add: example_agent_def answering_def)
  have ok: "fst (run example_env example_agent ''data/people.csv'' None world0) =
   Inr \<lparr>info = \<lparr>rows = 2, columns = 3, memory_usage = ''0.48 KB''\<rparr>,
        result_visualizations =
          [[(''title'', ''Distribution of age''), (''path'', ''hist_box_age.png''),
            (''description'', strip '' Ages cluster around forty. '')],
           [(''title'', ''Frequency of city''), (''path'', ''countplot_city.png''),
            (''description'', strip '' Ages cluster around forty. '')]]\<rparr>"
    unfolding agent by (rule example_run)
  note T = ensure_ready_idempotent
  have second: "get_retriever fresh_env default_rag
        (world0\<lparr>builds := [''chroma_db''], index_dirs := [''chroma_db'']\<rparr>)
     = (Inr example_retriever, world0\<lparr>builds := [''chroma_db''], index_dirs := [''chroma_db'']\<rparr>)"
    by (rule T [where E = fresh_env and rag = default_rag and w = world0,
                THEN conjunct2, THEN conjunct1, rule_format, OF first])
  have third: "get_retriever example_env default_rag world0 = (Inr example_retriever, world0)"
    using T [where E = example_env and rag = default_rag and w = world0,
             THEN conjunct1, rule_format, OF ex]
    by (simp add: example_env_def)
  have fourth: "builds (snd (run example_env example_agent ''data/people.csv'' None world0)) = []"
    using T [where E = example_env and w = world0 and self = example_agent
               and p = "''data/people.csv''" and target = None,
             THEN conjunct2, THEN conjunct2, THEN conjunct1, rule_format, OF ex']
    by (simp add: world0_def)
  have fifth: "builds (snd (run example_env example_agent ''data/people.csv'' None
                     (snd (run example_env example_agent ''data/people.csv'' None world0))))
       = builds (snd (run example_env example_agent ''data/people.csv'' None world0))"
    by (rule T [where E = example_env and w = world0 and self = example_agent
               and p = "''data/people.csv''" and target = None,
             THEN conjunct2, THEN conjunct2, THEN conjunct2, rule_format, OF ok])
  show ?thesis by (intro conjI first second third fourth fifth)
qed

section \<open>Plot steps with few columns\<close>

text \<open>
  C5. Take a state whose dataset loads (each plot step loads it before looking at the
  column lists). With an empty numerical list, the numerical step and the correlation step
  raise nothing and leave state and world as they are: no record, no plot file (the
  numerical step returns a dictionary that sets the plot context to the empty one). With
  exactly one numerical column, the correlation step is such a no-op as well, while the
  numerical step, whenever it returns, has appended exactly one record and saved the one
  plot file, and it does return when the column is in the frame, the rendering calls succeed
  and the model answers. With an empty categorical list the categorical step is a no-op.
\<close>

theorem plot_steps_edge_cases:
  assumes "file_path s = Some p" and "get_dataset E p = Inr df"
  shows
  "(numerical_cols s = Some [] \<longrightarrow>
       plot_univariate_numerical E self s w
         = (Inr (s, empty_state\<lparr>current_plot_context := Some []\<rparr>), w)
     \<and> plot_correlation_heatmap E self s w = (Inr (s, empty_state), w))
   \<and> (\<forall>c. numerical_cols s = Some [c] \<longrightarrow>
       plot_correlation_heatmap E self s w = (Inr (s, empty_state), w)
     \<and> (\<forall>s1 u w1. plot_univariate_numerical E self s w = (Inr (s1, u), w1) \<longrightarrow>
           (\<exists>vs e. visualizations s = Some vs \<and> visualizations s1 = Some (vs @ [e]))
           \<and> artifacts w1 = artifacts w @ [''static/plots/hist_box_'' @ c @ ''.png''])
     \<and> (df_getitem df c \<noteq> [] \<and> draw E (HistBox (df_getitem df c)) = None
          \<and> makedirs E ''static/plots'' = None
          \<and> savefig E (HistBox (df_getitem df c)) (''static/plots/hist_box_'' @ c @ ''.png'') = None
          \<and> (\<forall>k q. \<not> isl (llm self k q)) \<and> visualizations s \<noteq> None
        \<longrightarrow> (\<exists>s1 u w1. plot_univariate_numerical E self s w = (Inr (s1, u), w1))))
   \<and> (categorical_cols s = Some [] \<longrightarrow>
       plot_univariate_categorical E self s w = (Inr (s, empty_state), w))"
proof -
  have 1: "numerical_cols s = Some [] \<longrightarrow>
       plot_univariate_numerical E self s w
         = (Inr (s, empty_state\<lparr>current_plot_context := Some []\<rparr>), w)
     \<and> plot_correlation_heatmap E self s w = (Inr (s, empty_state), w)"
    using assms by (simp add: plot_univariate_numerical_empty plot_correlation_heatmap_few)
  have 3: "categorical_cols s = Some [] \<longrightarrow>
       plot_univariate_categorical E self s w = (Inr (s, empty_state), w)"
    using assms by (simp add: plot_univariate_categorical_empty)
  have 2: "\<forall>c. numerical_cols s = Some [c] \<longrightarrow>
       plot_correlation_heatmap E self s w = (Inr (s, empty_state), w)
     \<and> (\<forall>s1 u w1. plot_univariate_numerical E self s w = (Inr (s1, u), w1) \<longrightarrow>
           (\<exists>vs e. visualizations s = Some vs \<and> visualizations s1 = Some (vs @ [e]))
           \<and> artifacts w1 = artifacts w @ [''static/plots/hist_box_'' @ c @ ''.png''])
     \<and> (df_getitem df c \<noteq> [] \<and> draw E (HistBox (df_getitem df c)) = None
          \<and> makedirs E ''static/plots'' = None
          \<and> savefig E (HistBox (df_getitem df c)) (''static/plots/hist_box_'' @ c @ ''.png'') = None
          \<and> (\<forall>k q. \<not> isl (llm self k q)) \<and> visualizations s \<noteq> None
        \<longrightarrow> (\<exists>s1 u w1. plot_univariate_numerical E self s w = (Inr (s1, u), w1)))"
  proof (intro allI impI conjI)
    fix c assume c: "numerical_cols s = Some [c]"
    show "plot_correlation_heatmap E self s w = (Inr (s, empty_state), w)"
      using assms c by (simp add: plot_correlation_heatmap_few)
    have unfold: "plot_univariate_numerical E self s w =
        (case numerical_body E self df c s w of
           (Inl e, w1) \<Rightarrow> (Inl e, w1) | (Inr s1, w1) \<Rightarrow> (Inr (s1, empty_state), w1))"
      using assms c by (simp add: plot_univariate_numerical_def split: prod.splits sum.splits)
    {
      fix s1 u w1
      assume r: "plot_univariate_numerical E self s w = (Inr (s1, u), w1)"
      with unfold have b: "numerical_body E self df c s w = (Inr s1, w1)"
        by (auto split: prod.splits sum.splits)
      from numerical_body_Inr[OF b] obtain e where "appended s [e] s1" by blast
      then show "\<exists>vs e. visualizations s = Some vs \<and> visualizations s1 = Some (vs @ [e])"
        by (auto simp: appended_def)
      from numerical_body_artifacts[OF b]
      show "artifacts w1 = artifacts w @ [''static/plots/hist_box_'' @ c @ ''.png'']"
        by (simp add: path_join_def plots_dir_def)
    }
    assume ok: "df_getitem df c \<noteq> [] \<and> draw E (HistBox (df_getitem df c)) = None
          \<and> makedirs E ''static/plots'' = None
          \<and> savefig E (HistBox (df_getitem df c)) (''static/plots/hist_box_'' @ c @ ''.png'') = None
          \<and> (\<forall>k q. \<not> isl (llm self k q)) \<and> visualizations s \<noteq> None"
    then obtain vs where vs: "visualizations s = Some vs" by auto
    have "\<exists>st1 w1. numerical_body E self df c s w = (Inr st1, w1)"
      by (rule numerical_body_ok[where vs = vs]) (use ok vs in \<open>simp_all add: path_join_def plots_dir_def\<close>)
    with unfold show "\<exists>s1 u w1. plot_univariate_numerical E self s w = (Inr (s1, u), w1)"
      by auto
  qed
  show ?thesis by (intro conjI 1 2 3)
qed

theorem plot_steps_edge_cases_witness:
  "plot_univariate_numerical example_env example_agent state_no_columns world0
     = (Inr (state_no_columns, empty_state\<lparr>current_plot_context := Some []\<rparr>), world0)
   \<and> plot_correlation_heatmap example_env example_agent state_no_columns world0
     = (Inr (state_no_columns, empty_state), world0)
   \<and> plot_univariate_categorical example_env example_agent state_no_columns world0
     = (Inr (state_no_columns, empty_state), world0)
   \<and> plot_correlation_heatmap example_env example_agent state_one_numerical world0
     = (Inr (state_one_numerical, empty_state), world0)
   \<and> (\<exists>s1 u w1 e. plot_univariate_numerical example_env example_agent state_one_numerical world0
                      = (Inr (s1, u), w1)
         \<and> visualizations s1 = Some [e]
         \<and> artifacts w1 = [''static/plots/hist_box_age.png''])"
proof -
  have gd: "get_dataset example_env ''data/people.csv'' = Inr example_df"
    by (simp add: get_dataset_def pd_read_csv_def example_env_def example_df_def)
  have fp0: "file_path state_no_columns = Some ''data/people.csv''"
    and n0: "numerical_cols state_no_columns = Some []"
    and c0: "categorical_cols state_no_columns = Some []"
    by (simp_all add: state_no_columns_def initial_state_def)
  have fp1: "file_path state_one_numerical = Some ''data/people.csv''"
    and n1: "numerical_cols state_one_numerical = Some [''age'']"
    and v1: "visualizations state_one_numerical = Some []"
    by (simp_all add: state_one_numerical_def initial_state_def)
  note none = plot_steps_edge_cases [OF fp0 gd, of example_agent world0]
  note one = plot_steps_edge_cases [OF fp1 gd, of example_agent world0,
               THEN conjunct2, THEN conjunct1, rule_format, OF n1]
  have a: "plot_univariate_numerical example_env example_agent state_no_columns world0
     = (Inr (state_no_columns, empty_state\<lparr>current_plot_context := Some []\<rparr>), world0)
   \<and> plot_correlation_heatmap example_env example_agent state_no_columns world0
     = (Inr (state_no_columns, empty_state), world0)"
    by (rule none [THEN conjunct1, rule_format, OF n0])
  have b: "plot_univariate_categorical example_env example_agent state_no_columns world0
     = (Inr (state_no_columns, empty_state), world0)"
    by (rule none [THEN conjunct2, THEN conjunct2, rule_format, OF c0])
  have c: "plot_correlation_heatmap example_env example_agent state_one_numerical world0
     = (Inr (state_one_numerical, empty_state), world0)"
    by (rule one [THEN conjunct1])
  have ok: "df_getitem example_df ''age'' \<noteq> []
      \<and> draw example_env (HistBox (df_getitem example_df ''age'')) = None
      \<and> makedirs example_env ''static/plots'' = None
      \<and> savefig example_env (HistBox (df_getitem example_df ''age''))
            (''static/plots/hist_box_'' @ ''age'' @ ''.png'') = None
      \<and> (\<forall>k q. \<not> isl (llm example_agent k q))
      \<and> visualizations state_one_numerical \<noteq> None"
    by (simp add: df_getitem_def example_df_def example_env_def example_agent_def v1)
  from one [THEN conjunct2, THEN conjunct2, rule_format, OF ok] obtain s1 u w1 where
    r: "plot_univariate_numerical example_env example_agent state_one_numerical world0
          = (Inr (s1, u), w1)"
    by blast
  from one [THEN conjunct2, THEN conjunct1, rule_format, OF r] v1
  have "(\<exists>e. visualizations s1 = Some [e])
        \<and> artifacts w1 = [''static/plots/hist_box_age.png'']"
    by (auto simp: world0_def)
  with r have d: "\<exists>s1 u w1 e. plot_univariate_numerical example_env example_agent
                      state_one_numerical world0 = (Inr (s1, u), w1)
         \<and> visualizations s1 = Some [e]
         \<and> artifacts w1 = [''static/plots/hist_box_age.png'']"
    by blast
  from a b c d show ?thesis by blast
qed

section \<open>The column lists of the profiler\<close>

text \<open>
  C1, as the code has it. For a loaded dataset (its column labels distinct, as
  \<^verbatim>\<open>read_csv\<close> makes them), whenever the profiling step returns, its three lists have no
  label twice and are pairwise disjoint (the concatenation is distinct), and together they
  hold exactly the labels of the columns whose storage is numerical, textual or categorical:
  a boolean column is in none of them. A textual column that parses as timestamps is in
  \<open>datetime_cols\<close> and not in \<open>categorical_cols\<close>. The step returns whenever the timestamp
  parser raises nothing but \<open>ValueError\<close> and \<open>TypeError\<close>.
\<close>

theorem profile_partition:
  assumes "file_path s = Some p" and "get_dataset E p = Inr df"
    and "distinct (map cname (df_columns df))"
  shows
   "(\<forall>s1 u w1. profile_data_for_plotting E self s w = (Inr (s1, u), w1) \<longrightarrow>
       (\<exists>num cat dt. numerical_cols u = Some num \<and> categorical_cols u = Some cat
          \<and> datetime_cols u = Some dt
          \<and> distinct (num @ cat @ dt)
          \<and> set num \<union> set cat \<union> set dt = cname ` {c \<in> set (df_columns df). cdtype c \<noteq> Bool}
          \<and> (\<forall>c \<in> set (df_columns df).
                cdtype c = Object \<and> to_datetime E (df_getitem df (cname c)) = None
                \<longrightarrow> cname c \<in> set dt \<and> cname c \<notin> set cat)))
    \<and> ((\<forall>cs e. to_datetime E cs = Some e \<longrightarrow> is_ValueError e \<or> is_TypeError e)
        \<longrightarrow> (\<exists>u. profile_data_for_plotting E self s w = (Inr (s, u), w)))"
proof (intro conjI allI impI)
  fix s1 u w1
  assume r: "profile_data_for_plotting E self s w = (Inr (s1, u), w1)"
  note lists = profile_lists[OF assms(1,2) r]
  note sets = partition_sets[OF assms(3), of "\<lambda>col. to_datetime E (df_getitem df col) = None"]
  show "\<exists>num cat dt. numerical_cols u = Some num \<and> categorical_cols u = Some cat
          \<and> datetime_cols u = Some dt
          \<and> distinct (num @ cat @ dt)
          \<and> set num \<union> set cat \<union> set dt = cname ` {c \<in> set (df_columns df). cdtype c \<noteq> Bool}
          \<and> (\<forall>c \<in> set (df_columns df).
                cdtype c = Object \<and> to_datetime E (df_getitem df (cname c)) = None
                \<longrightarrow> cname c \<in> set dt \<and> cname c \<notin> set cat)"
    using lists sets by blast
next
  assume "\<forall>cs e. to_datetime E cs = Some e \<longrightarrow> is_ValueError e \<or> is_TypeError e"
  from datetime_loop_total[OF this, of df "map cname (select_dtypes [SelObject] df)" "[]"]
  obtain r where "datetime_loop E df (map cname (select_dtypes [SelObject] df)) [] = Inr r"
    by blast
  with assms(1,2) show "\<exists>u. profile_data_for_plotting E self s w = (Inr (s, u), w)"
    by (simp add: profile_data_for_plotting_def)
qed

theorem profile_partition_witness:
  "profile_data_for_plotting example_env example_agent
        (initial_state ''data/people.csv'' None example_retriever) world0
      = (Inr (initial_state ''data/people.csv'' None example_retriever,
              empty_state\<lparr>numerical_cols := Some [''age''], categorical_cols := Some [''city''],
                          datetime_cols := Some [''signup_date'']\<rparr>), world0)
   \<and> distinct ([''age''] @ [''city''] @ [''signup_date''])
   \<and> set [''age''] \<union> set [''city''] \<union> set [''signup_date'']
       = cname ` {c \<in> set (df_columns example_df). cdtype c \<noteq> Bool}"
proof -
  let ?s = "initial_state ''data/people.csv'' None example_retriever"
  let ?u = "empty_state\<lparr>numerical_cols := Some [''age''], categorical_cols := Some [''city''],
                          datetime_cols := Some [''signup_date'']\<rparr>"
  have fp: "file_path ?s = Some ''data/people.csv''"
    by (simp add: initial_state_def)
  have gd: "get_dataset example_env ''data/people.csv'' = Inr example_df"
    by (simp add: get_dataset_def pd_read_csv_def example_env_def example_df_def)
  have dist: "distinct (map cname (df_columns example_df))"
    by (simp add: example_df_def)
  have r: "profile_data_for_plotting example_env example_agent ?s world0 = (Inr (?s, ?u), world0)"
    by (simp add: profile_data_for_plotting_def get_dataset_def pd_read_csv_def example_env_def example_df_def
          select_dtypes_def df_getitem_def initial_state_def)
  from profile_partition [OF fp gd dist, of example_agent world0,
         THEN conjunct1, rule_format, OF r]
  obtain num cat dt where
      "numerical_cols ?u = Some num" "categorical_cols ?u = Some cat" "datetime_cols ?u = Some dt"
    and p: "distinct (num @ cat @ dt)"
      "set num \<union> set cat \<union> set dt = cname ` {c \<in> set (df_columns example_df). cdtype c \<noteq> Bool}"
    by blast
  then have "num = [''age'']" "cat = [''city'']" "dt = [''signup_date'']"
    by simp_all
  with p r show ?thesis by simp
qed

text \<open>
  C1 as stated fails: for the dataset whose only column \<open>active\<close> is boolean, the three
  lists are empty, so their union is not the set of the columns.
\<close>

theorem profile_partition_counterexample:
  "get_dataset flag_env ''data/people.csv'' = Inr flag_df
   \<and> map cname (df_columns flag_df) = [''active'']
   \<and> profile_data_for_plotting flag_env example_agent
        (initial_state ''data/people.csv'' None example_retriever) world0
      = (Inr (initial_state ''data/people.csv'' None example_retriever,
              empty_state\<lparr>numerical_cols := Some [], categorical_cols := Some [],
                          datetime_cols := Some []\<rparr>), world0)"
  by (simp add: get_dataset_def pd_read_csv_def flag_env_def example_env_def flag_df_def
        profile_data_for_plotting_def select_dtypes_def initial_state_def)

section \<open>The empty dataset\<close>

text \<open>
  C3, as the code has it. Let the path be a readable file. When the parser finds no column
  in it (an empty file), the loader raises and \<open>run\<close> fails with \<open>CustomException\<close>
  wrapping the \<open>EmptyDataError\<close>, before any step and with the world untouched: a dataset
  of no rows and no columns is never loaded. When the file holds columns and no rows (a
  header line only; pandas reads such columns as text and the timestamp parser accepts
  them), and the collaborators of the run answer (the retriever is obtained, its query and
  the calls of the language model return), the run completes: the profiling step returns
  empty numerical and categorical lists, with every label in the datetime list, no
  visualization record is produced, no plot file is written, and \<open>run\<close> returns the
  summary with 0 rows and the number of columns of the header.
\<close>

theorem zero_row_dataset_run:
  assumes "fs E p = File True content" and "read_csv E content = Inr df"
  shows
   "(df_columns df = [] \<longrightarrow>
       run E self p target w
         = (Inl (CustomException (OtherError ''EmptyDataError'' ''No columns to parse from file'')), w))
    \<and> (df_columns df \<noteq> [] \<and> nrows df = 0
        \<and> (\<forall>c \<in> set (df_columns df).
              cdtype c = Object \<and> to_datetime E (df_getitem df (cname c)) = None)
        \<and> get_retriever E (RAGPipeline_init None ''chroma_db'' ''nomic-embed-text'') w = (Inr r, w1)
        \<and> \<not> isl (r (insights_query [] [])) \<and> (\<forall>k q. \<not> isl (llm self k q))
       \<longrightarrow> fst (run E self p target w)
             = Inr \<lparr>info = \<lparr>rows = 0, columns = length (df_columns df),
                             memory_usage = memory_usage_kb E df\<rparr>,
                    result_visualizations = []\<rparr>
           \<and> artifacts (snd (run E self p target w)) = artifacts w
           \<and> profile_data_for_plotting E self (initial_state p target r) w1
               = (Inr (initial_state p target r,
                       empty_state\<lparr>numerical_cols := Some [], categorical_cols := Some [],
                                   datetime_cols := Some (map cname (df_columns df))\<rparr>), w1))"
proof (rule conjI; rule impI)
  assume "df_columns df = []"
  with assms show "run E self p target w
         = (Inl (CustomException (OtherError ''EmptyDataError'' ''No columns to parse from file'')), w)"
    by (simp add: run_def isfile_def get_dataset_def pd_read_csv_def)
next
  assume h: "df_columns df \<noteq> [] \<and> nrows df = 0
        \<and> (\<forall>c \<in> set (df_columns df).
              cdtype c = Object \<and> to_datetime E (df_getitem df (cname c)) = None)
        \<and> get_retriever E (RAGPipeline_init None ''chroma_db'' ''nomic-embed-text'') w = (Inr r, w1)
        \<and> \<not> isl (r (insights_query [] [])) \<and> (\<forall>k q. \<not> isl (llm self k q))"
  then have cols: "df_columns df \<noteq> []" and rows: "nrows df = 0"
    and ts: "\<forall>c \<in> set (df_columns df).
              cdtype c = Object \<and> to_datetime E (df_getitem df (cname c)) = None"
    and gr: "get_retriever E (RAGPipeline_init None ''chroma_db'' ''nomic-embed-text'') w = (Inr r, w1)"
    and rq: "\<not> isl (r (insights_query [] []))" and lm: "\<forall>k q. \<not> isl (llm self k q)"
    by blast+
  have gd: "get_dataset E p = Inr df"
    using assms cols by (simp add: get_dataset_def pd_read_csv_def)
  have isf: "isfile E p"
    using assms(1) by (simp add: isfile_def)
  define s0 where "s0 = initial_state p target r"
  define s1 where "s1 = s0\<lparr>numerical_cols := Some [], categorical_cols := Some [],
                           datetime_cols := Some (map cname (df_columns df))\<rparr>"
  have prof: "profile_data_for_plotting E self s0 w1 =
     (Inr (s0, empty_state\<lparr>numerical_cols := Some [], categorical_cols := Some [],
                          datetime_cols := Some (map cname (df_columns df))\<rparr>), w1)"
    by (rule profile_all_timestamps[where p = p]) (use gd ts in \<open>simp_all add: s0_def initial_state_def\<close>)
  have up0: "apply_update s0 (empty_state\<lparr>numerical_cols := Some [], categorical_cols := Some [],
                          datetime_cols := Some (map cname (df_columns df))\<rparr>) = s1"
    by (simp add: s1_def s0_def apply_update_def empty_state_def overwrite_def add_lists_def
          initial_state_def)
  have "\<exists>summary w2. get_contextual_insights E self s1 w1
           = (Inr (s1, empty_state\<lparr>insights := Some [summary]\<rparr>), w2) \<and> artifacts w2 = artifacts w1"
    by (rule get_contextual_insights_ok[where r = r])
       (use rq lm in \<open>simp_all add: s1_def s0_def initial_state_def\<close>)
  then obtain summary w2 where
      ins: "get_contextual_insights E self s1 w1
              = (Inr (s1, empty_state\<lparr>insights := Some [summary]\<rparr>), w2)"
    and art: "artifacts w2 = artifacts w1"
    by blast
  define s2 where "s2 = s1\<lparr>insights := Some [summary]\<rparr>"
  have up1: "apply_update s1 (empty_state\<lparr>insights := Some [summary]\<rparr>) = s2"
    by (simp add: s2_def s1_def s0_def apply_update_def empty_state_def overwrite_def add_lists_def
          initial_state_def)
  have s2: "file_path s2 = Some p" "numerical_cols s2 = Some []" "categorical_cols s2 = Some []"
    "current_plot_context s2 = Some []" "visualizations s2 = Some []"
    by (simp_all add: s2_def s1_def s0_def initial_state_def)
  have num: "plot_univariate_numerical E self s2 w2
               = (Inr (s2, empty_state\<lparr>current_plot_context := Some []\<rparr>), w2)"
    using s2 gd by (simp add: plot_univariate_numerical_empty)
  have up2: "apply_update s2 (empty_state\<lparr>current_plot_context := Some []\<rparr>) = s2"
    using s2(4) by (simp add: apply_update_def empty_state_def overwrite_def add_lists_def)
  have cat: "plot_univariate_categorical E self s2 w2 = (Inr (s2, empty_state), w2)"
    using s2 gd by (simp add: plot_univariate_categorical_empty)
  have heat: "plot_correlation_heatmap E self s2 w2 = (Inr (s2, empty_state), w2)"
    using s2 gd by (simp add: plot_correlation_heatmap_few)
  have cap: "generate_caption E self s2 w2 = (Inr (s2, empty_state), w2)"
    using s2 by (simp add: generate_caption_def)
  have inv: "invoke (build_graph E self) (initial_state p target r) w1
               = ((Inr s2, w2),
                  [(''profile_data'', s0), (''get_contextual_insights'', s1),
                   (''plot_univariate_numerical'', s2), (''plot_univariate_categorical'', s2),
                   (''plot_correlation_heatmap'', s2), (''generate_caption_for_heatmap'', s2)])"
    unfolding invoke_build_graph initial_state_merged
    by (simp add: build_graph_def s0_def[symmetric] prof up0 ins up1 num up2 cat heat cap
          apply_update_empty)
  have run: "run E self p target w
      = (Inr \<lparr>info = \<lparr>rows = 0, columns = length (df_columns df),
                      memory_usage = memory_usage_kb E df\<rparr>,
                  result_visualizations = []\<rparr>, w2)"
    using isf gd rows gr inv s2(5) by (simp add: run_def shape_def)
  from get_retriever_artifacts[OF gr] art have "artifacts w2 = artifacts w" by simp
  with run prof show "fst (run E self p target w)
             = Inr \<lparr>info = \<lparr>rows = 0, columns = length (df_columns df),
                             memory_usage = memory_usage_kb E df\<rparr>,
                    result_visualizations = []\<rparr>
           \<and> artifacts (snd (run E self p target w)) = artifacts w
           \<and> profile_data_for_plotting E self (initial_state p target r) w1
               = (Inr (initial_state p target r,
                       empty_state\<lparr>numerical_cols := Some [], categorical_cols := Some [],
                                   datetime_cols := Some (map cname (df_columns df))\<rparr>), w1)"
    by (simp add: s0_def)
qed

theorem zero_row_dataset_run_witness:
  "run empty_env example_agent ''data/people.csv'' None world0
     = (Inl (CustomException (OtherError ''EmptyDataError'' ''No columns to parse from file'')), world0)
   \<and> fst (run header_env example_agent ''data/people.csv'' None world0)
     = Inr \<lparr>info = \<lparr>rows = 0, columns = 3, memory_usage = ''0.48 KB''\<rparr>,
            result_visualizations = []\<rparr>
   \<and> artifacts (snd (run header_env example_agent ''data/people.csv'' None world0)) = []
   \<and> profile_data_for_plotting header_env example_agent
        (initial_state ''data/people.csv'' None example_retriever) world0
      = (Inr (initial_state ''data/people.csv'' None example_retriever,
              empty_state\<lparr>numerical_cols := Some [], categorical_cols := Some [],
                          datetime_cols := Some [''age'', ''city'', ''signup_date'']\<rparr>), world0)"
proof -
  have e1: "fs empty_env ''data/people.csv'' = File True []"
    by (simp add: empty_env_def example_env_def)
  have e2: "read_csv empty_env [] = Inr empty_df"
    by (simp add: empty_env_def)
  have e3: "df_columns empty_df = []"
    by (simp add: empty_df_def)
  have a: "run empty_env example_agent ''data/people.csv'' None world0
     = (Inl (CustomException (OtherError ''EmptyDataError'' ''No columns to parse from file'')), world0)"
    using zero_row_dataset_run [OF e1 e2, THEN conjunct1, rule_format, OF e3,
            of example_agent None world0]
    by simp
  have h1: "fs header_env ''data/people.csv'' = File True ''age,city,signup_date''"
    by (simp add: header_env_def example_env_def)
  have h2: "read_csv header_env ''age,city,signup_date'' = Inr header_df"
    by (simp add: header_env_def)
  have h3: "df_columns header_df \<noteq> [] \<and> nrows header_df = 0
        \<and> (\<forall>c \<in> set (df_columns header_df).
              cdtype c = Object \<and> to_datetime header_env (df_getitem header_df (cname c)) = None)
        \<and> get_retriever header_env (RAGPipeline_init None ''chroma_db'' ''nomic-embed-text'') world0
            = (Inr example_retriever, world0)
        \<and> \<not> isl (example_retriever (insights_query [] []))
        \<and> (\<forall>k q. \<not> isl (llm example_agent k q))"
    by (simp add: header_df_def header_env_def example_env_def get_retriever_def
          RAGPipeline_init_def path_exists_def example_retriever_def example_agent_def)
  from zero_row_dataset_run [OF h1 h2, THEN conjunct2, rule_format, OF h3, of None]
  have b: "fst (run header_env example_agent ''data/people.csv'' None world0)
     = Inr \<lparr>info = \<lparr>rows = 0, columns = 3, memory_usage = ''0.48 KB''\<rparr>,
            result_visualizations = []\<rparr>
   \<and> artifacts (snd (run header_env example_agent ''data/people.csv'' None world0)) = []
   \<and> profile_data_for_plotting header_env example_agent
        (initial_state ''data/people.csv'' None example_retriever) world0
      = (Inr (initial_state ''data/people.csv'' None example_retriever,
              empty_state\<lparr>numerical_cols := Some [], categorical_cols := Some [],
                          datetime_cols := Some [''age'', ''city'', ''signup_date'']\<rparr>), world0)"
    by (simp add: header_df_def header_env_def example_env_def world0_def)
  from a b show ?thesis by (rule conjI)
qed

text \<open>
  C3 as stated fails: for the empty file the parser finds no column, and \<open>run\<close> raises
  instead of returning a summary with 0 rows and 0 columns.
\<close>

theorem empty_file_counterexample:
  "fs empty_env ''data/people.csv'' = File True []
   \<and> read_csv empty_env [] = Inr \<lparr>df_columns = [], nrows = 0\<rparr>
   \<and> run empty_env example_agent ''data/people.csv'' None world0
     = (Inl (CustomException (OtherError ''EmptyDataError'' ''No columns to parse from file'')), world0)"
  by (simp add: run_def isfile_def get_dataset_def pd_read_csv_def empty_env_def example_env_def
        empty_df_def)

section \<open>The order of the steps\<close>

text \<open>
  C8, as the code has it. A run of the graph, whatever the input state and the world, is the
  six step functions applied one after the other, in the order profile, contextual insights,
  numerical plots, categorical plots, correlation plot and caption generator (the node
  \<open>generate_caption_for_heatmap\<close>): each is started on the state the one before has left,
  with its dictionary merged; a step that raises ends the run, and nothing is retried. So the
  nodes started are an initial segment of these six, the whole list when the run succeeds, a
  non-empty part of it otherwise, and no node runs twice. The graph itself is this chain:
  the entry point is the first node, every node has exactly one outgoing edge, to the next
  node, and the last one leads to \<open>END\<close>.
\<close>

theorem workflow_six_steps:
  "invoke (build_graph E self) input w
     = run_chain
         [(''profile_data'', profile_data_for_plotting E self),
          (''get_contextual_insights'', get_contextual_insights E self),
          (''plot_univariate_numerical'', plot_univariate_numerical E self),
          (''plot_univariate_categorical'', plot_univariate_categorical E self),
          (''plot_correlation_heatmap'', plot_correlation_heatmap E self),
          (''generate_caption_for_heatmap'', generate_caption E self)]
         (apply_update empty_state input) w
   \<and> map fst (snd (invoke (build_graph E self) input w))
     = take (length (snd (invoke (build_graph E self) input w))) node_order
   \<and> (\<forall>sf. fst (fst (invoke (build_graph E self) input w)) = Inr sf \<longrightarrow>
         map fst (snd (invoke (build_graph E self) input w)) = node_order)
   \<and> (\<forall>e. fst (fst (invoke (build_graph E self) input w)) = Inl e \<longrightarrow>
         0 < length (snd (invoke (build_graph E self) input w))
         \<and> length (snd (invoke (build_graph E self) input w)) \<le> 6)
   \<and> distinct node_order
   \<and> entry_point (build_graph E self) = hd node_order
   \<and> map fst (edges (build_graph E self)) = node_order
   \<and> map snd (edges (build_graph E self)) = tl node_order @ [END]
   \<and> map fst (nodes (build_graph E self)) = node_order"
proof -
  have names: "map fst (nodes (build_graph E self)) = node_order"
    by (simp add: build_graph_def node_order_def)
  have len: "length (nodes (build_graph E self)) = 6"
    by (simp add: build_graph_def)
  have 0: "invoke (build_graph E self) input w
     = run_chain
         [(''profile_data'', profile_data_for_plotting E self),
          (''get_contextual_insights'', get_contextual_insights E self),
          (''plot_univariate_numerical'', plot_univariate_numerical E self),
          (''plot_univariate_categorical'', plot_univariate_categorical E self),
          (''plot_correlation_heatmap'', plot_correlation_heatmap E self),
          (''generate_caption_for_heatmap'', generate_caption E self)]
         (apply_update empty_state input) w"
    unfolding invoke_build_graph by (simp only: build_graph_def graph.simps)
  have 1: "map fst (snd (invoke (build_graph E self) input w))
     = take (length (snd (invoke (build_graph E self) input w))) node_order"
    unfolding invoke_build_graph using run_chain_trace_take[of "nodes (build_graph E self)"]
    by (simp add: names)
  have 2: "\<forall>sf. fst (fst (invoke (build_graph E self) input w)) = Inr sf \<longrightarrow>
         map fst (snd (invoke (build_graph E self) input w)) = node_order"
    unfolding invoke_build_graph using run_chain_trace_complete[of "nodes (build_graph E self)"]
    by (simp add: names)
  have 3: "\<forall>e. fst (fst (invoke (build_graph E self) input w)) = Inl e \<longrightarrow>
         0 < length (snd (invoke (build_graph E self) input w))
         \<and> length (snd (invoke (build_graph E self) input w)) \<le> 6"
    unfolding invoke_build_graph using run_chain_trace_failed[of "nodes (build_graph E self)"]
    by (simp add: len)
  have 4: "distinct node_order"
    by (simp add: node_order_def)
  have 5: "entry_point (build_graph E self) = hd node_order"
    by (simp add: build_graph_def node_order_def)
  have 6: "map fst (edges (build_graph E self)) = node_order"
    by (simp add: build_graph_def node_order_def)
  have 7: "map snd (edges (build_graph E self)) = tl node_order @ [END]"
    by (simp add: build_graph_def node_order_def)
  show ?thesis
    by (intro conjI 0 1 2 3 4 5 6 7 names)
qed

theorem workflow_six_steps_witness:
  "map fst (snd (invoke (build_graph example_env example_agent)
                   (initial_state ''data/people.csv'' None example_retriever) world0))
   = [''profile_data'', ''get_contextual_insights'', ''plot_univariate_numerical'',
      ''plot_univariate_categorical'', ''plot_correlation_heatmap'',
      ''generate_caption_for_heatmap'']"
proof -
  obtain sf where "fst (fst (invoke (build_graph example_env example_agent)
                    (initial_state ''data/people.csv'' None example_retriever) world0)) = Inr sf"
    using example_invoke[of "'' Ages cluster around forty. ''"] by (auto simp: example_agent_def answering_def)
  then show ?thesis
    using workflow_six_steps [of example_env example_agent
            "initial_state ''data/people.csv'' None example_retriever" world0,
            THEN conjunct2, THEN conjunct2, THEN conjunct1, rule_format, of sf]
    by (simp only: node_order_def)
qed

text \<open>
  C8 as stated fails: the correlation step is not followed by the end of the run but by a
  sixth step, the caption generator. In the example run six nodes are started; and started on
  an input whose plot context is pending, that sixth step calls the model and appends a
  record of its own.
\<close>

theorem sixth_step_counterexample:
  "map fst (snd (invoke (build_graph example_env (answering '' Ages cluster around forty. ''))
                   (initial_state ''data/people.csv'' None example_retriever) world0))
   = [''profile_data'', ''get_contextual_insights'', ''plot_univariate_numerical'',
      ''plot_univariate_categorical'', ''plot_correlation_heatmap'',
      ''generate_caption_for_heatmap'']
   \<and> (case fst (fst (invoke (build_graph example_env example_agent) pending_input world0)) of
        Inl e \<Rightarrow> None
      | Inr sf \<Rightarrow> visualizations sf)
     = Some [[(''title'', ''Distribution of age''), (''path'', ''hist_box_age.png''),
              (''description'', ''Ages cluster around forty.'')],
             [(''title'', ''Frequency of city''), (''path'', ''countplot_city.png''),
              (''description'', ''Ages cluster around forty.'')],
             [(''plot_type'', ''Scatter Plot''), (''details'', ''the dataset''),
              (''caption'', ''Ages cluster around forty.'')]]"
proof -
  have "map fst (snd (invoke (build_graph example_env (answering '' Ages cluster around forty. ''))
                   (initial_state ''data/people.csv'' None example_retriever) world0))
   = [''profile_data'', ''get_contextual_insights'', ''plot_univariate_numerical'',
      ''plot_univariate_categorical'', ''plot_correlation_heatmap'',
      ''generate_caption_for_heatmap'']"
    using example_trace_names[of "'' Ages cluster around forty. ''"] by (simp only: node_order_def)
  then show ?thesis using example_pending_run by (rule conjI)
qed

section \<open>The captions of the records\<close>

text \<open>
  C2, as the code has it. Every record of the dashboard is appended right after the call of
  the language model that was made for it, and its caption (the key \<open>description\<close>) is the
  content of the response to that call with the white space of both ends removed. For a run
  that succeeds, the records of the result are, in order, the records of calls of the model
  that were made during the run, one call per record, each call sent with the prompt of the
  record's chart and answered by the model with the content the caption is stripped from.
  The same holds for the state every node of the graph is started on, so also for the
  records of a run that fails later. At each of the three places where a record is appended
  (the bodies of the two loops and the correlation step), the model has just been called
  with the prompt of the chart, the call is the last of the log, and the record appended is
  the record of that call. The code does not look at the stripped text: the caption of the
  record of a call is empty exactly when the response is made of white space only.
\<close>

theorem captions_are_model_responses:
  "(\<forall>res. fst (run E self p target w) = Inr res \<longrightarrow>
      (\<exists>calls. result_visualizations res = map call_record calls
         \<and> calls_logged self (length (llm_log w)) (snd (run E self p target w)) calls))
   \<and> (\<forall>r n s. (n, s) \<in> set (snd (invoke (build_graph E self) (initial_state p target r) w)) \<longrightarrow>
         (\<exists>calls. visualizations s = Some (map call_record calls)
            \<and> calls_logged self (length (llm_log w))
                 (snd (fst (invoke (build_graph E self) (initial_state p target r) w))) calls))
   \<and> (\<forall>df col st st1 w1. numerical_body E self df col st w = (Inr st1, w1) \<longrightarrow>
         (\<exists>content. appends_call self st w (length (llm_log w), Hist col, content) st1 w1))
   \<and> (\<forall>df col st st1 w1. categorical_body E self df col st w = (Inr st1, w1) \<longrightarrow>
         (\<exists>content. appends_call self st w (length (llm_log w), Count col, content) st1 w1))
   \<and> (\<forall>st st1 u w1 cols. plot_correlation_heatmap E self st w = (Inr (st1, u), w1) \<longrightarrow>
         numerical_cols st = Some cols \<longrightarrow> 2 \<le> length cols \<longrightarrow>
         (\<exists>content. appends_call self st w (length (llm_log w), Corr, content) st1 w1))
   \<and> (\<forall>x. description (call_record x) = Some (strip (call_content x)))
   \<and> (\<forall>x. (description (call_record x) = Some []) = blank (call_content x))"
proof -
  have 1: "\<forall>res. fst (run E self p target w) = Inr res \<longrightarrow>
      (\<exists>calls. result_visualizations res = map call_record calls
         \<and> calls_logged self (length (llm_log w)) (snd (run E self p target w)) calls)"
    by (blast intro: run_recorded)
  have 2: "\<forall>r n s. (n, s) \<in> set (snd (invoke (build_graph E self) (initial_state p target r) w)) \<longrightarrow>
         (\<exists>calls. visualizations s = Some (map call_record calls)
            \<and> calls_logged self (length (llm_log w))
                 (snd (fst (invoke (build_graph E self) (initial_state p target r) w))) calls)"
  proof (intro allI impI)
    fix r n s
    assume "(n, s) \<in> set (snd (invoke (build_graph E self) (initial_state p target r) w))"
    with invoke_recorded[of E self p target r w, THEN conjunct1]
    have "recorded self (length (llm_log w)) s
            (snd (fst (invoke (build_graph E self) (initial_state p target r) w)))"
      by blast
    then show "\<exists>calls. visualizations s = Some (map call_record calls)
            \<and> calls_logged self (length (llm_log w))
                 (snd (fst (invoke (build_graph E self) (initial_state p target r) w))) calls"
      unfolding recorded_def by blast
  qed
  have 3: "\<forall>df col st st1 w1. numerical_body E self df col st w = (Inr st1, w1) \<longrightarrow>
         (\<exists>content. appends_call self st w (length (llm_log w), Hist col, content) st1 w1)"
    by (blast intro: numerical_body_appends)
  have 4: "\<forall>df col st st1 w1. categorical_body E self df col st w = (Inr st1, w1) \<longrightarrow>
         (\<exists>content. appends_call self st w (length (llm_log w), Count col, content) st1 w1)"
    by (blast intro: categorical_body_appends)
  have 5: "\<forall>st st1 u w1 cols. plot_correlation_heatmap E self st w = (Inr (st1, u), w1) \<longrightarrow>
         numerical_cols st = Some cols \<longrightarrow> 2 \<le> length cols \<longrightarrow>
         (\<exists>content. appends_call self st w (length (llm_log w), Corr, content) st1 w1)"
  proof (intro allI impI)
    fix st st1 u w1 cols
    assume "plot_correlation_heatmap E self st w = (Inr (st1, u), w1)"
      and "numerical_cols st = Some cols" and "2 \<le> length cols"
    with plot_correlation_heatmap_appends[of E self st w st1 u w1]
    show "\<exists>content. appends_call self st w (length (llm_log w), Corr, content) st1 w1"
      by auto
  qed
  have 6: "\<forall>x. description (call_record x) = Some (strip (call_content x))"
    by (simp add: description_call_record)
  have 7: "\<forall>x. (description (call_record x) = Some []) = blank (call_content x)"
    by (simp add: description_call_record strip_empty_iff)
  show ?thesis
    by (intro conjI 1 2 3 4 5 6 7)
qed

theorem captions_are_model_responses_witness:
  "fst (run example_env example_agent ''data/people.csv'' None world0) =
     Inr \<lparr>info = \<lparr>rows = 2, columns = 3, memory_usage = ''0.48 KB''\<rparr>,
        result_visualizations =
          [[(''title'', ''Distribution of age''), (''path'', ''hist_box_age.png''),
            (''description'', ''Ages cluster around forty.'')],
           [(''title'', ''Frequency of city''), (''path'', ''countplot_city.png''),
            (''description'', ''Ages cluster around forty.'')]]\<rparr>
   \<and> map description
         [[(''title'', ''Distribution of age''), (''path'', ''hist_box_age.png''),
           (''description'', ''Ages cluster around forty.'')],
          [(''title'', ''Frequency of city''), (''path'', ''countplot_city.png''),
           (''description'', ''Ages cluster around forty.'')]]
       = [Some (strip '' Ages cluster around forty. ''), Some (strip '' Ages cluster around forty. '')]"
proof -
  let ?recs = "[[(''title'', ''Distribution of age''), (''path'', ''hist_box_age.png''),
            (''description'', ''Ages cluster around forty.'')],
           [(''title'', ''Frequency of city''), (''path'', ''countplot_city.png''),
            (''description'', ''Ages cluster around forty.'')]]"
  let ?res = "\<lparr>info = \<lparr>rows = 2, columns = 3, memory_usage = ''0.48 KB''\<rparr>,
        result_visualizations = ?recs\<rparr>"
  have agent: "example_agent = answering '' Ages cluster around forty. ''"
    by (simp add: example_agent_def answering_def)
  have run: "fst (run example_env example_agent ''data/people.csv'' None world0) = Inr ?res"
    unfolding agent using example_run[of "'' Ages cluster around forty. ''"]
    by (simp only: strip_example)
  from captions_are_model_responses [of example_env example_agent "''data/people.csv''" None world0,
         THEN conjunct1, rule_format, OF run]
  obtain calls where recs: "result_visualizations ?res = map call_record calls"
    and logged: "calls_logged example_agent (length (llm_log world0))
                   (snd (run example_env example_agent ''data/people.csv'' None world0)) calls"
    by blast
  from recs have len: "length calls = 2"
    by (simp only: results.simps) (metis length_map length_Cons list.size(3) numeral_2_eq_2)
  have content: "\<forall>x \<in> set calls. call_content x = '' Ages cluster around forty. ''"
    using logged by (auto simp: calls_logged_def example_agent_def)
  from recs have "map description ?recs = map description (map call_record calls)"
    by simp
  also have "\<dots> = map (\<lambda>x. Some (strip (call_content x))) calls"
    by (simp add: description_call_record)
  also have "\<dots> = map (\<lambda>x. Some (strip '' Ages cluster around forty. '')) calls"
    using content by simp
  also have "\<dots> = [Some (strip '' Ages cluster around forty. ''), Some (strip '' Ages cluster around forty. '')]"
    using len by (cases calls; cases "tl calls") auto
  finally have "map description ?recs
       = [Some (strip '' Ages cluster around forty. ''), Some (strip '' Ages cluster around forty. '')]" .
  with run show ?thesis by (rule conjI)
qed

text \<open>
  C2 as stated fails: when the model answers with two spaces, the run succeeds and both
  records are appended with the empty string as caption.
\<close>

theorem blank_caption_counterexample:
  "fst (run example_env (answering ''  '') ''data/people.csv'' None world0) =
     Inr \<lparr>info = \<lparr>rows = 2, columns = 3, memory_usage = ''0.48 KB''\<rparr>,
        result_visualizations =
          [[(''title'', ''Distribution of age''), (''path'', ''hist_box_age.png''),
            (''description'', '''')],
           [(''title'', ''Frequency of city''), (''path'', ''countplot_city.png''),
            (''description'', '''')]]\<rparr>"
  using example_run[of "''  ''"] by (simp only: strip_blank)

end
